theory Spec2Isabelle
  imports Main "HOL-Library.Word" "HOL-Library.AList"
begin

unbundle bit_operations_syntax

section \<open>Overture datastore: Store and WindowedQuery\<close>

text \<open>
  A shallow embedding of \<^verbatim>\<open>source/datastore/store/Store.js\<close> and
  \<^verbatim>\<open>source/datastore/query/WindowedQuery.js\<close>.  Store keys, record ids, account
  ids and query state tokens are JavaScript strings; the empty string is the falsy
  string, exactly as in the source.
\<close>

text \<open>
  Store keys are minted by \<^verbatim>\<open>generateStoreKey\<close> (Store.js, lines 50-55) as the
  string \<^verbatim>\<open>'k' + nextStoreKey\<close>; the constructor \<open>K n\<close> stands for the string
  \<^verbatim>\<open>'k'\<close> followed by the decimal numeral of \<open>n\<close>.  Such a string is never
  falsy.
\<close>

datatype storeKey = K nat

type_synonym ident = string
type_synonym accountId = string

section \<open>Values and objects\<close>

text \<open>
  Attribute values.  \<open>VUndefined\<close> is the value of a property that is present but holds \<^verbatim>\<open>undefined\<close>; reading an absent property
  gives \<open>VUndefined\<close> as well (see \<open>js_get\<close>).
\<close>

datatype jsval =
    VUndefined
  | VNull
  | VBool bool
  | VNum int
  | VStr string
  | VArr "jsval list"
  | VObj "(string \<times> jsval) list"

text \<open>
  A data hash is an object with string keys; an association list keeps the order in
  which \<^verbatim>\<open>for (key in obj)\<close> enumerates them.
\<close>

type_synonym jsobj = "(string \<times> jsval) list"

definition js_get :: "jsobj \<Rightarrow> string \<Rightarrow> jsval" where
  "js_get obj key = (case map_of obj key of None \<Rightarrow> VUndefined | Some v \<Rightarrow> v)"

definition js_in :: "string \<Rightarrow> jsobj \<Rightarrow> bool" where
  "js_in key obj = (map_of obj key \<noteq> None)"

definition js_set :: "string \<Rightarrow> jsval \<Rightarrow> jsobj \<Rightarrow> jsobj" where
  "js_set key v obj = AList.update key v obj"

definition js_keys :: "jsobj \<Rightarrow> string list" where
  "js_keys obj = map fst obj"

text \<open>JavaScript truthiness of a value.\<close>

fun truthy :: "jsval \<Rightarrow> bool" where
  "truthy VUndefined = False"
| "truthy VNull = False"
| "truthy (VBool b) = b"
| "truthy (VNum n) = (n \<noteq> 0)"
| "truthy (VStr s) = (s \<noteq> [])"
| "truthy (VArr xs) = True"
| "truthy (VObj kvs) = True"

text \<open>
  Modelled from the spec: \<^verbatim>\<open>isEqual\<close> of core/Core.js is not among the sources;
  it is the deep comparison of two values, here structural equality.
\<close>

definition isEqual :: "jsval \<Rightarrow> jsval \<Rightarrow> bool" where
  "isEqual a b = (a = b)"

text \<open>\<^verbatim>\<open>Object.assign(target, source)\<close>.\<close>

definition object_assign :: "jsobj \<Rightarrow> jsobj \<Rightarrow> jsobj" where
  "object_assign target source = fold (\<lambda>(k, v) acc. js_set k v acc) source target"

text \<open>
  Modelled from the spec: \<^verbatim>\<open>filter\<close> of core/KeyValue.js is not among the sources;
  \<^verbatim>\<open>filterObject(obj, include)\<close> keeps the properties of \<^verbatim>\<open>obj\<close> whose key is
  in \<^verbatim>\<open>include\<close>.
\<close>

definition filterObject :: "(string \<times> 'a) list \<Rightarrow> string list \<Rightarrow> (string \<times> 'a) list" where
  "filterObject obj include = filter (\<lambda>(k, v). k \<in> set include) obj"

section \<open>Status\<close>

text \<open>
  Modelled from the spec: record/Status.js is not among the sources.  The status is a
  machine word; each name of section 3.2 of the specification is one bit, in the order
  of the table there.  \<^verbatim>\<open>EMPTY\<close>, \<^verbatim>\<open>READY\<close>, \<^verbatim>\<open>DESTROYED\<close> and
  \<^verbatim>\<open>NON_EXISTENT\<close> are the core states.
\<close>

type_synonym status = "32 word"

definition EMPTY :: status where "EMPTY = 1"
definition READY :: status where "READY = 2"
definition DESTROYED :: status where "DESTROYED = 4"
definition NON_EXISTENT :: status where "NON_EXISTENT = 8"
definition LOADING :: status where "LOADING = 16"
definition COMMITTING :: status where "COMMITTING = 32"
definition NEW :: status where "NEW = 64"
definition DIRTY :: status where "DIRTY = 128"
definition OBSOLETE :: status where "OBSOLETE = 256"

lemmas status_defs =
  EMPTY_def READY_def DESTROYED_def NON_EXISTENT_def LOADING_def COMMITTING_def
  NEW_def DIRTY_def OBSOLETE_def

section \<open>The store\<close>

subsection \<open>Record types, record instances, accounts\<close>

text \<open>
  A record class, as far as the store inspects it: \<open>typeId\<close> is \<^verbatim>\<open>guid(Type)\<close>,
  \<open>idAttrKey\<close> the wire name of the primary key
  (\<^verbatim>\<open>Type.prototype[idPropKey].key || idPropKey\<close>), \<open>clientSettable\<close> the keys of
  \<^verbatim>\<open>Record.getClientSettableAttributes(Type)\<close>, and \<open>defaultValue\<close> the default
  value declared for each attribute key (\<^verbatim>\<open>proto[attrs[attrKey]].defaultValue\<close>).
  The attribute classes these are computed from are not among the sources, so they
  are fields.  Neither are \<^verbatim>\<open>ToOneAttribute\<close> and \<^verbatim>\<open>ToManyAttribute\<close>, which
  alone make \<^verbatim>\<open>getForeignRefAttrs(Type)\<close> non-empty: the model covers record types
  without such attributes, for which \<^verbatim>\<open>convertForeignKeysToSK\<close> and
  \<^verbatim>\<open>convertForeignKeysToId\<close> return the data as they got it.
\<close>

record rtype =
  typeId :: string
  idAttrKey :: string
  clientSettable :: "string list"
  defaultValue :: "(string \<times> jsval) list"

text \<open>
  The materialised \<^verbatim>\<open>O.Record\<close> instance of a store key, as far as the store looks
  at it: whether it has observers, and the store key it is bound to.
\<close>

record recordObj =
  hasObservers :: bool
  boundStoreKey :: storeKey

text \<open>The account object built by \<^verbatim>\<open>addAccount\<close> (Store.js, lines 447-470).\<close>

record account =
  accountCapabilities :: "string list"
  typeStatus :: "string \<Rightarrow> status"
  clientState :: "string \<Rightarrow> string option"
  serverState :: "string \<Rightarrow> string option"
  typeToIdToSK :: "string \<Rightarrow> (ident \<rightharpoonup> storeKey)"
  ignoreServerState :: bool

text \<open>
  The change entries handed to \<^verbatim>\<open>source.commitChanges\<close>, built by
  \<^verbatim>\<open>getEntry\<close> (Store.js, lines 737-764).
\<close>

record moveFrom =
  copyFromIds :: "ident option list"
  move_storeKeys :: "storeKey list"
  move_records :: "jsobj list"
  move_changes :: "(string \<times> bool) list option list"

record changeEntry =
  entryType :: rtype
  entryAccountId :: accountId
  primaryKey :: string
  create_storeKeys :: "storeKey list"
  create_records :: "jsobj list"
  update_storeKeys :: "storeKey list"
  update_records :: "jsobj list"
  update_committed :: "jsobj option list"
  update_changes :: "(string \<times> bool) list list"
  moveFromAccount :: "(jsval \<times> moveFrom) list"
  destroy_storeKeys :: "storeKey list"
  destroy_ids :: "ident option list"
  entryState :: "string option"

text \<open>
  Calls that leave the store: the diagnostic channel \<^verbatim>\<open>didError\<close>, the run loop
  (\<^verbatim>\<open>queueFn\<close>), events fired on the store, calls to the source, and the
  \<^verbatim>\<open>storeWillUnload\<close> call on a record instance.  They are appended to a log in the
  order in which the code makes them.  Change notifications to record instances and to
  nested stores carry no store state and are not logged.
\<close>

datatype effect =
    DidError string
  | QueueFn string string
  | Fire string
  | SourceFetchRecord jsval string ident
  | SourceRefreshRecord jsval string ident
  | SourceFetchAllRecords accountId string "string option"
  | SourceCommitChanges "(string \<times> changeEntry) list"
  | StoreWillUnload storeKey

definition CANNOT_CREATE_EXISTING_RECORD_ERROR :: string where
  "CANNOT_CREATE_EXISTING_RECORD_ERROR = ''O.Store Error: Cannot create existing record''"

definition CANNOT_WRITE_TO_UNREADY_RECORD_ERROR :: string where
  "CANNOT_WRITE_TO_UNREADY_RECORD_ERROR = ''O.Store Error: Cannot write to unready record''"

subsection \<open>The store object\<close>

text \<open>
  The tables set up by \<^verbatim>\<open>init\<close> (Store.js, lines 291-339).  Tables that the code
  only reads and writes by key are maps; tables that it enumerates with
  \<^verbatim>\<open>for (sk in table)\<close> are association lists in insertion order.  An entry of
  \<^verbatim>\<open>_created\<close> or \<^verbatim>\<open>_destroyed\<close> holds either a store key or the empty string
  (\<open>None\<close>).  \<open>nextStoreKey\<close> is the module-level counter.  \<open>nestedStores\<close> holds, for
  each nested store, its answer to \<^verbatim>\<open>mayUnloadRecord\<close>; the class
  \<^verbatim>\<open>NestedStore\<close> is not among the sources, and the model is of a store with
  \<^verbatim>\<open>isNested = false\<close>.
\<close>

record store =
  typeToSKToId :: "string \<Rightarrow> (storeKey \<times> ident option) list"
  skToAccountId :: "storeKey \<rightharpoonup> jsval"
  skToType :: "storeKey \<rightharpoonup> rtype"
  skToStatus :: "storeKey \<rightharpoonup> status"
  skToData :: "storeKey \<rightharpoonup> jsobj"
  skToChanged :: "(storeKey \<times> (string \<times> bool) list) list"
  skToCommitted :: "storeKey \<rightharpoonup> jsobj"
  skToRollback :: "storeKey \<rightharpoonup> jsobj"
  skToRecord :: "storeKey \<rightharpoonup> recordObj"
  skToLastAccess :: "storeKey \<rightharpoonup> nat"
  hasChanges :: bool
  isCommitting :: bool
  created :: "(storeKey \<times> storeKey option) list"
  destroyed :: "(storeKey \<times> storeKey option) list"
  changedTypes :: "string list"
  nestedStores :: "(storeKey \<Rightarrow> bool) list"
  accounts :: "accountId \<rightharpoonup> account"
  autoCommit :: bool
  rebaseConflicts :: bool
  nextStoreKey :: nat
  effects :: "effect list"

definition logEffect :: "effect \<Rightarrow> store \<Rightarrow> store" where
  "logEffect e s = s\<lparr>effects := effects s @ [e]\<rparr>"

text \<open>\<^verbatim>\<open>mayHaveChanges\<close> (lines 59-62) queues \<^verbatim>\<open>checkForChanges\<close>.\<close>

definition mayHaveChanges :: "store \<Rightarrow> store" where
  "mayHaveChanges s = logEffect (QueueFn ''before'' ''checkForChanges'') s"

text \<open>
  \<^verbatim>\<open>commitChanges\<close> is declared with \<^verbatim>\<open>.queue('middle')\<close> (line 882): a call
  from inside the store only queues the function body for the middle queue of the run
  loop; the body itself is \<open>commitChanges\<close> below.
\<close>

definition callCommitChanges :: "store \<Rightarrow> store" where
  "callCommitChanges s = logEffect (QueueFn ''middle'' ''commitChanges'') s"

subsection \<open>Status of a record\<close>

text \<open>\<^verbatim>\<open>getStatus\<close> (lines 1090-1092): \<^verbatim>\<open>this._skToStatus[storeKey] || EMPTY\<close>.\<close>

definition getStatus :: "store \<Rightarrow> storeKey \<Rightarrow> status" where
  "getStatus s sk =
     (case skToStatus s sk of None \<Rightarrow> EMPTY | Some st \<Rightarrow> if st = 0 then EMPTY else st)"

text \<open>\<^verbatim>\<open>guid\<close> of the type of a store key; \<^verbatim>\<open>guid(undefined)\<close> is a string too.\<close>

definition guidOfType :: "rtype option \<Rightarrow> string" where
  "guidOfType T = (case T of None \<Rightarrow> ''undefined'' | Some t \<Rightarrow> typeId t)"

text \<open>\<^verbatim>\<open>_recordDidChange\<close> (lines 1825-1829).\<close>

definition recordDidChange :: "storeKey \<Rightarrow> store \<Rightarrow> store" where
  "recordDidChange sk s =
     (let tid = guidOfType (skToType s sk);
          s1 = s\<lparr>changedTypes :=
                  (if tid \<in> set (changedTypes s) then changedTypes s
                   else changedTypes s @ [tid])\<rparr>
      in logEffect (QueueFn ''middle'' ''_fireTypeChanges'') s1)"

text \<open>\<^verbatim>\<open>setStatus\<close> (lines 1106-1123).\<close>

definition setStatus :: "storeKey \<Rightarrow> status \<Rightarrow> store \<Rightarrow> store" where
  "setStatus sk st s =
     (let previousStatus = getStatus s sk in
      if previousStatus \<noteq> st then
        (let s1 = s\<lparr>skToStatus := (skToStatus s)(sk \<mapsto> st)\<rparr>
         in if (previousStatus XOR st) AND READY \<noteq> 0 then recordDidChange sk s1 else s1)
      else s)"

subsection \<open>Unloading\<close>

text \<open>\<^verbatim>\<open>mayUnloadRecord\<close> (lines 1206-1219).\<close>

definition mayUnloadRecord :: "store \<Rightarrow> storeKey \<Rightarrow> bool" where
  "mayUnloadRecord s sk =
     (let record = skToRecord s sk;
          status = getStatus s sk
      in if status AND (COMMITTING OR NEW OR DIRTY) \<noteq> 0
            \<or> (case record of None \<Rightarrow> False | Some r \<Rightarrow> hasObservers r)
         then False
         else list_all (\<lambda>nested. nested sk) (nestedStores s))"

text \<open>\<^verbatim>\<open>willUnloadRecord\<close> (lines 1234-1243).\<close>

definition willUnloadRecord :: "storeKey \<Rightarrow> store \<Rightarrow> store" where
  "willUnloadRecord sk s =
     (case skToRecord s sk of None \<Rightarrow> s | Some r \<Rightarrow> logEffect (StoreWillUnload sk) s)"

text \<open>
  \<^verbatim>\<open>unloadRecord\<close> (lines 1258-1275).  The result is the returned boolean and the
  store afterwards.
\<close>

definition unloadRecord :: "storeKey \<Rightarrow> store \<Rightarrow> bool \<times> store" where
  "unloadRecord sk s =
     (if \<not> mayUnloadRecord s sk then (False, s)
      else
        (let s1 = willUnloadRecord sk s;
             s2 = s1\<lparr>skToLastAccess := (skToLastAccess s1)(sk := None)\<rparr>;
             s3 = s2\<lparr>skToRecord := (skToRecord s2)(sk := None)\<rparr>;
             s4 = s3\<lparr>skToRollback := (skToRollback s3)(sk := None)\<rparr>;
             s5 = s4\<lparr>skToData := (skToData s4)(sk := None)\<rparr>;
             s6 = s5\<lparr>skToStatus := (skToStatus s5)(sk := None)\<rparr>
         in (True, s6)))"

subsection \<open>Store keys and ids\<close>

text \<open>
  \<^verbatim>\<open>getStoreKey\<close> (lines 495-522).  The result is \<open>None\<close> when the call throws:
  the default \<^verbatim>\<open>getPrimaryAccountIdForType\<close> throws a TypeError for a falsy account
  id, and so does reading \<^verbatim>\<open>typeToIdToSK\<close> of an account that was never added.
  \<^verbatim>\<open>Type\<close> may be \<^verbatim>\<open>undefined\<close> (\<open>None\<close>), as \<^verbatim>\<open>moveRecord\<close> can pass it.
\<close>

definition getStoreKey ::
  "accountId \<Rightarrow> rtype option \<Rightarrow> ident option \<Rightarrow> store \<Rightarrow> (storeKey \<times> store) option" where
  "getStoreKey accountId T rid s =
     (if accountId = [] then None
      else case accounts s accountId of
        None \<Rightarrow> None
      | Some account \<Rightarrow>
          (let tid = guidOfType T;
               idToSk = typeToIdToSK account tid;
               idIsTruthy = (case rid of None \<Rightarrow> False | Some i \<Rightarrow> i \<noteq> []);
               found = (if idIsTruthy then idToSk (the rid) else None)
           in case found of
             Some storeKey \<Rightarrow> Some (storeKey, s)
           | None \<Rightarrow>
               (let storeKey = K (nextStoreKey s);
                    s1 = s\<lparr>nextStoreKey := nextStoreKey s + 1\<rparr>;
                    s2 = s1\<lparr>skToType := (skToType s1)(storeKey := T)\<rparr>;
                    s3 = s2\<lparr>skToAccountId := (skToAccountId s2)(storeKey \<mapsto> VStr accountId)\<rparr>;
                    s4 = s3\<lparr>typeToSKToId := (typeToSKToId s3)
                             (tid := AList.update storeKey rid (typeToSKToId s3 tid))\<rparr>;
                    s5 = (if idIsTruthy
                          then s4\<lparr>accounts := (accounts s4)(accountId \<mapsto>
                                 account\<lparr>typeToIdToSK := (typeToIdToSK account)
                                   (tid := idToSk(the rid \<mapsto> storeKey))\<rparr>)\<rparr>
                          else s4)
                in Some (storeKey, s5))))"

text \<open>\<^verbatim>\<open>getIdFromStoreKey\<close> (lines 537-542); \<open>None\<close> is \<^verbatim>\<open>null\<close>.\<close>

definition getIdFromStoreKey :: "store \<Rightarrow> storeKey \<Rightarrow> ident option" where
  "getIdFromStoreKey s sk =
     (let status = (case skToStatus s sk of None \<Rightarrow> 0 | Some st \<Rightarrow> st);
          skToId = typeToSKToId s (guidOfType (skToType s sk))
      in if status AND NEW = 0
         then (case map_of skToId sk of
                 Some (Some i) \<Rightarrow> if i \<noteq> [] then Some i else None
               | _ \<Rightarrow> None)
         else None)"

text \<open>\<^verbatim>\<open>getAccountIdFromStoreKey\<close> (lines 555-558).\<close>

definition getAccountIdFromStoreKey :: "store \<Rightarrow> storeKey \<Rightarrow> jsval" where
  "getAccountIdFromStoreKey s sk =
     (case skToData s sk of
        Some data \<Rightarrow> js_get data ''accountId''
      | None \<Rightarrow> (case skToAccountId s sk of None \<Rightarrow> VUndefined | Some a \<Rightarrow> a))"

subsection \<open>Accounts\<close>

text \<open>
  \<^verbatim>\<open>addAccount\<close> (lines 424-475).  \<open>replaceAccountId\<close> and \<open>capabilities\<close> are the
  two properties of the \<^verbatim>\<open>data\<close> argument that the method reads.
\<close>

definition newAccount :: "string list option \<Rightarrow> account" where
  "newAccount capabilities =
     \<lparr>accountCapabilities = (case capabilities of None \<Rightarrow> [] | Some c \<Rightarrow> c),
      typeStatus = (\<lambda>t. 0), clientState = (\<lambda>t. None), serverState = (\<lambda>t. None),
      typeToIdToSK = (\<lambda>t. Map.empty), ignoreServerState = False\<rparr>"

definition addAccount ::
  "accountId \<Rightarrow> accountId option \<Rightarrow> string list option \<Rightarrow> store \<Rightarrow> store" where
  "addAccount accountId replaceAccountId capabilities s =
     (let replaced = (case replaceAccountId of
                        None \<Rightarrow> None
                      | Some r \<Rightarrow> if r \<noteq> [] then accounts s r else None)
      in case replaced of
        Some account \<Rightarrow>
          (let account1 = (case capabilities of
                             None \<Rightarrow> account
                           | Some c \<Rightarrow> account\<lparr>accountCapabilities := c\<rparr>);
               s1 = s\<lparr>skToAccountId := (\<lambda>sk.
                        if skToAccountId s sk = Some (VStr (the replaceAccountId))
                        then Some (VStr accountId) else skToAccountId s sk)\<rparr>;
               s2 = s1\<lparr>accounts := (accounts s1)(the replaceAccountId := None)\<rparr>
           in s2\<lparr>accounts := (accounts s2)(accountId \<mapsto> account1)\<rparr>)
      | None \<Rightarrow>
          (case accounts s accountId of
             Some account \<Rightarrow> s
           | None \<Rightarrow> s\<lparr>accounts := (accounts s)(accountId \<mapsto> newAccount capabilities)\<rparr>))"

subsection \<open>Creating and updating records\<close>

text \<open>
  \<^verbatim>\<open>createRecord\<close> (lines 1297-1326).  \<open>data\<close> is \<open>None\<close> when the optional
  argument is left out.
\<close>

definition createRecord ::
  "storeKey \<Rightarrow> jsobj option \<Rightarrow> storeKey option \<Rightarrow> store \<Rightarrow> store" where
  "createRecord sk data isCopyOfStoreKey s =
     (let status = getStatus s sk in
      if status \<noteq> EMPTY \<and> status \<noteq> DESTROYED
      then logEffect (DidError CANNOT_CREATE_EXISTING_RECORD_ERROR) s
      else
        (let data1 = (case data of None \<Rightarrow> [] | Some d \<Rightarrow> d);
             data2 = js_set ''accountId'' (getAccountIdFromStoreKey s sk) data1;
             s1 = s\<lparr>created := AList.update sk isCopyOfStoreKey (created s)\<rparr>;
             s2 = s1\<lparr>skToData := (skToData s1)(sk \<mapsto> data2)\<rparr>;
             s3 = setStatus sk (READY OR NEW OR DIRTY) s2;
             s4 = (if autoCommit s3 then callCommitChanges s3 else s3)
         in s4\<lparr>hasChanges := True\<rparr>))"

text \<open>
  The two loops of \<^verbatim>\<open>updateData\<close> over the keys of the patch.  The dirty loop
  (lines 1667-1676) carries the current data, the \<^verbatim>\<open>changed\<close> object and
  \<^verbatim>\<open>seenChange\<close>; the clean loop (lines 1704-1711) only the current data.  The
  list \<^verbatim>\<open>changedKeys\<close> is only handed to the change notifications and is left out.
\<close>

fun updateDirtyLoop ::
  "string list \<Rightarrow> jsobj \<Rightarrow> jsobj \<Rightarrow> jsobj \<times> (string \<times> bool) list \<times> bool
     \<Rightarrow> jsobj \<times> (string \<times> bool) list \<times> bool" where
  "updateDirtyLoop [] data committed acc = acc"
| "updateDirtyLoop (key # keys) data committed (current, changed, seenChange) =
     (let value = js_get data key;
          oldValue = js_get current key
      in if \<not> isEqual value oldValue
         then (let c = \<not> isEqual value (js_get committed key)
               in updateDirtyLoop keys data committed
                    (js_set key value current, AList.update key c changed, seenChange \<or> c))
         else updateDirtyLoop keys data committed (current, changed, seenChange))"

fun updateCleanLoop :: "string list \<Rightarrow> jsobj \<Rightarrow> jsobj \<Rightarrow> jsobj" where
  "updateCleanLoop [] data current = current"
| "updateCleanLoop (key # keys) data current =
     (let value = js_get data key;
          oldValue = js_get current key
      in if \<not> isEqual value oldValue
         then updateCleanLoop keys data (js_set key value current)
         else updateCleanLoop keys data current)"

text \<open>
  \<^verbatim>\<open>updateData\<close> (lines 1636-1727).  The result is the returned boolean and the
  store afterwards.
\<close>

definition updateData :: "storeKey \<Rightarrow> jsobj \<Rightarrow> bool \<Rightarrow> store \<Rightarrow> bool \<times> store" where
  "updateData sk data changeIsDirty s =
     (let status = getStatus s sk in
      case skToData s sk of
        None \<Rightarrow> (False, logEffect (DidError CANNOT_WRITE_TO_UNREADY_RECORD_ERROR) s)
      | Some current \<Rightarrow>
          if changeIsDirty \<and> status AND READY = 0
          then (False, logEffect (DidError CANNOT_WRITE_TO_UNREADY_RECORD_ERROR) s)
          else
            (let s5 =
               (if changeIsDirty \<and> status \<noteq> (READY OR NEW OR DIRTY) then
                  (let committed = (case skToCommitted s sk of None \<Rightarrow> current | Some c \<Rightarrow> c);
                       s1 = s\<lparr>skToCommitted := (skToCommitted s)(sk \<mapsto> committed)\<rparr>;
                       changed0 = (case map_of (skToChanged s1) sk of None \<Rightarrow> [] | Some c \<Rightarrow> c);
                       (current1, changed1, seenChange1) =
                          updateDirtyLoop (js_keys data) data committed (current, changed0, False);
                       s2 = s1\<lparr>skToChanged := AList.update sk changed1 (skToChanged s1),
                               skToData := (skToData s1)(sk \<mapsto> current1)\<rparr>;
                       seenChange = (seenChange1 \<or> list_ex snd changed1);
                       s4 = (if seenChange then
                               (let s3 = setStatus sk (status OR DIRTY) s2
                                in if autoCommit s3 then callCommitChanges s3 else s3)
                             else
                               (let s3 = setStatus sk (status AND NOT DIRTY) s2
                                in s3\<lparr>skToCommitted := (skToCommitted s3)(sk := None),
                                      skToChanged := AList.delete sk (skToChanged s3)\<rparr>))
                   in mayHaveChanges s4)
                else
                  s\<lparr>skToData := (skToData s)(sk \<mapsto> updateCleanLoop (js_keys data) data current)\<rparr>);
                 accountId = js_get data ''accountId'';
                 s6 = (if status = (READY OR NEW OR DIRTY) \<and> truthy accountId
                       then s5\<lparr>skToAccountId := (skToAccountId s5)(sk \<mapsto> accountId)\<rparr>
                       else s5)
             in (True, recordDidChange sk s6)))"

text \<open>
  \<^verbatim>\<open>updateData\<close> called with a data argument that may be \<^verbatim>\<open>undefined\<close>, as
  \<^verbatim>\<open>setData\<close> and \<^verbatim>\<open>discardChanges\<close> can do.  With \<^verbatim>\<open>undefined\<close> the guard
  is evaluated as usual; past the guard the two \<^verbatim>\<open>for (key in data)\<close> loops do not
  run, and \<^verbatim>\<open>data.accountId\<close> (line 1716) throws: the result is \<open>None\<close>.
\<close>

definition updateDataOpt ::
  "storeKey \<Rightarrow> jsobj option \<Rightarrow> bool \<Rightarrow> store \<Rightarrow> (bool \<times> store) option" where
  "updateDataOpt sk data changeIsDirty s =
     (case data of
        Some d \<Rightarrow> Some (updateData sk d changeIsDirty s)
      | None \<Rightarrow>
          if skToData s sk = None \<or> (changeIsDirty \<and> getStatus s sk AND READY = 0)
          then Some (False, logEffect (DidError CANNOT_WRITE_TO_UNREADY_RECORD_ERROR) s)
          else None)"

text \<open>
  \<^verbatim>\<open>setData\<close> (lines 1604-1616).  For a record that is not READY,
  \<^verbatim>\<open>Object.keys(data)\<close> throws when \<^verbatim>\<open>data\<close> is \<^verbatim>\<open>undefined\<close>.
\<close>

definition setData :: "storeKey \<Rightarrow> jsobj option \<Rightarrow> store \<Rightarrow> store option" where
  "setData sk data s =
     (if getStatus s sk AND READY \<noteq> 0
      then map_option snd (updateDataOpt sk data False s)
      else (case data of
              None \<Rightarrow> None
            | Some d \<Rightarrow> Some (s\<lparr>skToData := (skToData s)(sk \<mapsto> d)\<rparr>)))"

text \<open>
  \<^verbatim>\<open>revertData\<close> (lines 1740-1762).  Reading \<^verbatim>\<open>Type.prototype\<close> of an
  undefined type, or the default value of an attribute key the type does not
  declare, throws (\<open>None\<close>).  The loop fills in, for every key of \<^verbatim>\<open>changed\<close>
  that the committed hash lacks, the declared default value or \<^verbatim>\<open>null\<close>.
\<close>

fun revertDefaults :: "string list \<Rightarrow> rtype \<Rightarrow> jsobj \<Rightarrow> jsobj option" where
  "revertDefaults [] T committed = Some committed"
| "revertDefaults (attrKey # keys) T committed =
     (if js_get committed attrKey = VUndefined
      then (case map_of (defaultValue T) attrKey of
              None \<Rightarrow> None
            | Some d \<Rightarrow>
                revertDefaults keys T
                  (js_set attrKey (if d = VUndefined then VNull else d) committed))
      else revertDefaults keys T committed)"

definition revertData :: "storeKey \<Rightarrow> store \<Rightarrow> store option" where
  "revertData sk s =
     (case skToCommitted s sk of
        None \<Rightarrow> Some s
      | Some committed \<Rightarrow>
          (case skToType s sk of
             None \<Rightarrow> None
           | Some T \<Rightarrow>
               (let changed = (case map_of (skToChanged s) sk of None \<Rightarrow> [] | Some c \<Rightarrow> c)
                in case revertDefaults (map fst changed) T committed of
                     None \<Rightarrow> None
                   | Some committed1 \<Rightarrow>
                       (let s1 = s\<lparr>skToCommitted := (skToCommitted s)(sk \<mapsto> committed1)\<rparr>
                        in Some (snd (updateData sk committed1 True s1))))))"

subsection \<open>Destroying and reviving records\<close>

text \<open>\<^verbatim>\<open>destroyRecord\<close> (lines 1391-1423).\<close>

definition destroyRecord :: "storeKey \<Rightarrow> storeKey option \<Rightarrow> store \<Rightarrow> store option" where
  "destroyRecord sk ifCopiedStoreKey s =
     (let status = getStatus s sk in
      if status = (READY OR NEW OR DIRTY) then
        (let s1 = s\<lparr>created := AList.delete sk (created s)\<rparr>;
             s2 = setStatus sk DESTROYED s1
         in Some (mayHaveChanges (snd (unloadRecord sk s2))))
      else if status AND READY \<noteq> 0 then
        (case (if status AND DIRTY \<noteq> 0
               then (case setData sk (skToCommitted s sk) s of
                       None \<Rightarrow> None
                     | Some s1 \<Rightarrow>
                         Some (s1\<lparr>skToCommitted := (skToCommitted s1)(sk := None),
                                  skToChanged := AList.delete sk (skToChanged s1)\<rparr>))
               else Some s) of
           None \<Rightarrow> None
         | Some s2 \<Rightarrow>
             (let s3 = s2\<lparr>destroyed := AList.update sk ifCopiedStoreKey (destroyed s2)\<rparr>;
                  s4 = setStatus sk
                         (DESTROYED OR DIRTY OR (status AND (COMMITTING OR NEW OR OBSOLETE))) s3;
                  s5 = (if autoCommit s4 then callCommitChanges s4 else s4)
              in Some (mayHaveChanges s5)))
      else Some (mayHaveChanges s))"

text \<open>
  \<^verbatim>\<open>undestroyRecord\<close> (lines 1425-1448).  \<^verbatim>\<open>Type\<close> and \<^verbatim>\<open>data\<close> may be
  \<^verbatim>\<open>undefined\<close>; filtering a defined \<^verbatim>\<open>data\<close> by the client-settable attributes
  of an undefined type throws.
\<close>

definition undestroyRecord ::
  "storeKey \<Rightarrow> rtype option \<Rightarrow> jsobj option \<Rightarrow> storeKey option \<Rightarrow> store \<Rightarrow> store option" where
  "undestroyRecord sk T data isCopyOfStoreKey s =
     (let status = getStatus s sk in
      if data \<noteq> None \<and> T = None then None
      else
        (let data1 = (case data of
                        None \<Rightarrow> None
                      | Some d \<Rightarrow> Some (filterObject d (clientSettable (the T))))
         in if status = EMPTY \<or> status = DESTROYED
            then Some (mayHaveChanges (createRecord sk data1 isCopyOfStoreKey s))
            else
              (let s1 =
                 (if status AND NOT (OBSOLETE OR LOADING) = (DESTROYED OR COMMITTING) then
                    (let s0 = setStatus sk (READY OR NEW OR COMMITTING) s
                     in s0\<lparr>created := AList.update sk isCopyOfStoreKey (created s0)\<rparr>)
                  else if status AND DESTROYED \<noteq> 0 then
                    (let s0 = setStatus sk ((status AND NOT (DESTROYED OR DIRTY)) OR READY) s
                     in s0\<lparr>destroyed := AList.delete sk (destroyed s0)\<rparr>)
                  else s);
                   s2 = (case data1 of
                           None \<Rightarrow> s1
                         | Some d \<Rightarrow> snd (updateData sk d True s1))
               in Some (mayHaveChanges s2))))"

subsection \<open>Discarding changes\<close>

text \<open>
  \<^verbatim>\<open>discardChanges\<close> (lines 893-921): three loops, over the store keys of
  \<^verbatim>\<open>_created\<close>, of \<^verbatim>\<open>_skToChanged\<close> and of \<^verbatim>\<open>_destroyed\<close>.  A call made for one
  store key removes at most that store key from the table being enumerated, so each
  loop runs over the keys the table has when the loop starts.
\<close>

fun discardCreated :: "storeKey list \<Rightarrow> store \<Rightarrow> store option" where
  "discardCreated [] s = Some s"
| "discardCreated (sk # sks) s =
     (case destroyRecord sk None s of None \<Rightarrow> None | Some s1 \<Rightarrow> discardCreated sks s1)"

fun discardChanged :: "storeKey list \<Rightarrow> store \<Rightarrow> store option" where
  "discardChanged [] s = Some s"
| "discardChanged (sk # sks) s =
     (case updateDataOpt sk (skToCommitted s sk) True s of
        None \<Rightarrow> None
      | Some (b, s1) \<Rightarrow> discardChanged sks s1)"

fun discardDestroyed :: "storeKey list \<Rightarrow> store \<Rightarrow> store option" where
  "discardDestroyed [] s = Some s"
| "discardDestroyed (sk # sks) s =
     (case undestroyRecord sk (skToType s sk) (skToData s sk) None s of
        None \<Rightarrow> None
      | Some s1 \<Rightarrow> discardDestroyed sks s1)"

definition discardChanges :: "store \<Rightarrow> store option" where
  "discardChanges s =
     (case discardCreated (map fst (created s)) s of
        None \<Rightarrow> None
      | Some s1 \<Rightarrow>
          (case discardChanged (map fst (skToChanged s1)) s1 of
             None \<Rightarrow> None
           | Some s2 \<Rightarrow>
               (case discardDestroyed (map fst (destroyed s2)) s2 of
                  None \<Rightarrow> None
                | Some s3 \<Rightarrow> Some (s3\<lparr>created := [], destroyed := [], hasChanges := False\<rparr>))))"

subsection \<open>Moving a record to another account\<close>

text \<open>\<^verbatim>\<open>_changeRecordStoreKey\<close> (lines 1359-1372).\<close>

definition changeRecordStoreKey :: "storeKey \<Rightarrow> storeKey \<Rightarrow> store \<Rightarrow> store" where
  "changeRecordStoreKey oldStoreKey newStoreKey s =
     (case skToRecord s oldStoreKey of
        None \<Rightarrow> s
      | Some r \<Rightarrow>
          s\<lparr>skToRecord := ((skToRecord s)(oldStoreKey := None))
                              (newStoreKey \<mapsto> r\<lparr>boundStoreKey := newStoreKey\<rparr>)\<rparr>)"

text \<open>
  \<^verbatim>\<open>moveRecord\<close> (lines 1341-1357).  The result is the store key of the copy and
  the store afterwards.
\<close>

definition moveRecord ::
  "storeKey \<Rightarrow> accountId \<Rightarrow> storeKey option \<Rightarrow> store \<Rightarrow> (storeKey \<times> store) option" where
  "moveRecord sk toAccountId copyStoreKey s =
     (let T = skToType s sk;
          copyData = skToData s sk;
          copyStoreKey1 = (case copyStoreKey of
                             Some c \<Rightarrow> Some c
                           | None \<Rightarrow> (case map_of (created s) sk of
                                         None \<Rightarrow> None
                                       | Some c \<Rightarrow> c))
      in case (case copyStoreKey1 of
                 Some c \<Rightarrow> map_option (Pair c) (undestroyRecord c T copyData (Some sk) s)
               | None \<Rightarrow>
                   (case getStoreKey toAccountId T None s of
                      None \<Rightarrow> None
                    | Some (c, s1) \<Rightarrow> Some (c, createRecord c copyData (Some sk) s1))) of
           None \<Rightarrow> None
         | Some (c, s2) \<Rightarrow>
             (case revertData sk (changeRecordStoreKey sk c s2) of
                None \<Rightarrow> None
              | Some s3 \<Rightarrow> map_option (Pair c) (destroyRecord sk (Some c) s3)))"

subsection \<open>Committing\<close>

text \<open>
  \<^verbatim>\<open>getChanged\<close> (lines 182-193).  The outer \<open>None\<close> is a TypeError (reading a
  property of an undefined \<^verbatim>\<open>b\<close>), the inner \<open>None\<close> the returned \<^verbatim>\<open>null\<close>.
\<close>

definition getChanged ::
  "rtype \<Rightarrow> jsobj \<Rightarrow> jsobj option \<Rightarrow> (string \<times> bool) list option option" where
  "getChanged T a b =
     (let keys = filter (\<lambda>key. key \<in> set (clientSettable T)) (js_keys a) in
      case b of
        None \<Rightarrow> if keys = [] then Some None else None
      | Some b1 \<Rightarrow>
          (let changed = map (\<lambda>key. (key, True))
                           (filter (\<lambda>key. \<not> isEqual (js_get a key) (js_get b1 key)) keys)
           in Some (if changed = [] then None else Some changed)))"

text \<open>
  \<^verbatim>\<open>getEntry\<close> (lines 737-764): looks the entry of a type and an account up in
  \<^verbatim>\<open>changes\<close> under the key \<^verbatim>\<open>typeId + accountId\<close>, creating it and setting
  the COMMITTING bit of the type in the account when it is not there.  The local flag
  \<^verbatim>\<open>hasChanges\<close> of \<^verbatim>\<open>commitChanges\<close> is set exactly when an entry is created,
  so it is true exactly when \<^verbatim>\<open>changes\<close> is not empty.  Account ids are strings;
  an account id that names no account, or an undefined type, throws (\<open>None\<close>).
\<close>

definition getEntry ::
  "rtype option \<Rightarrow> jsval \<Rightarrow> (string \<times> changeEntry) list \<times> store
     \<Rightarrow> (string \<times> (string \<times> changeEntry) list \<times> store) option" where
  "getEntry T accountId cs =
     (case (T, accountId) of
        (Some t, VStr a) \<Rightarrow>
          (let key = typeId t @ a in
           case map_of (fst cs) key of
             Some entry \<Rightarrow> Some (key, cs)
           | None \<Rightarrow>
               (case accounts (snd cs) a of
                  None \<Rightarrow> None
                | Some account \<Rightarrow>
                    (let entry = \<lparr>entryType = t, entryAccountId = a, primaryKey = idAttrKey t,
                                  create_storeKeys = [], create_records = [],
                                  update_storeKeys = [], update_records = [],
                                  update_committed = [], update_changes = [],
                                  moveFromAccount = [],
                                  destroy_storeKeys = [], destroy_ids = [],
                                  entryState = clientState account (typeId t)\<rparr>;
                         account1 = account\<lparr>typeStatus := (typeStatus account)
                                      (typeId t := typeStatus account (typeId t) OR COMMITTING)\<rparr>;
                         s1 = (snd cs)\<lparr>accounts := (accounts (snd cs))(a \<mapsto> account1)\<rparr>
                     in Some (key, fst cs @ [(key, entry)], s1))))
      | _ \<Rightarrow> None)"

text \<open>
  The raw read \<^verbatim>\<open>_skToStatus[storeKey]\<close> used by the three loops; an absent
  entry behaves as 0 under the bit operations.
\<close>

definition rawStatus :: "store \<Rightarrow> storeKey \<Rightarrow> status" where
  "rawStatus s sk = (case skToStatus s sk of None \<Rightarrow> 0 | Some st \<Rightarrow> st)"

text \<open>The loop over \<^verbatim>\<open>_created\<close> (lines 766-807).\<close>

definition emptyMoveFrom :: moveFrom where
  "emptyMoveFrom = \<lparr>copyFromIds = [], move_storeKeys = [], move_records = [], move_changes = []\<rparr>"

definition commitCreatedStep ::
  "storeKey \<Rightarrow> storeKey option \<Rightarrow> (string \<times> changeEntry) list \<times> store
     \<Rightarrow> ((string \<times> changeEntry) list \<times> store) option" where
  "commitCreatedStep sk isCopyOfStoreKey cs =
     (let s = snd cs;
          status = rawStatus s sk;
          T = skToType s sk
      in case skToData s sk of
        None \<Rightarrow> None
      | Some data \<Rightarrow>
          (case getEntry T (js_get data ''accountId'') cs of
             None \<Rightarrow> None
           | Some (key, changes1, s1) \<Rightarrow>
               (case isCopyOfStoreKey of
                  Some copyOf \<Rightarrow>
                    (case getChanged (the T) data (skToData s1 copyOf) of
                       None \<Rightarrow> None
                     | Some changed \<Rightarrow>
                         (let previousAccountId = getAccountIdFromStoreKey s1 copyOf;
                              add = (\<lambda>m. m\<lparr>copyFromIds := copyFromIds m @ [getIdFromStoreKey s1 copyOf],
                                            move_changes := move_changes m @ [changed],
                                            move_storeKeys := move_storeKeys m @ [sk],
                                            move_records := move_records m @ [data]\<rparr>);
                              changes2 = AList.map_entry key (\<lambda>e. e\<lparr>moveFromAccount :=
                                  (case map_of (moveFromAccount e) previousAccountId of
                                     None \<Rightarrow> moveFromAccount e @ [(previousAccountId, add emptyMoveFrom)]
                                   | Some m \<Rightarrow> AList.update previousAccountId (add m) (moveFromAccount e))\<rparr>)
                                changes1
                          in Some (changes2,
                                   setStatus sk ((status AND NOT DIRTY) OR COMMITTING) s1)))
                | None \<Rightarrow>
                    (let data1 = filterObject data (clientSettable (the T));
                         changes2 = AList.map_entry key (\<lambda>e. e\<lparr>
                             create_storeKeys := create_storeKeys e @ [sk],
                             create_records := create_records e @ [data1]\<rparr>) changes1
                     in Some (changes2,
                              setStatus sk ((status AND NOT DIRTY) OR COMMITTING) s1)))))"

fun commitCreated ::
  "(storeKey \<times> storeKey option) list \<Rightarrow> (string \<times> changeEntry) list \<times> store
     \<Rightarrow> ((string \<times> changeEntry) list \<times> store) option" where
  "commitCreated [] cs = Some cs"
| "commitCreated ((sk, copyOf) # rest) cs =
     (case commitCreatedStep sk copyOf cs of None \<Rightarrow> None | Some cs1 \<Rightarrow> commitCreated rest cs1)"

text \<open>The loop over \<^verbatim>\<open>_skToChanged\<close> (lines 808-837).\<close>

definition commitChangedStep ::
  "storeKey \<Rightarrow> (string \<times> bool) list \<Rightarrow> (string \<times> changeEntry) list \<times> store
     \<Rightarrow> ((string \<times> changeEntry) list \<times> store) option" where
  "commitChangedStep sk changedOfSk cs =
     (let s = snd cs;
          status = rawStatus s sk
      in case skToType s sk of
        None \<Rightarrow> None
      | Some T \<Rightarrow>
          (let changed = filterObject changedOfSk (clientSettable T);
               previous = skToCommitted s sk;
               s1 = s\<lparr>skToCommitted := (skToCommitted s)(sk := None)\<rparr>
           in if changed = []
              then Some (fst cs, setStatus sk (status AND NOT DIRTY) s1)
              else
                (case skToData s1 sk of
                   None \<Rightarrow> None
                 | Some data \<Rightarrow>
                     (case getEntry (Some T) (js_get data ''accountId'') (fst cs, s1) of
                        None \<Rightarrow> None
                      | Some (key, changes1, s2) \<Rightarrow>
                          (let s3 = s2\<lparr>skToRollback := (skToRollback s2)(sk := previous)\<rparr>;
                               changes2 = AList.map_entry key (\<lambda>e. e\<lparr>
                                   update_storeKeys := update_storeKeys e @ [sk],
                                   update_records := update_records e @ [data],
                                   update_committed := update_committed e @ [previous],
                                   update_changes := update_changes e @ [changed]\<rparr>) changes1
                           in Some (changes2,
                                    setStatus sk ((status AND NOT DIRTY) OR COMMITTING) s3))))))"

fun commitChanged ::
  "(storeKey \<times> (string \<times> bool) list) list \<Rightarrow> (string \<times> changeEntry) list \<times> store
     \<Rightarrow> ((string \<times> changeEntry) list \<times> store) option" where
  "commitChanged [] cs = Some cs"
| "commitChanged ((sk, changedOfSk) # rest) cs =
     (case commitChangedStep sk changedOfSk cs of
        None \<Rightarrow> None
      | Some cs1 \<Rightarrow> commitChanged rest cs1)"

text \<open>
  The loop over \<^verbatim>\<open>_destroyed\<close> (lines 838-852).  \<^verbatim>\<open>_created\<close> is still the
  table the method started with.
\<close>

definition commitDestroyedStep ::
  "(storeKey \<times> storeKey option) list \<Rightarrow> storeKey \<Rightarrow> storeKey option
     \<Rightarrow> (string \<times> changeEntry) list \<times> store
     \<Rightarrow> ((string \<times> changeEntry) list \<times> store) option" where
  "commitDestroyedStep createdTable sk ifCopiedStoreKey cs =
     (let s = snd cs;
          status = rawStatus s sk;
          handledByMove = (case ifCopiedStoreKey of
                             None \<Rightarrow> False
                           | Some c \<Rightarrow> (case map_of createdTable c of
                                          Some (Some orig) \<Rightarrow> True
                                        | _ \<Rightarrow> False))
      in if \<not> handledByMove then
           (let T = skToType s sk in
            case skToData s sk of
              None \<Rightarrow> None
            | Some data \<Rightarrow>
                (let rid = (case map_of (typeToSKToId s (guidOfType T)) sk of
                              None \<Rightarrow> None
                            | Some i \<Rightarrow> i)
                 in case getEntry T (js_get data ''accountId'') cs of
                      None \<Rightarrow> None
                    | Some (key, changes1, s1) \<Rightarrow>
                        (let changes2 = AList.map_entry key (\<lambda>e. e\<lparr>
                               destroy_storeKeys := destroy_storeKeys e @ [sk],
                               destroy_ids := destroy_ids e @ [rid]\<rparr>) changes1
                         in Some (changes2,
                                  setStatus sk ((status AND NOT DIRTY) OR COMMITTING) s1))))
         else Some (fst cs, setStatus sk ((status AND NOT DIRTY) OR COMMITTING) s))"

fun commitDestroyed ::
  "(storeKey \<times> storeKey option) list \<Rightarrow> (storeKey \<times> storeKey option) list
     \<Rightarrow> (string \<times> changeEntry) list \<times> store
     \<Rightarrow> ((string \<times> changeEntry) list \<times> store) option" where
  "commitDestroyed createdTable [] cs = Some cs"
| "commitDestroyed createdTable ((sk, copied) # rest) cs =
     (case commitDestroyedStep createdTable sk copied cs of
        None \<Rightarrow> None
      | Some cs1 \<Rightarrow> commitDestroyed createdTable rest cs1)"

text \<open>
  The body of \<^verbatim>\<open>commitChanges\<close> (lines 708-882), run by the run loop.  The
  callback handed to the source runs later and is not part of this function.
\<close>

definition commitChanges :: "store \<Rightarrow> store option" where
  "commitChanges s =
     (if isCommitting s then Some s
      else
        (let s0 = logEffect (Fire ''willCommit'') (s\<lparr>isCommitting := True\<rparr>) in
         case commitCreated (created s0) ([], s0) of
           None \<Rightarrow> None
         | Some cs1 \<Rightarrow>
             (case commitChanged (skToChanged s0) cs1 of
                None \<Rightarrow> None
              | Some cs2 \<Rightarrow>
                  (case commitDestroyed (created s0) (destroyed s0) cs2 of
                     None \<Rightarrow> None
                   | Some (changes, s3) \<Rightarrow>
                       (let s4 = s3\<lparr>skToChanged := [], created := [], destroyed := []\<rparr>;
                            s5 = (if changes \<noteq> []
                                  then logEffect (SourceCommitChanges changes) s4
                                  else s4\<lparr>isCommitting := False\<rparr>)
                        in Some (logEffect (Fire ''didCommit'') (s5\<lparr>hasChanges := False\<rparr>)))))))"

subsection \<open>Fetching\<close>

text \<open>Record ids are strings; any other value in the place of an id is no id.\<close>

fun idOfVal :: "jsval \<Rightarrow> ident option" where
  "idOfVal (VStr i) = Some i"
| "idOfVal v = None"

text \<open>
  \<^verbatim>\<open>fetchData\<close> (lines 1540-1575).  For the id \<^verbatim>\<open>'singleton'\<close> the LOADING bit of
  the type is set in the account of the record, which must exist.
\<close>

definition fetchData :: "storeKey \<Rightarrow> store \<Rightarrow> store option" where
  "fetchData sk s =
     (let status = getStatus s sk in
      if status AND (LOADING OR NEW OR DESTROYED OR NON_EXISTENT) \<noteq> 0 then Some s
      else case skToType s sk of
        None \<Rightarrow> Some s
      | Some T \<Rightarrow>
          (case map_of (typeToSKToId s (typeId T)) sk of
             Some (Some rid) \<Rightarrow>
               if rid = [] then Some s
               else
                 (let accountId = getAccountIdFromStoreKey s sk in
                  case (if rid = ''singleton''
                        then (case idOfVal accountId of
                                None \<Rightarrow> None
                              | Some a \<Rightarrow>
                                  (case accounts s a of
                                     None \<Rightarrow> None
                                   | Some account \<Rightarrow>
                                       Some (s\<lparr>accounts := (accounts s)(a \<mapsto>
                                          account\<lparr>typeStatus := (typeStatus account)
                                            (typeId T := typeStatus account (typeId T) OR LOADING)\<rparr>)\<rparr>)))
                        else Some s) of
                    None \<Rightarrow> None
                  | Some s1 \<Rightarrow>
                      if status AND EMPTY \<noteq> 0
                      then Some (setStatus sk (EMPTY OR LOADING)
                                   (logEffect (SourceFetchRecord accountId (typeId T) rid) s1))
                      else Some (setStatus sk (status OR LOADING)
                                   (logEffect (SourceRefreshRecord accountId (typeId T) rid) s1)))
           | _ \<Rightarrow> Some s))"

text \<open>\<^verbatim>\<open>fetchAll\<close> (lines 1490-1525), called with an account id.\<close>

definition fetchAll :: "accountId \<Rightarrow> rtype \<Rightarrow> bool \<Rightarrow> store \<Rightarrow> store option" where
  "fetchAll accountId T force s =
     (if accountId = [] then None
      else case accounts s accountId of
        None \<Rightarrow> None
      | Some account \<Rightarrow>
          (let status = typeStatus account (typeId T);
               state = clientState account (typeId T)
           in if status AND LOADING = 0 \<and> (status AND READY = 0 \<or> force)
              then
                (let s1 = logEffect (SourceFetchAllRecords accountId (typeId T) state) s
                 in Some (s1\<lparr>accounts := (accounts s1)(accountId \<mapsto>
                      account\<lparr>typeStatus := (typeStatus account)
                        (typeId T := status OR LOADING)\<rparr>)\<rparr>))
              else Some s))"

text \<open>\<^verbatim>\<open>sourceStateDidChange\<close> (lines 2032-2063).\<close>

definition stateIsTruthy :: "string option \<Rightarrow> bool" where
  "stateIsTruthy st = (case st of None \<Rightarrow> False | Some x \<Rightarrow> x \<noteq> [])"

definition sourceStateDidChange :: "accountId \<Rightarrow> rtype \<Rightarrow> string \<Rightarrow> store \<Rightarrow> store option" where
  "sourceStateDidChange accountId T newState s =
     (if accountId = [] then None
      else case accounts s accountId of
        None \<Rightarrow> None
      | Some account \<Rightarrow>
          (let tid = typeId T;
               clientSt = clientState account tid;
               oldState = serverState account tid
           in if oldState \<noteq> Some newState then
                (let account1 = account\<lparr>serverState := (serverState account)
                        (tid := (if stateIsTruthy oldState \<or> \<not> stateIsTruthy clientSt
                                 then Some newState else clientSt))\<rparr>;
                     s1 = s\<lparr>accounts := (accounts s)(accountId \<mapsto> account1)\<rparr>
                 in if Some newState \<noteq> clientSt \<and> \<not> ignoreServerState account1
                       \<and> typeStatus account1 tid AND (LOADING OR COMMITTING) = 0
                    then
                      (case (if stateIsTruthy clientSt then fetchAll accountId T True s1
                             else Some s1) of
                         None \<Rightarrow> None
                       | Some s2 \<Rightarrow> Some (logEffect (Fire (tid @ '':server:'' @ accountId)) s2))
                    else Some s1)
              else Some s))"

subsection \<open>Source callbacks for fetched and destroyed records\<close>

text \<open>
  \<^verbatim>\<open>sourceDidDestroyRecords\<close> (lines 2436-2451): one iteration, the loop, and
  the method, which runs the loop from the last id to the first.
\<close>

definition destroyRecordStep ::
  "accountId \<Rightarrow> rtype \<Rightarrow> ident option \<Rightarrow> store \<Rightarrow> store option" where
  "destroyRecordStep accountId T rid s =
     (case getStoreKey accountId (Some T) rid s of
        None \<Rightarrow> None
      | Some (storeKey, s1) \<Rightarrow>
          Some (if rid \<noteq> None \<and> getIdFromStoreKey s1 storeKey = rid
                then snd (unloadRecord storeKey (setStatus storeKey DESTROYED s1))
                else s1))"

fun destroyRecordsLoop ::
  "accountId \<Rightarrow> rtype \<Rightarrow> ident option list \<Rightarrow> store \<Rightarrow> store option" where
  "destroyRecordsLoop accountId T [] s = Some s"
| "destroyRecordsLoop accountId T (rid # ids) s =
     (case destroyRecordStep accountId T rid s of
        None \<Rightarrow> None
      | Some s1 \<Rightarrow> destroyRecordsLoop accountId T ids s1)"

definition sourceDidDestroyRecords ::
  "accountId \<Rightarrow> rtype \<Rightarrow> ident option list \<Rightarrow> store \<Rightarrow> store option" where
  "sourceDidDestroyRecords accountId T ids s = destroyRecordsLoop accountId T (rev ids) s"

text \<open>
  The rebase loop of \<^verbatim>\<open>sourceDidFetchPartialRecords\<close> (lines 2270-2280) over the
  keys of the current data; \<^verbatim>\<open>key in oldChanged\<close> throws when the record has no
  \<^verbatim>\<open>changed\<close> object.
\<close>

fun rebaseLoop ::
  "string list \<Rightarrow> jsobj \<Rightarrow> (string \<times> bool) list option \<Rightarrow> jsobj
     \<Rightarrow> jsobj \<times> (string \<times> bool) list \<times> bool
     \<Rightarrow> (jsobj \<times> (string \<times> bool) list \<times> bool) option" where
  "rebaseLoop [] oldData oldChanged update acc = Some acc"
| "rebaseLoop (key # keys) oldData oldChanged update (newData, newChanged, clean) =
     (case oldChanged of
        None \<Rightarrow> None
      | Some ch \<Rightarrow>
          if map_of ch key \<noteq> None then
            (if \<not> isEqual (js_get oldData key) (js_get update key)
             then rebaseLoop keys oldData oldChanged update
                    (js_set key (js_get oldData key) newData,
                     AList.update key True newChanged, False)
             else rebaseLoop keys oldData oldChanged update
                    (js_set key (js_get oldData key) newData, newChanged, clean))
          else rebaseLoop keys oldData oldChanged update
                 (js_set key (js_get update key) newData, newChanged, clean))"

text \<open>
  One iteration of the loop of \<^verbatim>\<open>sourceDidFetchPartialRecords\<close>
  (lines 2221-2295) for the entry \<^verbatim>\<open>updates[id]\<close>.
\<close>

definition partialRecordStep ::
  "accountId \<Rightarrow> rtype \<Rightarrow> ident \<Rightarrow> jsobj option \<Rightarrow> store \<Rightarrow> store option" where
  "partialRecordStep accountId T rid upd s =
     (case accounts s accountId of
        None \<Rightarrow> None
      | Some account \<Rightarrow>
          (case (upd, typeToIdToSK account (typeId T) rid) of
             (Some update0, Some sk) \<Rightarrow>
               (let status = rawStatus s sk in
                if status AND READY = 0 then Some s
                else if status AND COMMITTING \<noteq> 0
                then fetchData sk (setStatus sk (status AND NOT LOADING) s)
                else
                  (let newId = js_get update0 (idAttrKey T);
                       s1 = (case idOfVal newId of
                               None \<Rightarrow> s
                             | Some n \<Rightarrow>
                                 if n \<noteq> [] \<and> n \<noteq> rid then
                                   s\<lparr>typeToSKToId := (typeToSKToId s)
                                        (typeId T := AList.update sk (Some n) (typeToSKToId s (typeId T))),
                                     accounts := (accounts s)(accountId \<mapsto>
                                        account\<lparr>typeToIdToSK := (typeToIdToSK account)
                                          (typeId T := (typeToIdToSK account (typeId T))(n \<mapsto> sk))\<rparr>)\<rparr>
                                 else s)
                   in if status AND DIRTY \<noteq> 0 then
                        (case skToCommitted s1 sk of
                           None \<Rightarrow> None
                         | Some committed \<Rightarrow>
                             (let update = object_assign committed update0;
                                  s2 = s1\<lparr>skToCommitted := (skToCommitted s1)(sk \<mapsto> update)\<rparr>;
                                  discard = (\<lambda>u. Some (setStatus sk READY (snd (updateData sk update False
                                     (u\<lparr>skToChanged := AList.delete sk (skToChanged u),
                                        skToCommitted := (skToCommitted u)(sk := None)\<rparr>)))))
                              in if rebaseConflicts s2 then
                                   (let oldData = (case skToData s2 sk of None \<Rightarrow> [] | Some d \<Rightarrow> d);
                                        oldChanged = map_of (skToChanged s2) sk
                                    in case rebaseLoop (js_keys oldData) oldData oldChanged update
                                              ([], [], True) of
                                         None \<Rightarrow> None
                                       | Some (newData, newChanged, clean) \<Rightarrow>
                                           if \<not> clean then
                                             (let s3 = s2\<lparr>skToChanged :=
                                                          AList.update sk newChanged (skToChanged s2),
                                                        skToCommitted := (skToCommitted s2)(sk \<mapsto> update)\<rparr>
                                              in case setData sk (Some newData) s3 of
                                                   None \<Rightarrow> None
                                                 | Some s4 \<Rightarrow> Some (setStatus sk (READY OR DIRTY) s4))
                                           else discard s2)
                                 else discard s2))
                      else Some (setStatus sk READY (snd (updateData sk update0 False s1)))))
           | _ \<Rightarrow> Some s))"

fun partialRecordsLoop ::
  "accountId \<Rightarrow> rtype \<Rightarrow> (ident \<times> jsobj option) list \<Rightarrow> store \<Rightarrow> store option" where
  "partialRecordsLoop accountId T [] s = Some s"
| "partialRecordsLoop accountId T ((rid, upd) # rest) s =
     (case partialRecordStep accountId T rid upd s of
        None \<Rightarrow> None
      | Some s1 \<Rightarrow> partialRecordsLoop accountId T rest s1)"

text \<open>
  \<^verbatim>\<open>sourceDidFetchPartialRecords\<close> (lines 2211-2297).  \<^verbatim>\<open>getAccount\<close> throws
  for a falsy account id, and reading \<^verbatim>\<open>typeToIdToSK\<close> of an unknown account
  throws.  \<open>updates\<close> lists the properties of the \<^verbatim>\<open>updates\<close> object in the order
  of their enumeration.
\<close>

definition sourceDidFetchPartialRecords ::
  "accountId \<Rightarrow> rtype \<Rightarrow> (ident \<times> jsobj option) list \<Rightarrow> store \<Rightarrow> store option" where
  "sourceDidFetchPartialRecords accountId T updates s =
     (if accountId = [] \<or> accounts s accountId = None then None
      else map_option mayHaveChanges (partialRecordsLoop accountId T updates s))"

text \<open>
  One iteration, and the whole, of the first loop of \<^verbatim>\<open>sourceDidFetchRecords\<close>
  (lines 2099-2131), from the last record to the first; it carries the set
  \<^verbatim>\<open>seen\<close>, the object \<^verbatim>\<open>updates\<close> and the store.  \<open>now\<close> is the value of \<^verbatim>\<open>Date.now()\<close>.
\<close>

definition fetchRecordStep ::
  "accountId \<Rightarrow> rtype \<Rightarrow> nat \<Rightarrow> jsobj
     \<Rightarrow> storeKey list \<times> (ident \<times> jsobj option) list \<times> store
     \<Rightarrow> (storeKey list \<times> (ident \<times> jsobj option) list \<times> store) option" where
  "fetchRecordStep accountId T now data acc =
     (case acc of (seen, updates, s) \<Rightarrow>
      (let rid = idOfVal (js_get data (idAttrKey T)) in
       case getStoreKey accountId (Some T) rid s of
         None \<Rightarrow> None
       | Some (sk, s1) \<Rightarrow>
           (let status = getStatus s1 sk;
                seen1 = sk # seen;
                data1 = js_set ''accountId'' (VStr accountId) data
            in if status AND READY \<noteq> 0 then
                 Some (seen1,
                       AList.update (case rid of None \<Rightarrow> ''undefined'' | Some i \<Rightarrow> i)
                         (Some data1) updates,
                       s1)
               else if status AND DESTROYED \<noteq> 0 \<and> status AND (DIRTY OR COMMITTING) \<noteq> 0 then
                 Some (seen1, updates,
                       setStatus sk (status AND NOT LOADING)
                         (s1\<lparr>skToData := (skToData s1)(sk \<mapsto> data1)\<rparr>))
               else
                 (let s2 = (if status AND EMPTY = 0 then setStatus sk EMPTY s1 else s1) in
                  case setData sk (Some data1) s2 of
                    None \<Rightarrow> None
                  | Some s3 \<Rightarrow>
                      (let s4 = setStatus sk READY s3
                       in Some (seen1, updates,
                                s4\<lparr>skToLastAccess := (skToLastAccess s4)(sk \<mapsto> now)\<rparr>))))))"

fun fetchRecordsLoop ::
  "accountId \<Rightarrow> rtype \<Rightarrow> nat \<Rightarrow> jsobj list
     \<Rightarrow> storeKey list \<times> (ident \<times> jsobj option) list \<times> store
     \<Rightarrow> (storeKey list \<times> (ident \<times> jsobj option) list \<times> store) option" where
  "fetchRecordsLoop accountId T now [] acc = Some acc"
| "fetchRecordsLoop accountId T now (data # rest) acc =
     (case fetchRecordStep accountId T now data acc of
        None \<Rightarrow> None
      | Some acc1 \<Rightarrow> fetchRecordsLoop accountId T now rest acc1)"

text \<open>
  The loop of the \<^verbatim>\<open>isAll\<close> branch (lines 2136-2148) over the store keys of the
  type: it collects the ids of the records to destroy.  Reading \<^verbatim>\<open>accountId\<close> of
  the data of a READY record without data throws.
\<close>

fun missingRecordsLoop ::
  "accountId \<Rightarrow> storeKey list \<Rightarrow> store \<Rightarrow> (storeKey \<times> ident option) list
     \<Rightarrow> ident option list option" where
  "missingRecordsLoop accountId seen s [] = Some []"
| "missingRecordsLoop accountId seen s ((sk, rid) # rest) =
     (if sk \<in> set seen then missingRecordsLoop accountId seen s rest
      else
        (let status = getStatus s sk in
         if status AND READY \<noteq> 0 \<and> status AND NEW = 0 then
           (case skToData s sk of
              None \<Rightarrow> None
            | Some data \<Rightarrow>
                if js_get data ''accountId'' = VStr accountId
                then map_option (Cons rid) (missingRecordsLoop accountId seen s rest)
                else missingRecordsLoop accountId seen s rest)
         else missingRecordsLoop accountId seen s rest))"

text \<open>The state token handling at the end (lines 2156-2177).\<close>

definition fetchedRecordsState ::
  "accountId \<Rightarrow> rtype \<Rightarrow> string option \<Rightarrow> bool \<Rightarrow> store \<Rightarrow> store option" where
  "fetchedRecordsState accountId T state isAll s =
     (case accounts s accountId of
        None \<Rightarrow> None
      | Some account \<Rightarrow>
          (let tid = typeId T in
           case (if stateIsTruthy state then
                   (let oldClientState = clientState account tid;
                        oldServerState = serverState account tid
                    in if \<not> isAll \<and> stateIsTruthy oldClientState \<and> oldClientState \<noteq> state
                       then sourceStateDidChange accountId T (the state) s
                       else
                         (let account1 = account\<lparr>clientState := (clientState account)(tid := state)\<rparr>;
                              account2 = (if \<not> stateIsTruthy oldClientState
                                             \<or> \<not> stateIsTruthy oldServerState
                                             \<or> oldClientState = oldServerState
                                          then account1\<lparr>serverState :=
                                                 (serverState account1)(tid := state)\<rparr>
                                          else account1)
                          in Some (s\<lparr>accounts := (accounts s)(accountId \<mapsto> account2)\<rparr>)))
                 else Some s) of
             None \<Rightarrow> None
           | Some s1 \<Rightarrow>
               (case accounts s1 accountId of
                  None \<Rightarrow> None
                | Some account3 \<Rightarrow>
                    Some (s1\<lparr>accounts := (accounts s1)(accountId \<mapsto>
                            account3\<lparr>typeStatus := (typeStatus account3)
                              (tid := typeStatus account3 tid OR READY)\<rparr>)\<rparr>))))"

text \<open>
  The \<^verbatim>\<open>isAll\<close> branch (lines 2133-2152): the ids collected by the loop are
  handed to \<^verbatim>\<open>sourceDidDestroyRecords\<close> when there are any.
\<close>

definition destroyMissingRecords ::
  "accountId \<Rightarrow> rtype \<Rightarrow> storeKey list \<Rightarrow> store \<Rightarrow> store option" where
  "destroyMissingRecords accountId T seen s =
     (case missingRecordsLoop accountId seen s (typeToSKToId s (typeId T)) of
        None \<Rightarrow> None
      | Some destroyedIds \<Rightarrow>
          if destroyedIds \<noteq> [] then sourceDidDestroyRecords accountId T destroyedIds s
          else Some s)"

text \<open>The notification of the type at the end (lines 2186-2188).\<close>

definition typeDidLoad :: "rtype \<Rightarrow> store \<Rightarrow> store" where
  "typeDidLoad T s =
     (let tid = typeId T;
          s1 = s\<lparr>changedTypes := (if tid \<in> set (changedTypes s) then changedTypes s
                                     else changedTypes s @ [tid])\<rparr>
      in logEffect (QueueFn ''middle'' ''_fireTypeChanges'') s1)"

text \<open>
  \<^verbatim>\<open>sourceDidFetchRecords\<close> (lines 2085-2191).  An unknown account makes the
  method throw on every path.  The promise bookkeeping of \<^verbatim>\<open>whenTypeReady\<close> is
  not part of the model.
\<close>

definition sourceDidFetchRecords ::
  "accountId \<Rightarrow> rtype \<Rightarrow> jsobj list \<Rightarrow> string option \<Rightarrow> bool \<Rightarrow> nat \<Rightarrow> store \<Rightarrow> store option" where
  "sourceDidFetchRecords accountId T records state isAll now s =
     (if accountId = [] \<or> accounts s accountId = None then None
      else case fetchRecordsLoop accountId T now (rev records) ([], [], s) of
        None \<Rightarrow> None
      | Some (seen, updates, s1) \<Rightarrow>
          (case (if isAll then destroyMissingRecords accountId T seen s1 else Some s1) of
             None \<Rightarrow> None
           | Some s2 \<Rightarrow>
               (case sourceDidFetchPartialRecords accountId T updates s2 of
                  None \<Rightarrow> None
                | Some s3 \<Rightarrow>
                    map_option (typeDidLoad T) (fetchedRecordsState accountId T state isAll s3))))"

subsection \<open>Record instances\<close>

text \<open>
  \<^verbatim>\<open>materialiseRecord\<close> (lines 1181-1189): \<^verbatim>\<open>new this._skToType[storeKey](...)\<close>
  throws for a store key without a type; the constructor of a record that is given a
  store key (Record.js, \<^verbatim>\<open>init\<close>) does not touch the store.  The result is the
  store afterwards; the record returned is the entry of \<^verbatim>\<open>_skToRecord\<close>.
\<close>

definition materialiseRecord :: "storeKey \<Rightarrow> store \<Rightarrow> store option" where
  "materialiseRecord sk s =
     (case skToRecord s sk of
        Some r \<Rightarrow> Some s
      | None \<Rightarrow>
          (case skToType s sk of
             None \<Rightarrow> None
           | Some T \<Rightarrow>
               Some (s\<lparr>skToRecord := (skToRecord s)
                         (sk \<mapsto> \<lparr>hasObservers = False, boundStoreKey = sk\<rparr>)\<rparr>)))"

text \<open>\<^verbatim>\<open>setRecordForStoreKey\<close> (lines 1164-1167).\<close>

definition setRecordForStoreKey :: "storeKey \<Rightarrow> recordObj \<Rightarrow> store \<Rightarrow> store" where
  "setRecordForStoreKey sk r s = s\<lparr>skToRecord := (skToRecord s)(sk \<mapsto> r)\<rparr>"

text \<open>
  \<^verbatim>\<open>getRecordFromStoreKey\<close> (lines 1140-1147); \<open>now\<close> is the value of
  \<^verbatim>\<open>Date.now()\<close>.
\<close>

definition getRecordFromStoreKey :: "storeKey \<Rightarrow> bool \<Rightarrow> nat \<Rightarrow> store \<Rightarrow> store option" where
  "getRecordFromStoreKey sk doNotFetch now s =
     (case materialiseRecord sk s of
        None \<Rightarrow> None
      | Some s1 \<Rightarrow>
          (case (if \<not> doNotFetch \<and> getStatus s1 sk = EMPTY then fetchData sk s1 else Some s1) of
             None \<Rightarrow> None
           | Some s2 \<Rightarrow> Some (s2\<lparr>skToLastAccess := (skToLastAccess s2)(sk \<mapsto> now)\<rparr>)))"

text \<open>
  \<^verbatim>\<open>getRecord\<close> (lines 601-615).  The \<^verbatim>\<open>id\<close> argument is either a record id or
  a store key prefixed with \<^verbatim>\<open>#\<close>; a missing type or a falsy id returns \<^verbatim>\<open>null\<close>
  and leaves the store alone, and so does a store key of another type.
\<close>

datatype recordRef = ById ident | ByStoreKey storeKey

definition getRecord ::
  "accountId \<Rightarrow> rtype option \<Rightarrow> recordRef option \<Rightarrow> bool \<Rightarrow> nat \<Rightarrow> store \<Rightarrow> store option" where
  "getRecord accountId T ref doNotFetch now s =
     (case (T, ref) of
        (Some t, Some (ByStoreKey sk)) \<Rightarrow>
          if skToType s sk \<noteq> Some t then Some s
          else getRecordFromStoreKey sk doNotFetch now s
      | (Some t, Some (ById rid)) \<Rightarrow>
          if rid = [] then Some s
          else (case getStoreKey accountId T (Some rid) s of
                  None \<Rightarrow> None
                | Some (sk, s1) \<Rightarrow> getRecordFromStoreKey sk doNotFetch now s1)
      | _ \<Rightarrow> Some s)"

text \<open>
  \<^verbatim>\<open>findOne\<close> (lines 1912-1927) and \<^verbatim>\<open>getOne\<close> (lines 632-635).  \<open>accept\<close> is
  the acceptance function, applied to the data of a store key.
\<close>

definition findOne :: "rtype option \<Rightarrow> (jsobj option \<Rightarrow> bool) option \<Rightarrow> store \<Rightarrow> storeKey option" where
  "findOne T accept s =
     (case filter (\<lambda>sk. rawStatus s sk AND READY \<noteq> 0
                        \<and> (case accept of None \<Rightarrow> True | Some f \<Rightarrow> f (skToData s sk)))
             (map fst (typeToSKToId s (guidOfType T))) of
        [] \<Rightarrow> None
      | sk # rest \<Rightarrow> Some sk)"

definition getOne :: "rtype option \<Rightarrow> (jsobj option \<Rightarrow> bool) option \<Rightarrow> store \<Rightarrow> store option" where
  "getOne T accept s =
     (case findOne T accept s of None \<Rightarrow> Some s | Some sk \<Rightarrow> materialiseRecord sk s)"

subsection \<open>Nested stores, pending changes and type notifications\<close>

text \<open>
  \<^verbatim>\<open>addNested\<close> and \<^verbatim>\<open>removeNested\<close> (lines 355-377); a nested store is
  removed by its position in \<^verbatim>\<open>_nestedStores\<close>.
\<close>

definition addNested :: "(storeKey \<Rightarrow> bool) \<Rightarrow> store \<Rightarrow> store" where
  "addNested nested s = s\<lparr>nestedStores := nestedStores s @ [nested]\<rparr>"

definition removeNested :: "nat \<Rightarrow> store \<Rightarrow> store" where
  "removeNested i s = s\<lparr>nestedStores := take i (nestedStores s) @ drop (Suc i) (nestedStores s)\<rparr>"

text \<open>\<^verbatim>\<open>checkForChanges\<close> (lines 664-676).\<close>

definition checkForChanges :: "store \<Rightarrow> store" where
  "checkForChanges s =
     s\<lparr>hasChanges := (created s \<noteq> [] \<or> skToChanged s \<noteq> [] \<or> destroyed s \<noteq> [])\<rparr>"

text \<open>\<^verbatim>\<open>_fireTypeChanges\<close> (lines 1834-1843), run from the queue of the run loop.\<close>

definition fireTypeChanges :: "store \<Rightarrow> store" where
  "fireTypeChanges s = foldl (\<lambda>s' tid. logEffect (Fire tid) s') (s\<lparr>changedTypes := []\<rparr>) (changedTypes s)"

text \<open>\<^verbatim>\<open>checkServerState\<close> (lines 1462-1473).\<close>

definition checkServerState :: "accountId \<Rightarrow> rtype \<Rightarrow> store \<Rightarrow> store option" where
  "checkServerState accountId T s =
     (if accountId = [] then None
      else case accounts s accountId of
        None \<Rightarrow> None
      | Some account \<Rightarrow>
          (case serverState account (typeId T) of
             None \<Rightarrow> Some s
           | Some st \<Rightarrow>
               if st = [] then Some s
               else sourceStateDidChange accountId T st
                      (s\<lparr>accounts := (accounts s)(accountId \<mapsto>
                           account\<lparr>serverState := (serverState account)(typeId T := Some [])\<rparr>)\<rparr>)))"

text \<open>
  A loop over an array, one round after the other; a round that throws ends the
  method.
\<close>

fun eachStep :: "('a \<Rightarrow> store \<Rightarrow> store option) \<Rightarrow> 'a list \<Rightarrow> store \<Rightarrow> store option" where
  "eachStep f [] s = Some s"
| "eachStep f (x # xs) s = (case f x s of None \<Rightarrow> None | Some s1 \<Rightarrow> eachStep f xs s1)"

text \<open>
  The callback that \<^verbatim>\<open>commitChanges\<close> hands to the source (lines 859-875), for the
  change entries of that commit.
\<close>

definition commitDoneStep :: "changeEntry \<Rightarrow> store \<Rightarrow> store option" where
  "commitDoneStep entry s =
     (case accounts s (entryAccountId entry) of
        None \<Rightarrow> None
      | Some account \<Rightarrow>
          checkServerState (entryAccountId entry) (entryType entry)
            (s\<lparr>accounts := (accounts s)(entryAccountId entry \<mapsto>
                 account\<lparr>typeStatus := (typeStatus account)
                   (typeId (entryType entry) :=
                      typeStatus account (typeId (entryType entry)) AND NOT COMMITTING)\<rparr>)\<rparr>))"

definition commitDone :: "(string \<times> changeEntry) list \<Rightarrow> store \<Rightarrow> store option" where
  "commitDone changes s =
     (case eachStep commitDoneStep (map snd changes) s of
        None \<Rightarrow> None
      | Some s1 \<Rightarrow>
          (let s2 = s1\<lparr>isCommitting := False\<rparr> in
           Some (if autoCommit s2
                 then (let s3 = checkForChanges s2
                       in if hasChanges s3 then callCommitChanges s3 else s3)
                 else s2)))"

subsection \<open>Source callbacks for records that changed or are gone\<close>

text \<open>\<^verbatim>\<open>sourceDidModifyRecords\<close> (lines 2409-2418).\<close>

definition modifyRecordStep :: "accountId \<Rightarrow> rtype \<Rightarrow> ident option \<Rightarrow> store \<Rightarrow> store option" where
  "modifyRecordStep accountId T rid s =
     (case getStoreKey accountId (Some T) rid s of
        None \<Rightarrow> None
      | Some (sk, s1) \<Rightarrow>
          (let status = getStatus s1 sk in
           Some (if status AND READY \<noteq> 0 then setStatus sk (status OR OBSOLETE) s1 else s1)))"

definition sourceDidModifyRecords ::
  "accountId \<Rightarrow> rtype \<Rightarrow> ident option list \<Rightarrow> store \<Rightarrow> store option" where
  "sourceDidModifyRecords accountId T idl s = eachStep (modifyRecordStep accountId T) (rev idl) s"

text \<open>\<^verbatim>\<open>sourceCouldNotFindRecords\<close> (lines 2315-2334).\<close>

definition couldNotFindStep :: "accountId \<Rightarrow> rtype \<Rightarrow> ident option \<Rightarrow> store \<Rightarrow> store option" where
  "couldNotFindStep accountId T rid s =
     (case getStoreKey accountId (Some T) rid s of
        None \<Rightarrow> None
      | Some (sk, s1) \<Rightarrow>
          (let status = getStatus s1 sk in
           if status AND (EMPTY OR NON_EXISTENT) \<noteq> 0 then Some (setStatus sk NON_EXISTENT s1)
           else
             (case (if status AND DIRTY \<noteq> 0
                    then (case setData sk (skToCommitted s1 sk) s1 of
                            None \<Rightarrow> None
                          | Some s2 \<Rightarrow>
                              Some (s2\<lparr>skToCommitted := (skToCommitted s2)(sk := None),
                                       skToChanged := AList.delete sk (skToChanged s2)\<rparr>))
                    else Some s1) of
                None \<Rightarrow> None
              | Some s3 \<Rightarrow> Some (snd (unloadRecord sk (setStatus sk DESTROYED s3))))))"

definition sourceCouldNotFindRecords ::
  "accountId \<Rightarrow> rtype \<Rightarrow> ident option list \<Rightarrow> store \<Rightarrow> store option" where
  "sourceCouldNotFindRecords accountId T idl s =
     map_option mayHaveChanges (eachStep (couldNotFindStep accountId T) (rev idl) s)"

text \<open>
  \<^verbatim>\<open>sourceDidFetchUpdates\<close> (lines 2358-2392).  \<open>changed\<close> and \<open>destroyed\<close> may be
  left out (\<open>None\<close>).
\<close>

definition sourceDidFetchUpdates ::
  "accountId \<Rightarrow> rtype \<Rightarrow> ident option list option \<Rightarrow> ident option list option
     \<Rightarrow> string \<Rightarrow> string \<Rightarrow> store \<Rightarrow> store option" where
  "sourceDidFetchUpdates accountId T changed destroyedIds oldState newState s =
     (if accountId = [] then None
      else case accounts s accountId of
        None \<Rightarrow> None
      | Some account \<Rightarrow>
          (let tid = typeId T in
           if Some oldState = clientState account tid then
             (case (case changed of
                      None \<Rightarrow> Some s
                    | Some c \<Rightarrow> if c \<noteq> [] then sourceDidModifyRecords accountId T c s
                                else Some s) of
                None \<Rightarrow> None
              | Some s1 \<Rightarrow>
                  (case (case destroyedIds of
                           None \<Rightarrow> Some s1
                         | Some d \<Rightarrow> if d \<noteq> [] then sourceDidDestroyRecords accountId T d s1
                                     else Some s1) of
                     None \<Rightarrow> None
                   | Some s2 \<Rightarrow>
                       (case accounts s2 accountId of
                          None \<Rightarrow> None
                        | Some account2 \<Rightarrow>
                            (let s3 = (if oldState \<noteq> newState
                                          \<and> Some newState \<noteq> serverState account2 tid
                                       then logEffect (Fire (tid @ '':server:'' @ accountId)) s2
                                       else s2);
                                 account3 = account2\<lparr>clientState :=
                                              (clientState account2)(tid := Some newState)\<rparr>;
                                 account4 = (if serverState account3 tid = Some oldState
                                             then account3\<lparr>serverState :=
                                                    (serverState account3)(tid := Some newState)\<rparr>
                                             else account3)
                             in Some (s3\<lparr>accounts := (accounts s3)(accountId \<mapsto> account4)\<rparr>)))))
           else sourceStateDidChange accountId T newState s))"

text \<open>\<^verbatim>\<open>sourceCommitDidChangeState\<close> (lines 2471-2485).\<close>

definition sourceCommitDidChangeState ::
  "accountId \<Rightarrow> rtype \<Rightarrow> string \<Rightarrow> string \<Rightarrow> store \<Rightarrow> store option" where
  "sourceCommitDidChangeState accountId T oldState newState s =
     (if accountId = [] then None
      else case accounts s accountId of
        None \<Rightarrow> None
      | Some account \<Rightarrow>
          (let tid = typeId T in
           if clientState account tid = Some oldState then
             (let account1 = account\<lparr>clientState := (clientState account)(tid := Some newState)\<rparr>;
                  account2 = (if serverState account1 tid = Some oldState
                              then account1\<lparr>serverState :=
                                     (serverState account1)(tid := Some newState)\<rparr>
                              else account1)
              in Some (s\<lparr>accounts := (accounts s)(accountId \<mapsto> account2)\<rparr>))
           else sourceStateDidChange accountId T newState s))"

subsection \<open>Source callbacks for a commit\<close>

definition SOURCE_COMMIT_CREATE_MISMATCH_ERROR :: string where
  "SOURCE_COMMIT_CREATE_MISMATCH_ERROR =
     ''O.Store Error: Source committed a create on a record not marked new''"

definition SOURCE_COMMIT_DESTROY_MISMATCH_ERROR :: string where
  "SOURCE_COMMIT_DESTROY_MISMATCH_ERROR =
     ''O.Store Error: Source commited a destroy on a record not marked destroyed''"

text \<open>
  \<^verbatim>\<open>sourceDidCommitCreate\<close> (lines 2504-2550): one round of the loop over the
  store keys of \<^verbatim>\<open>skToPartialData\<close>, and the method.  Reading the primary key of
  an undefined type, the account id of missing data, or the id table of an account
  that does not exist throws.
\<close>

definition commitCreateStep :: "storeKey \<times> jsobj \<Rightarrow> store \<Rightarrow> store option" where
  "commitCreateStep item s =
     (let sk = fst item; data = snd item; status = getStatus s sk in
      if status AND NEW \<noteq> 0 then
        (case (skToType s sk, skToData s sk) of
           (Some T, Some current) \<Rightarrow>
             (case js_get current ''accountId'' of
                VStr a \<Rightarrow>
                  (case accounts s a of
                     None \<Rightarrow> None
                   | Some account \<Rightarrow>
                       (let rid = idOfVal (js_get data (idAttrKey T));
                            s1 = s\<lparr>typeToSKToId := (typeToSKToId s)
                                   (typeId T := AList.update sk rid (typeToSKToId s (typeId T)))\<rparr>;
                            s2 = (case rid of
                                    None \<Rightarrow> s1
                                  | Some i \<Rightarrow>
                                      s1\<lparr>accounts := (accounts s1)(a \<mapsto>
                                           account\<lparr>typeToIdToSK := (typeToIdToSK account)
                                             (typeId T := (typeToIdToSK account (typeId T))(i \<mapsto> sk))\<rparr>)\<rparr>);
                            s3 = snd (updateData sk data False s2)
                        in Some (setStatus sk (status AND NOT (COMMITTING OR NEW)) s3)))
              | _ \<Rightarrow> None)
         | _ \<Rightarrow> None)
      else Some (logEffect (DidError SOURCE_COMMIT_CREATE_MISMATCH_ERROR) s))"

definition commitIfAuto :: "store \<Rightarrow> store" where
  "commitIfAuto s = (if autoCommit s then callCommitChanges s else s)"

definition sourceDidCommitCreate :: "(storeKey \<times> jsobj) list \<Rightarrow> store \<Rightarrow> store option" where
  "sourceDidCommitCreate skToPartialData s =
     map_option commitIfAuto (eachStep commitCreateStep skToPartialData s)"

text \<open>
  The test \<^verbatim>\<open>isPermanent && (!errors || !this._notifyRecordOfError(storeKey,
  errors[i]))\<close> of the three callbacks for a failed commit.  What
  \<^verbatim>\<open>_notifyRecordOfError\<close> (lines 2842-2861) returns is decided by the handlers of
  the event it fires, in this store and its nested stores: \<open>errors\<close> gives, for each
  store key, that answer (\<open>True\<close> when a handler prevents the default).  An
  \<^verbatim>\<open>errors\<close> array without an entry for the store key makes the method throw.
  \<open>errorFor\<close> is \<^verbatim>\<open>errors[i]\<close>, where \<open>None\<close> means that no array was passed.
\<close>

definition errorFor :: "bool list option \<Rightarrow> nat \<Rightarrow> bool option option" where
  "errorFor errors i =
     (case errors of
        None \<Rightarrow> None
      | Some es \<Rightarrow> Some (if i < length es then Some (es ! i) else None))"

definition revertWanted :: "bool \<Rightarrow> bool option option \<Rightarrow> store \<Rightarrow> (bool \<times> store) option" where
  "revertWanted isPermanent e s =
     (if \<not> isPermanent then Some (False, s)
      else case e of
        None \<Rightarrow> Some (True, s)
      | Some None \<Rightarrow> None
      | Some (Some prevented) \<Rightarrow> Some (\<not> prevented, logEffect (Fire ''record:commit:error'') s))"

text \<open>The store keys of a callback with their errors, from the last to the first.\<close>

definition withErrors :: "storeKey list \<Rightarrow> bool list option \<Rightarrow> (storeKey \<times> bool option option) list" where
  "withErrors storeKeys errors =
     rev (map (\<lambda>i. (storeKeys ! i, errorFor errors i)) [0..<length storeKeys])"

text \<open>\<^verbatim>\<open>sourceDidNotCreate\<close> (lines 2587-2615).\<close>

definition notCreateStep :: "bool \<Rightarrow> storeKey \<times> bool option option \<Rightarrow> store \<Rightarrow> store option" where
  "notCreateStep isPermanent item s =
     (let sk = fst item; status = getStatus s sk in
      if status AND DESTROYED \<noteq> 0
      then Some (snd (unloadRecord sk (setStatus sk DESTROYED s)))
      else
        (let s1 = (if status AND DIRTY \<noteq> 0
                   then s\<lparr>skToCommitted := (skToCommitted s)(sk := None),
                          skToChanged := AList.delete sk (skToChanged s)\<rparr>
                   else s);
             s2 = setStatus sk (READY OR NEW OR DIRTY) s1;
             s3 = s2\<lparr>created := AList.update sk None (created s2)\<rparr>
         in case revertWanted isPermanent (snd item) s3 of
              None \<Rightarrow> None
            | Some r \<Rightarrow> if fst r then destroyRecord sk None (snd r) else Some (snd r)))"

definition sourceDidNotCreate :: "storeKey list \<Rightarrow> bool \<Rightarrow> bool list option \<Rightarrow> store \<Rightarrow> store option" where
  "sourceDidNotCreate storeKeys isPermanent errors s =
     map_option (\<lambda>s'. mayHaveChanges (commitIfAuto s'))
       (eachStep (notCreateStep isPermanent) (withErrors storeKeys errors) s)"

text \<open>\<^verbatim>\<open>sourceDidCommitUpdate\<close> (lines 2631-2646).\<close>

definition commitUpdateStep :: "storeKey \<Rightarrow> store \<Rightarrow> store option" where
  "commitUpdateStep sk s =
     (let status = getStatus s sk;
          s1 = s\<lparr>skToRollback := (skToRollback s)(sk := None)\<rparr>
      in Some (if status \<noteq> EMPTY then setStatus sk (status AND NOT COMMITTING) s1 else s1))"

definition sourceDidCommitUpdate :: "storeKey list \<Rightarrow> store \<Rightarrow> store option" where
  "sourceDidCommitUpdate storeKeys s =
     map_option commitIfAuto (eachStep commitUpdateStep (rev storeKeys) s)"

text \<open>
  \<^verbatim>\<open>sourceDidNotUpdate\<close> (lines 2682-2731).  \<^verbatim>\<open>getChanged\<close> is called with the
  type, the current data and the rollback data of the store key, each of which may
  be undefined: without a type it throws, without current data it returns
  \<^verbatim>\<open>null\<close>.
\<close>

definition getChangedOpt ::
  "rtype option \<Rightarrow> jsobj option \<Rightarrow> jsobj option \<Rightarrow> (string \<times> bool) list option option" where
  "getChangedOpt T a b =
     (case T of
        None \<Rightarrow> None
      | Some t \<Rightarrow> (case a of None \<Rightarrow> Some None | Some a1 \<Rightarrow> getChanged t a1 b))"

definition notUpdateStep :: "bool \<Rightarrow> storeKey \<times> bool option option \<Rightarrow> store \<Rightarrow> store option" where
  "notUpdateStep isPermanent item s =
     (let sk = fst item; status = getStatus s sk;
          s1 = (if status AND DESTROYED \<noteq> 0 \<and> skToRollback s sk \<noteq> None
                then s\<lparr>skToData := (skToData s)(sk := skToRollback s sk),
                       skToRollback := (skToRollback s)(sk := None)\<rparr>
                else s)
      in if status AND READY = 0
         then Some (if status \<noteq> EMPTY then setStatus sk (status AND NOT COMMITTING) s1 else s1)
         else
           (let committed = skToRollback s1 sk;
                s2 = s1\<lparr>skToCommitted := (skToCommitted s1)(sk := committed),
                        skToRollback := (skToRollback s1)(sk := None)\<rparr>;
                s3 = s2\<lparr>skToChanged := AList.delete sk (skToChanged s2)\<rparr>
            in case getChangedOpt (skToType s3 sk) (skToData s3 sk) committed of
                 None \<Rightarrow> None
               | Some changed \<Rightarrow>
                   (let s4 = (case changed of
                                Some ch \<Rightarrow>
                                  setStatus sk ((status AND NOT COMMITTING) OR DIRTY)
                                    (s3\<lparr>skToChanged := AList.update sk ch (skToChanged s3)\<rparr>)
                              | None \<Rightarrow> setStatus sk (status AND NOT COMMITTING) s3)
                    in case revertWanted isPermanent (snd item) s4 of
                         None \<Rightarrow> None
                       | Some r \<Rightarrow> if fst r then revertData sk (snd r) else Some (snd r))))"

definition sourceDidNotUpdate :: "storeKey list \<Rightarrow> bool \<Rightarrow> bool list option \<Rightarrow> store \<Rightarrow> store option" where
  "sourceDidNotUpdate storeKeys isPermanent errors s =
     map_option (\<lambda>s'. mayHaveChanges (commitIfAuto s'))
       (eachStep (notUpdateStep isPermanent) (withErrors storeKeys errors) s)"

text \<open>\<^verbatim>\<open>sourceDidCommitDestroy\<close> (lines 2747-2774).\<close>

definition commitDestroyStep :: "storeKey \<Rightarrow> store \<Rightarrow> store option" where
  "commitDestroyStep sk s =
     (let status = getStatus s sk in
      if status AND NOT DIRTY = (READY OR NEW OR COMMITTING) then
        (let s1 = (if status AND DIRTY \<noteq> 0
                   then s\<lparr>skToCommitted := (skToCommitted s)(sk := None),
                          skToChanged := AList.delete sk (skToChanged s)\<rparr>
                   else s)
         in Some (setStatus sk (READY OR NEW OR DIRTY) s1))
      else if status AND DESTROYED \<noteq> 0
      then Some (snd (unloadRecord sk (setStatus sk DESTROYED s)))
      else Some (logEffect (DidError SOURCE_COMMIT_DESTROY_MISMATCH_ERROR) s))"

definition sourceDidCommitDestroy :: "storeKey list \<Rightarrow> store \<Rightarrow> store option" where
  "sourceDidCommitDestroy storeKeys s =
     map_option (\<lambda>s'. mayHaveChanges (commitIfAuto s'))
       (eachStep commitDestroyStep (rev storeKeys) s)"

text \<open>\<^verbatim>\<open>sourceDidNotDestroy\<close> (lines 2812-2840).\<close>

definition notDestroyStep :: "bool \<Rightarrow> storeKey \<times> bool option option \<Rightarrow> store \<Rightarrow> store option" where
  "notDestroyStep isPermanent item s =
     (let sk = fst item; status = getStatus s sk in
      if status AND NOT DIRTY = (READY OR NEW OR COMMITTING) then
        (let s1 = setStatus sk (status AND NOT (COMMITTING OR NEW)) s
         in Some (s1\<lparr>created := AList.delete sk (created s1)\<rparr>))
      else if status AND DESTROYED \<noteq> 0 then
        (let s1 = setStatus sk ((status AND NOT COMMITTING) OR DIRTY) s;
             s2 = s1\<lparr>destroyed := AList.update sk None (destroyed s1)\<rparr>
         in case revertWanted isPermanent (snd item) s2 of
              None \<Rightarrow> None
            | Some r \<Rightarrow> if fst r then undestroyRecord sk None None None (snd r)
                        else Some (snd r))
      else Some (logEffect (DidError SOURCE_COMMIT_DESTROY_MISMATCH_ERROR) s))"

definition sourceDidNotDestroy :: "storeKey list \<Rightarrow> bool \<Rightarrow> bool list option \<Rightarrow> store \<Rightarrow> store option" where
  "sourceDidNotDestroy storeKeys isPermanent errors s =
     map_option (\<lambda>s'. mayHaveChanges (commitIfAuto s'))
       (eachStep (notDestroyStep isPermanent) (withErrors storeKeys errors) s)"

subsection \<open>Applying a set of changes\<close>

text \<open>
  \<^verbatim>\<open>applyChanges\<close> (lines 984-1014): the argument as built by
  \<^verbatim>\<open>getInverseChanges\<close>, and the four loops.
\<close>

record changeSet =
  toCreate :: "(storeKey \<times> rtype option \<times> jsobj option) list"
  toMove :: "(storeKey \<times> accountId \<times> storeKey option) list"
  toUpdate :: "(storeKey \<times> jsobj option) list"
  toDestroy :: "storeKey list"

definition applyChanges :: "changeSet \<Rightarrow> store \<Rightarrow> store option" where
  "applyChanges changes s =
     (case eachStep (\<lambda>c. undestroyRecord (fst c) (fst (snd c)) (snd (snd c)) None)
             (toCreate changes) s of
        None \<Rightarrow> None
      | Some s1 \<Rightarrow>
          (case eachStep (\<lambda>m u. map_option snd (moveRecord (fst m) (fst (snd m)) (snd (snd m)) u))
                  (toMove changes) s1 of
             None \<Rightarrow> None
           | Some s2 \<Rightarrow>
               (case eachStep (\<lambda>c u. map_option snd (updateDataOpt (fst c) (snd c) True u))
                       (toUpdate changes) s2 of
                  None \<Rightarrow> None
                | Some s3 \<Rightarrow> eachStep (\<lambda>sk. destroyRecord sk None) (toDestroy changes) s3)))"

subsection \<open>A new store\<close>

text \<open>
  The store as \<^verbatim>\<open>init\<close> (lines 291-339) leaves it, with the defaults of the class:
  \<^verbatim>\<open>autoCommit\<close> and \<^verbatim>\<open>rebaseConflicts\<close> are true, the counter of
  \<^verbatim>\<open>generateStoreKey\<close> starts at 1.
\<close>

definition initStore :: store where
  "initStore =
     \<lparr>typeToSKToId = (\<lambda>t. []), skToAccountId = Map.empty, skToType = Map.empty,
      skToStatus = Map.empty, skToData = Map.empty, skToChanged = [],
      skToCommitted = Map.empty, skToRollback = Map.empty, skToRecord = Map.empty,
      skToLastAccess = Map.empty, hasChanges = False, isCommitting = False,
      created = [], destroyed = [], changedTypes = [], nestedStores = [],
      accounts = Map.empty, autoCommit = True, rebaseConflicts = True,
      nextStoreKey = 1, effects = []\<rparr>"

subsection \<open>Example stores\<close>

text \<open>
  A record type with the two synchronised attributes \<^verbatim>\<open>a\<close> and \<^verbatim>\<open>b\<close>, and a
  store holding one loaded record of that type under the store key \<^verbatim>\<open>k1\<close>.
\<close>

definition exType :: rtype where
  "exType = \<lparr>typeId = ''T'', idAttrKey = ''id'', clientSettable = [''a'', ''b''],
             defaultValue = [(''a'', VUndefined), (''b'', VUndefined)]\<rparr>"

definition exStore :: "status \<Rightarrow> jsobj \<Rightarrow> store" where
  "exStore st data =
     initStore\<lparr>skToType := [K 1 \<mapsto> exType], skToStatus := [K 1 \<mapsto> st],
               skToData := [K 1 \<mapsto> data], nextStoreKey := 2\<rparr>"

definition exMinted :: store where
  "exMinted =
     snd (the (getStoreKey ''acc'' (Some exType) None (addAccount ''acc'' None None initStore)))"

text \<open>
  A store with the account \<^verbatim>\<open>acc\<close> in which the record \<^verbatim>\<open>k1\<close> has just been
  created with \<^verbatim>\<open>createRecord\<close>, and one in which the loaded record \<^verbatim>\<open>k1\<close>
  has been changed with \<^verbatim>\<open>updateData(k1, {a: 2}, true)\<close>.
\<close>

definition exCreated :: store where
  "exCreated = createRecord (K 1) (Some [(''a'', VNum 1)]) None exMinted"


text \<open>
  Scenario S2 of the specification: the record \<^verbatim>\<open>k1\<close> with the id \<^verbatim>\<open>r1\<close> in the
  account \<^verbatim>\<open>acc\<close> is READY with \<^verbatim>\<open>{a: 1, b: 1}\<close>, and the client sets
  \<^verbatim>\<open>a\<close> to 2.  The argument is the value of \<^verbatim>\<open>rebaseConflicts\<close>.
\<close>

definition exLoaded :: "bool \<Rightarrow> store" where
  "exLoaded rebase =
     (exStore READY [(''a'', VNum 1), (''b'', VNum 1)])
       \<lparr>typeToSKToId := (\<lambda>t. if t = ''T'' then [(K 1, Some ''r1'')] else []),
        skToAccountId := [K 1 \<mapsto> VStr ''acc''],
        accounts := [''acc'' \<mapsto> (newAccount None)
           \<lparr>typeToIdToSK := (\<lambda>t. if t = ''T'' then [''r1'' \<mapsto> K 1] else Map.empty)\<rparr>],
        rebaseConflicts := rebase\<rparr>"

definition exClientEdit :: "bool \<Rightarrow> store" where
  "exClientEdit rebase = snd (updateData (K 1) [(''a'', VNum 2)] True (exLoaded rebase))"

text \<open>The store of scenario S2 with a second account, \<^verbatim>\<open>acc2\<close>.\<close>

definition exTwoAccounts :: store where
  "exTwoAccounts = addAccount ''acc2'' None None (exLoaded True)"

subsection \<open>Store operations\<close>

text \<open>
  The operations of the store, as values, and their application to a store; \<open>None\<close>
  is a thrown TypeError.  They are the methods of the class that write to the store
  (the methods left out only read it), the callback that \<^verbatim>\<open>commitChanges\<close> hands
  to the source, and \<^verbatim>\<open>_fireTypeChanges\<close>, which the run loop calls.  The registry
  of queries (\<^verbatim>\<open>addQuery\<close>, \<^verbatim>\<open>removeQuery\<close>, \<^verbatim>\<open>getQuery\<close>) and the promises
  of \<^verbatim>\<open>whenTypeReady\<close> hold no table of store keys and are not part of the state.
  \<open>mayWriteAccountId\<close> holds for \<^verbatim>\<open>addAccount\<close>, for \<^verbatim>\<open>updateData\<close> and for
  the operations that can call \<^verbatim>\<open>updateData\<close>: the two methods that assign to
  \<^verbatim>\<open>_skToAccountId\<close> for a store key that exists already.
\<close>

datatype storeOp =
    GetStoreKey accountId "rtype option" "ident option"
  | AddAccount accountId "accountId option" "string list option"
  | SetStatus storeKey status
  | UnloadRecord storeKey
  | CreateRecord storeKey "jsobj option" "storeKey option"
  | UpdateData storeKey jsobj bool
  | SetData storeKey "jsobj option"
  | RevertData storeKey
  | DestroyRecord storeKey "storeKey option"
  | UndestroyRecord storeKey "rtype option" "jsobj option" "storeKey option"
  | DiscardChanges
  | MoveRecord storeKey accountId "storeKey option"
  | CommitChanges
  | FetchData storeKey
  | FetchAll accountId rtype bool
  | SourceStateDidChange accountId rtype string
  | SourceDidDestroyRecords accountId rtype "ident option list"
  | SourceDidFetchPartialRecords accountId rtype "(ident \<times> jsobj option) list"
  | SourceDidFetchRecords accountId rtype "jsobj list" "string option" bool nat
  | SourceDidModifyRecords accountId rtype "ident option list"
  | SourceCouldNotFindRecords accountId rtype "ident option list"
  | SourceDidFetchUpdates accountId rtype "ident option list option" "ident option list option"
      string string
  | SourceCommitDidChangeState accountId rtype string string
  | SourceDidCommitCreate "(storeKey \<times> jsobj) list"
  | SourceDidNotCreate "storeKey list" bool "bool list option"
  | SourceDidCommitUpdate "storeKey list"
  | SourceDidNotUpdate "storeKey list" bool "bool list option"
  | SourceDidCommitDestroy "storeKey list"
  | SourceDidNotDestroy "storeKey list" bool "bool list option"
  | CommitDone "(string \<times> changeEntry) list"
  | ApplyChanges changeSet
  | GetRecord accountId "rtype option" "recordRef option" bool nat
  | GetRecordFromStoreKey storeKey bool nat
  | MaterialiseRecord storeKey
  | SetRecordForStoreKey storeKey recordObj
  | GetOne "rtype option" "(jsobj option \<Rightarrow> bool) option"
  | AddNested "storeKey \<Rightarrow> bool"
  | RemoveNested nat
  | CheckForChanges
  | CheckServerState accountId rtype
  | FireTypeChanges

fun applyOp :: "storeOp \<Rightarrow> store \<Rightarrow> store option" where
  "applyOp (GetStoreKey a T rid) s = map_option snd (getStoreKey a T rid s)"
| "applyOp (AddAccount a r c) s = Some (addAccount a r c s)"
| "applyOp (SetStatus sk st) s = Some (setStatus sk st s)"
| "applyOp (UnloadRecord sk) s = Some (snd (unloadRecord sk s))"
| "applyOp (CreateRecord sk d c) s = Some (createRecord sk d c s)"
| "applyOp (UpdateData sk d b) s = Some (snd (updateData sk d b s))"
| "applyOp (SetData sk d) s = setData sk d s"
| "applyOp (RevertData sk) s = revertData sk s"
| "applyOp (DestroyRecord sk c) s = destroyRecord sk c s"
| "applyOp (UndestroyRecord sk T d c) s = undestroyRecord sk T d c s"
| "applyOp DiscardChanges s = discardChanges s"
| "applyOp (MoveRecord sk a c) s = map_option snd (moveRecord sk a c s)"
| "applyOp CommitChanges s = commitChanges s"
| "applyOp (FetchData sk) s = fetchData sk s"
| "applyOp (FetchAll a T f) s = fetchAll a T f s"
| "applyOp (SourceStateDidChange a T n) s = sourceStateDidChange a T n s"
| "applyOp (SourceDidDestroyRecords a T ids) s = sourceDidDestroyRecords a T ids s"
| "applyOp (SourceDidFetchPartialRecords a T us) s = sourceDidFetchPartialRecords a T us s"
| "applyOp (SourceDidFetchRecords a T rs st isAll now) s =
     sourceDidFetchRecords a T rs st isAll now s"
| "applyOp (SourceDidModifyRecords a T ids) s = sourceDidModifyRecords a T ids s"
| "applyOp (SourceCouldNotFindRecords a T ids) s = sourceCouldNotFindRecords a T ids s"
| "applyOp (SourceDidFetchUpdates a T ch ds old new) s = sourceDidFetchUpdates a T ch ds old new s"
| "applyOp (SourceCommitDidChangeState a T old new) s = sourceCommitDidChangeState a T old new s"
| "applyOp (SourceDidCommitCreate l) s = sourceDidCommitCreate l s"
| "applyOp (SourceDidNotCreate sks p es) s = sourceDidNotCreate sks p es s"
| "applyOp (SourceDidCommitUpdate sks) s = sourceDidCommitUpdate sks s"
| "applyOp (SourceDidNotUpdate sks p es) s = sourceDidNotUpdate sks p es s"
| "applyOp (SourceDidCommitDestroy sks) s = sourceDidCommitDestroy sks s"
| "applyOp (SourceDidNotDestroy sks p es) s = sourceDidNotDestroy sks p es s"
| "applyOp (CommitDone changes) s = commitDone changes s"
| "applyOp (ApplyChanges changes) s = applyChanges changes s"
| "applyOp (GetRecord a T r d now) s = getRecord a T r d now s"
| "applyOp (GetRecordFromStoreKey sk d now) s = getRecordFromStoreKey sk d now s"
| "applyOp (MaterialiseRecord sk) s = materialiseRecord sk s"
| "applyOp (SetRecordForStoreKey sk r) s = Some (setRecordForStoreKey sk r s)"
| "applyOp (GetOne T f) s = getOne T f s"
| "applyOp (AddNested f) s = Some (addNested f s)"
| "applyOp (RemoveNested i) s = Some (removeNested i s)"
| "applyOp CheckForChanges s = Some (checkForChanges s)"
| "applyOp (CheckServerState a T) s = checkServerState a T s"
| "applyOp FireTypeChanges s = Some (fireTypeChanges s)"

fun mayWriteAccountId :: "storeOp \<Rightarrow> bool" where
  "mayWriteAccountId (AddAccount a r c) = True"
| "mayWriteAccountId (UpdateData sk d b) = True"
| "mayWriteAccountId (SetData sk d) = True"
| "mayWriteAccountId (RevertData sk) = True"
| "mayWriteAccountId (UndestroyRecord sk T d c) = True"
| "mayWriteAccountId DiscardChanges = True"
| "mayWriteAccountId (MoveRecord sk a c) = True"
| "mayWriteAccountId (SourceDidFetchPartialRecords a T us) = True"
| "mayWriteAccountId (SourceDidFetchRecords a T rs st isAll now) = True"
| "mayWriteAccountId (SourceCouldNotFindRecords a T ids) = True"
| "mayWriteAccountId (SourceDidCommitCreate l) = True"
| "mayWriteAccountId (SourceDidNotUpdate sks p es) = True"
| "mayWriteAccountId (ApplyChanges changes) = True"
| "mayWriteAccountId op = False"

subsection \<open>Predicates used in the proofs\<close>

text \<open>
  \<open>mintedBelowCounter\<close>: no store key at or above the counter of
  \<^verbatim>\<open>generateStoreKey\<close> has a type yet.  The other predicates relate the store
  before and after a step: the COMMITTING bits that are kept, the tables that are
  the same, and the type and account assignments that are kept for the store keys
  that have a type.
\<close>

definition mintedBelowCounter :: "store \<Rightarrow> bool" where
  "mintedBelowCounter s = (\<forall>n \<ge> nextStoreKey s. skToType s (K n) = None)"

definition committingKept :: "store \<Rightarrow> store \<Rightarrow> bool" where
  "committingKept s s' = (\<forall>k. getStatus s k AND COMMITTING \<noteq> 0 \<longrightarrow> getStatus s' k AND COMMITTING \<noteq> 0)"

definition sameMinting :: "store \<Rightarrow> store \<Rightarrow> bool" where
  "sameMinting s s' = (skToType s' = skToType s \<and> nextStoreKey s' = nextStoreKey s)"

definition sameAssignment :: "store \<Rightarrow> store \<Rightarrow> bool" where
  "sameAssignment s s' = (sameMinting s s' \<and> skToAccountId s' = skToAccountId s)"

definition typesKept :: "store \<Rightarrow> store \<Rightarrow> bool" where
  "typesKept s s' =
     (mintedBelowCounter s \<longrightarrow>
        mintedBelowCounter s' \<and> (\<forall>sk T. skToType s sk = Some T \<longrightarrow> skToType s' sk = Some T))"

definition assignmentKept :: "store \<Rightarrow> store \<Rightarrow> bool" where
  "assignmentKept s s' =
     (mintedBelowCounter s \<longrightarrow>
        mintedBelowCounter s'
        \<and> (\<forall>sk T. skToType s sk = Some T \<longrightarrow>
               skToType s' sk = Some T \<and> skToAccountId s' sk = skToAccountId s sk))"

section \<open>WindowedQuery\<close>

subsection \<open>Arrays\<close>

text \<open>
  JavaScript array operations on a list, with numbers as integers.  \<open>js_index\<close> is
  \<^verbatim>\<open>a[i]\<close> (\<open>None\<close> for \<^verbatim>\<open>undefined\<close>), \<open>index_of\<close> and \<open>last_index_of\<close> are
  \<^verbatim>\<open>indexOf\<close> and \<^verbatim>\<open>lastIndexOf\<close> (-1 when absent), \<open>splice_remove\<close> is
  \<^verbatim>\<open>a.splice(i, 1)\<close> and \<open>splice_insert\<close> is \<^verbatim>\<open>a.splice(i, 0, x)\<close>, both with
  the clamping of the start index that \<^verbatim>\<open>splice\<close> does.
\<close>

definition js_index :: "'a list \<Rightarrow> int \<Rightarrow> 'a option" where
  "js_index xs i = (if 0 \<le> i \<and> i < int (length xs) then Some (xs ! nat i) else None)"

fun index_of :: "'a \<Rightarrow> 'a list \<Rightarrow> int" where
  "index_of x [] = -1"
| "index_of x (y # ys) =
     (if x = y then 0 else (let r = index_of x ys in if r < 0 then -1 else r + 1))"

definition last_index_of :: "'a \<Rightarrow> 'a list \<Rightarrow> int" where
  "last_index_of x xs =
     (let r = index_of x (rev xs) in if r < 0 then -1 else int (length xs) - 1 - r)"

definition splice_start :: "int \<Rightarrow> 'a list \<Rightarrow> nat" where
  "splice_start i xs =
     (if i < 0 then nat (max (int (length xs) + i) 0) else min (nat i) (length xs))"

definition splice_remove :: "int \<Rightarrow> 'a list \<Rightarrow> 'a list" where
  "splice_remove i xs = take (splice_start i xs) xs @ drop (Suc (splice_start i xs)) xs"

definition splice_insert :: "int \<Rightarrow> 'a \<Rightarrow> 'a list \<Rightarrow> 'a list" where
  "splice_insert i x xs = take (splice_start i xs) xs @ [x] @ drop (splice_start i xs) xs"

text \<open>
  The list of store keys of a query is a sparse array: \<open>None\<close> is a slot that holds
  no store key (a hole or \<^verbatim>\<open>undefined\<close>).  \<open>sparse_set\<close> is the assignment
  \<^verbatim>\<open>list[i] = x\<close> for \<open>i \<ge> 0\<close>, which extends the array with holes when \<open>i\<close> is
  past its end.
\<close>

definition sparse_get :: "'a option list \<Rightarrow> int \<Rightarrow> 'a option" where
  "sparse_get xs i = (case js_index xs i of None \<Rightarrow> None | Some v \<Rightarrow> v)"

definition sparse_set :: "nat \<Rightarrow> 'a \<Rightarrow> 'a option list \<Rightarrow> 'a option list" where
  "sparse_set i x xs =
     (if i < length xs then xs[i := Some x]
      else xs @ replicate (i - length xs) None @ [Some x])"

text \<open>The index of the first slot without a store key (\<^verbatim>\<open>while (list[i]) i += 1\<close>).\<close>

definition firstGap :: "'a option list \<Rightarrow> nat" where
  "firstGap xs = length (takeWhile (\<lambda>v. v \<noteq> None) xs)"

subsection \<open>Normalised updates\<close>

text \<open>
  The object built by \<^verbatim>\<open>_normaliseUpdate\<close> and \<^verbatim>\<open>composeUpdates\<close>.  Indexes
  are JavaScript numbers and are kept as integers.
\<close>

record update =
  removedIndexes :: "int list"
  removedStoreKeys :: "storeKey list"
  addedIndexes :: "int list"
  addedStoreKeys :: "storeKey list"
  truncateAtFirstGap :: bool
  total_u :: int
  upToId :: "storeKey option"

text \<open>
  \<^verbatim>\<open>sortLinkedArrays\<close> (lines 58-65), on two arrays of the same length, as the
  sorted list of pairs; \<^verbatim>\<open>Array.prototype.sort\<close> is stable.
\<close>

definition sortLinkedArrays :: "int list \<Rightarrow> 'a list \<Rightarrow> (int \<times> 'a) list" where
  "sortLinkedArrays a1 a2 = sort_key fst (zip a1 a2)"

text \<open>
  \<^verbatim>\<open>mapIndexes\<close> (lines 67-95).  \<open>logOf n\<close> stands for \<^verbatim>\<open>~~Math.log(n)\<close>, a
  floating point computation that is a parameter here.  The first branch takes the
  first index of a store key in the list, the second (through the object
  \<^verbatim>\<open>indexOf\<close>) the last one.
\<close>

definition mapIndexes :: "(nat \<Rightarrow> int) \<Rightarrow> storeKey option list \<Rightarrow> storeKey list \<Rightarrow> int list" where
  "mapIndexes logOf list storeKeys =
     (if int (length storeKeys) < logOf (length list) + 1
      then map (\<lambda>sk. index_of (Some sk) list) storeKeys
      else map (\<lambda>sk. last_index_of (Some sk) list) storeKeys)"

text \<open>\<^verbatim>\<open>mergeSortedLinkedArrays\<close> (lines 109-130), on lists of pairs.\<close>

fun mergeSortedLinkedArrays :: "(int \<times> 'a) list \<Rightarrow> (int \<times> 'a) list \<Rightarrow> (int \<times> 'a) list" where
  "mergeSortedLinkedArrays [] ys = ys"
| "mergeSortedLinkedArrays (x # xs) [] = x # xs"
| "mergeSortedLinkedArrays (x # xs) (y # ys) =
     (if fst x < fst y then x # mergeSortedLinkedArrays xs (y # ys)
      else y # mergeSortedLinkedArrays (x # xs) ys)"

text \<open>
  Modelled from the spec: \<^verbatim>\<open>Array#binarySearch\<close> of core/Array.js is not among the
  sources.  On the sorted array of added indexes it gives the number of additions at
  lower indexes.
\<close>

definition binarySearch :: "int list \<Rightarrow> int \<Rightarrow> int" where
  "binarySearch xs v = int (length (filter (\<lambda>a. a < v) xs))"

text \<open>
  \<^verbatim>\<open>adjustIndexes\<close> (lines 132-177).  \<open>shiftPastRemoved\<close> is the inner loop over
  \<^verbatim>\<open>removedBefore\<close>, \<open>adjustLoop\<close> the outer loop over the pairs of
  \<^verbatim>\<open>removed\<close> and \<^verbatim>\<open>storeKeys\<close>.
\<close>

fun shiftPastRemoved :: "int \<Rightarrow> int list \<Rightarrow> int" where
  "shiftPastRemoved index [] = index"
| "shiftPastRemoved index (r # rs) =
     (if index \<ge> r then shiftPastRemoved (index + 1) rs else index)"

fun adjustLoop :: "(int \<times> 'a) list \<Rightarrow> int list \<Rightarrow> int list \<Rightarrow> (int \<times> 'a) list" where
  "adjustLoop [] added removedBefore = []"
| "adjustLoop ((index, sk) # rest) added removedBefore =
     (let position = binarySearch added index in
      if js_index added position = Some index then adjustLoop rest added removedBefore
      else (shiftPastRemoved (index - position) removedBefore, sk)
             # adjustLoop rest added removedBefore)"

definition adjustIndexes ::
  "int list \<Rightarrow> int list \<Rightarrow> int list \<Rightarrow> 'a list \<Rightarrow> 'a list \<Rightarrow> (int \<times> 'a) list" where
  "adjustIndexes removed added removedBefore storeKeys removedBeforeStoreKeys =
     mergeSortedLinkedArrays (zip removedBefore removedBeforeStoreKeys)
       (adjustLoop (zip removed storeKeys) added removedBefore)"

text \<open>\<^verbatim>\<open>composeUpdates\<close> (lines 179-204).\<close>

definition composeUpdates :: "update \<Rightarrow> update \<Rightarrow> update" where
  "composeUpdates u1 u2 =
     (let removed = adjustIndexes (removedIndexes u2) (addedIndexes u1) (removedIndexes u1)
                      (removedStoreKeys u2) (removedStoreKeys u1);
          added = adjustIndexes (addedIndexes u1) (removedIndexes u2) (addedIndexes u2)
                      (addedStoreKeys u1) (addedStoreKeys u2)
      in \<lparr>removedIndexes = map fst removed, removedStoreKeys = map snd removed,
          addedIndexes = map fst added, addedStoreKeys = map snd added,
          truncateAtFirstGap = (truncateAtFirstGap u1 \<or> truncateAtFirstGap u2),
          total_u = total_u u2, upToId = upToId u2\<rparr>)"

text \<open>
  \<^verbatim>\<open>invertUpdate\<close> (lines 206-218) swaps the two pairs of arrays in place and then
  recomputes \<^verbatim>\<open>total\<close> from the arrays \<^emph>\<open>after\<close> the swap:
  \<^verbatim>\<open>u.total = u.total + u.addedStoreKeys.length - u.removedStoreKeys.length\<close>,
  where \<^verbatim>\<open>u.addedStoreKeys\<close> is by then the old \<^verbatim>\<open>removedStoreKeys\<close>.
\<close>

definition invertUpdate :: "update \<Rightarrow> update" where
  "invertUpdate u =
     (let u1 = u\<lparr>removedIndexes := addedIndexes u, addedIndexes := removedIndexes u\<rparr>;
          u2 = u1\<lparr>removedStoreKeys := addedStoreKeys u1, addedStoreKeys := removedStoreKeys u1\<rparr>
      in u2\<lparr>total_u := total_u u2 + int (length (addedStoreKeys u2))
                                    - int (length (removedStoreKeys u2))\<rparr>)"


text \<open>
  \<^verbatim>\<open>preemptives.reduce(composeUpdates)\<close> on a non-empty array; on an empty array
  \<^verbatim>\<open>reduce\<close> without an initial value throws.
\<close>

definition reduceCompose :: "update list \<Rightarrow> update option" where
  "reduceCompose us = (case us of [] \<Rightarrow> None | u # rest \<Rightarrow> Some (foldl composeUpdates u rest))"

subsection \<open>The query object\<close>

text \<open>
  The state of each window (lines 36-42).  \<^verbatim>\<open>_windows\<close> is a sparse array of these
  bitmasks; every read in the class is \<^verbatim>\<open>windows[i] || 0\<close> or a bitwise operation,
  for which a missing entry counts as 0, so a hole is 0 here.
\<close>

definition WINDOW_EMPTY :: "32 word" where "WINDOW_EMPTY = 0"
definition WINDOW_REQUESTED :: "32 word" where "WINDOW_REQUESTED = 1"
definition WINDOW_LOADING :: "32 word" where "WINDOW_LOADING = 2"
definition WINDOW_READY :: "32 word" where "WINDOW_READY = 4"
definition WINDOW_RECORDS_REQUESTED :: "32 word" where "WINDOW_RECORDS_REQUESTED = 8"
definition WINDOW_RECORDS_LOADING :: "32 word" where "WINDOW_RECORDS_LOADING = 16"
definition WINDOW_RECORDS_READY :: "32 word" where "WINDOW_RECORDS_READY = 32"

lemmas window_defs =
  WINDOW_EMPTY_def WINDOW_REQUESTED_def WINDOW_LOADING_def WINDOW_READY_def
  WINDOW_RECORDS_REQUESTED_def WINDOW_RECORDS_LOADING_def WINDOW_RECORDS_READY_def

text \<open>
  The argument of \<^verbatim>\<open>sourceDidFetchIds\<close> (lines 1128-1132) and of
  \<^verbatim>\<open>sourceDidFetchUpdate\<close> (lines 891-905), and the argument of
  \<^verbatim>\<open>_normaliseUpdate\<close>, whose \<^verbatim>\<open>total\<close> may be missing.  A delta of the source
  is taken to carry its \<^verbatim>\<open>total\<close>.
\<close>

record packet =
  queryState_p :: string
  position_p :: int
  ids_p :: "ident list"
  total_p :: int


record rawUpdate =
  removed_r :: "storeKey list"
  added_r :: "(int \<times> storeKey) list"
  total_r :: "int option"
  upToId_r :: "storeKey option"

text \<open>
  A range observer: \<open>start_o = None\<close> when the range has no \<^verbatim>\<open>start\<close>,
  \<open>end_o = None\<close> when it has no \<^verbatim>\<open>end\<close> property.
\<close>

record rangeObserver =
  start_o :: "int option"
  end_o :: "int option"

text \<open>
  What the query does to the outside: \<^verbatim>\<open>source.fetchQuery(this)\<close>,
  \<^verbatim>\<open>rangeDidChange(start, end)\<close> (which only notifies the range observers, see
  ObservableRange.js; \<^verbatim>\<open>start\<close> may be \<^verbatim>\<open>null\<close>), and the events fired.
\<close>

datatype qeffect =
    FetchQuery
  | RangeDidChange "int option" int
  | QueryUpdated "storeKey list" "int list" "storeKey list" "int list"
  | QueryIdsLoaded
  | QueryReset

text \<open>
  The fields of a WindowedQuery that the update methods read and write.
  \<open>q_length\<close> is \<open>None\<close> for \<^verbatim>\<open>null\<close>, \<open>queryState\<close> is \<open>None\<close> until the first
  state is known.  \<open>windowSize\<close> is positive in every use of the class.  The
  callbacks kept in \<^verbatim>\<open>_indexOfRequested\<close> and \<^verbatim>\<open>_awaitingIdFetch\<close> are not part
  of the model.
\<close>

record query =
  storeKeys :: "storeKey option list"
  windows :: "32 word list"
  q_length :: "int option"
  q_status :: status
  queryState :: "string option"
  preemptiveUpdates :: "update list"
  waitingPackets :: "packet list"
  isAnExplicitIdFetch :: bool
  windowSize :: int
  prefetch :: int
  canGetDeltaUpdates :: bool
  rangeObservers :: "rangeObserver list"
  q_effects :: "qeffect list"

text \<open>
  What the query reads from its surroundings: \<open>toStoreKey\<close> is
  \<^verbatim>\<open>store.getStoreKey(accountId, Type, id)\<close> for the account and type of the query
  (a store key, once minted for an id, stays the store key of that id),
  \<open>recordStatus\<close> is \<^verbatim>\<open>store.getStatus\<close>, and \<open>logOf\<close> is the threshold
  \<^verbatim>\<open>~~Math.log(n)\<close> of \<open>mapIndexes\<close>.
\<close>

record qenv =
  toStoreKey :: "ident \<Rightarrow> storeKey"
  recordStatus :: "storeKey \<Rightarrow> status"
  logOf :: "nat \<Rightarrow> int"

text \<open>
  How a call ends: it returns the query, it throws, it loops for ever, or the
  model ran out of the fuel that bounds the nesting of \<open>sourceDidFetchIds\<close>.
\<close>

datatype 'a result = Ok 'a | Throws | Diverges | OutOfFuel

definition bind_result :: "'a result \<Rightarrow> ('a \<Rightarrow> 'b result) \<Rightarrow> 'b result" where
  "bind_result r f =
     (case r of Ok v \<Rightarrow> f v | Throws \<Rightarrow> Throws | Diverges \<Rightarrow> Diverges
      | OutOfFuel \<Rightarrow> OutOfFuel)"

definition logQ :: "qeffect \<Rightarrow> query \<Rightarrow> query" where
  "logQ e q = q\<lparr>q_effects := q_effects q @ [e]\<rparr>"

text \<open>\<^verbatim>\<open>null\<close> in arithmetic and comparisons is 0.\<close>

definition num :: "int option \<Rightarrow> int" where
  "num v = (case v of None \<Rightarrow> 0 | Some n \<Rightarrow> n)"

text \<open>The remainder \<^verbatim>\<open>a % b\<close> of JavaScript has the sign of \<open>a\<close>.\<close>

definition js_rem :: "int \<Rightarrow> int \<Rightarrow> int" where
  "js_rem a b = sgn a * (\<bar>a\<bar> mod \<bar>b\<bar>)"

text \<open>
  Reads and writes of the two arrays at a number.  A write at a negative index sets
  a property that is no element of the array; it is dropped here, and a read at a
  negative index finds nothing.
\<close>

definition list_set :: "int \<Rightarrow> 'a \<Rightarrow> 'a option list \<Rightarrow> 'a option list" where
  "list_set i x xs = (if i < 0 then xs else sparse_set (nat i) x xs)"

definition win_get :: "32 word list \<Rightarrow> int \<Rightarrow> 32 word" where
  "win_get ws i = (case js_index ws i of None \<Rightarrow> 0 | Some w \<Rightarrow> w)"

definition win_set :: "int \<Rightarrow> 32 word \<Rightarrow> 32 word list \<Rightarrow> 32 word list" where
  "win_set i w ws =
     (if i < 0 then ws
      else if nat i < length ws then ws[nat i := w]
      else ws @ replicate (nat i - length ws) 0 @ [w])"

text \<open>\<^verbatim>\<open>a.length = n\<close>: cut the array, or extend it with holes.\<close>

definition set_length :: "nat \<Rightarrow> 'a \<Rightarrow> 'a list \<Rightarrow> 'a list" where
  "set_length n hole xs = take n xs @ replicate (n - length xs) hole"

text \<open>
  Modelled from the spec: Query.js, the base class, is not among the sources.
  \<open>setObsolete\<close> sets OBSOLETE, \<open>fetch\<close> asks the source to fetch the query (it is
  only called here with OBSOLETE set), and the \<open>reset\<close> of the base class is the
  full reset: no store keys, no length, status EMPTY.
\<close>

definition setObsolete :: "query \<Rightarrow> query" where
  "setObsolete q = q\<lparr>q_status := q_status q OR OBSOLETE\<rparr>"

definition fetch :: "query \<Rightarrow> query" where
  "fetch q = logQ FetchQuery q"

definition reset_Query :: "query \<Rightarrow> query" where
  "reset_Query q =
     logQ QueryReset
       (logQ (RangeDidChange (Some 0) (num (q_length q)))
          (q\<lparr>storeKeys := [], q_status := EMPTY, q_length := None\<rparr>))"

text \<open>\<^verbatim>\<open>reset\<close> (lines 380-389).\<close>

definition reset :: "query \<Rightarrow> query" where
  "reset q =
     reset_Query (q\<lparr>windows := [], waitingPackets := [], preemptiveUpdates := [],
                    isAnExplicitIdFetch := False\<rparr>)"

text \<open>\<^verbatim>\<open>windowCount\<close> (lines 290-295).\<close>

definition windowCount :: "query \<Rightarrow> int option" where
  "windowCount q =
     (case q_length q of None \<Rightarrow> None
      | Some len \<Rightarrow> Some ((len - 1) div windowSize q + 1))"

text \<open>\<^verbatim>\<open>checkIfWindowIsFetched\<close> (lines 548-565); \<^verbatim>\<open>getStatus(undefined)\<close> is EMPTY.\<close>

definition slotStatus :: "qenv \<Rightarrow> storeKey option \<Rightarrow> status" where
  "slotStatus env v = (case v of None \<Rightarrow> EMPTY | Some sk \<Rightarrow> recordStatus env sk)"

definition checkIfWindowIsFetched :: "qenv \<Rightarrow> int \<Rightarrow> query \<Rightarrow> bool" where
  "checkIfWindowIsFetched env index q =
     (let i = index * windowSize q;
          l = min (i + windowSize q) (num (q_length q))
      in list_all (\<lambda>j. let st = slotStatus env (sparse_get (storeKeys q) j)
                       in \<not> (st AND READY = 0 \<or> (st AND OBSOLETE \<noteq> 0 \<and> st AND LOADING = 0)))
           [i..l - 1])"

text \<open>
  \<^verbatim>\<open>fetchWindow\<close> (lines 505-545).  \<open>fetchWindowStep\<close> is one round of its loop, on
  the pair of the query and \<^verbatim>\<open>doFetch\<close>.
\<close>

definition fetchWindowStep :: "qenv \<Rightarrow> int \<Rightarrow> bool \<Rightarrow> query \<times> bool \<Rightarrow> int \<Rightarrow> query \<times> bool" where
  "fetchWindowStep env index fetchRecords acc i =
     (let q = fst acc; doFetch = snd acc;
          st0 = win_get (windows q) i;
          (st1, doFetch1) =
             (if st0 = WINDOW_EMPTY then (WINDOW_REQUESTED, True) else (st0, doFetch));
          (st2, doFetch2) =
             (if i = index \<and> fetchRecords \<and> st1 < WINDOW_RECORDS_REQUESTED
              then (if st1 AND WINDOW_READY \<noteq> 0 \<and> checkIfWindowIsFetched env i q
                    then (WINDOW_READY OR WINDOW_RECORDS_READY, doFetch1)
                    else (st1 OR WINDOW_RECORDS_REQUESTED, True))
              else (st1, doFetch1))
      in (q\<lparr>windows := win_set i st2 (windows q)\<rparr>, doFetch2))"

definition fetchWindow :: "qenv \<Rightarrow> int \<Rightarrow> bool \<Rightarrow> int option \<Rightarrow> query \<Rightarrow> query" where
  "fetchWindow env index fetchRecords prefetchArg q =
     (let q1 = (if q_status q AND OBSOLETE \<noteq> 0 then fetch q else q);
          pf = (case prefetchArg of None \<Rightarrow> prefetch q1 | Some p \<Rightarrow> p);
          i = max 0 (index - pf);
          l = min (index + pf + 1) (num (windowCount q1));
          (q2, doFetch) = foldl (fetchWindowStep env index fetchRecords) (q1, False) [i..l - 1]
      in if doFetch then logQ FetchQuery q2 else q2)"

text \<open>
  \<^verbatim>\<open>recalculateFetchedWindows\<close> (lines 584-631).  \<open>start\<close> may be \<^verbatim>\<open>null\<close>, and
  \<open>len = None\<close> is a call without the second argument.  Setting the length of
  \<^verbatim>\<open>windows\<close> to a negative number throws a RangeError.  The window with index
  \<open>w\<close> is examined on the slots from \<open>w * windowSize\<close> up to the end of the window or
  of the list.
\<close>

definition recalcWindow :: "storeKey option list \<Rightarrow> int \<Rightarrow> int \<Rightarrow> 32 word list \<Rightarrow> int \<Rightarrow> 32 word list" where
  "recalcWindow list ws len wins windowIndex =
     (let target = windowIndex * ws;
          listIndex = min (len - 1) (target + ws - 1);
          st = (win_get wins windowIndex AND NOT WINDOW_RECORDS_READY) OR WINDOW_READY;
          st' = (if list_all (\<lambda>j. sparse_get list j \<noteq> None) [target..listIndex] then st
                 else st AND NOT WINDOW_READY)
      in win_set windowIndex st' wins)"

definition recalculateFetchedWindows :: "int option \<Rightarrow> int option \<Rightarrow> query \<Rightarrow> query result" where
  "recalculateFetchedWindows start len q =
     (let start0 = num start;
          len0 = (case len of None \<Rightarrow> num (q_length q) | Some l \<Rightarrow> l);
          ws = windowSize q;
          windowIndex = (len0 - 1) div ws;
          startW = start0 div ws
      in if windowIndex + 1 < 0 then Throws
         else Ok (q\<lparr>windows :=
                foldl (recalcWindow (storeKeys q) ws len0)
                  (set_length (nat (windowIndex + 1)) 0 (windows q))
                  (rev [startW..windowIndex])\<rparr>))"

subsection \<open>Normalising and applying an update\<close>

text \<open>
  \<^verbatim>\<open>_normaliseUpdate\<close> (lines 635-689).  \<open>normaliseAdded\<close> is its loop over
  \<^verbatim>\<open>update.added\<close>, on the pairs of \<^verbatim>\<open>removedIndexes\<close> and
  \<^verbatim>\<open>removedStoreKeys\<close> and the pairs of \<^verbatim>\<open>addedIndexes\<close> and
  \<^verbatim>\<open>addedStoreKeys\<close>.  In every update the class builds, the two arrays of a pair
  have the same length; the model relies on it wherever it pairs them.
\<close>

fun normaliseAdded ::
  "(int \<times> storeKey) list \<Rightarrow> (int \<times> storeKey) list \<Rightarrow> (int \<times> storeKey) list
   \<Rightarrow> (int \<times> storeKey) list \<times> (int \<times> storeKey) list" where
  "normaliseAdded [] rem add = (rem, add)"
| "normaliseAdded ((index, sk) # rest) rem add =
     (let j = index_of sk (map snd rem) in
      if (case js_index rem j of None \<Rightarrow> False
          | Some p \<Rightarrow> fst p - j + int (length add) = index)
      then normaliseAdded rest (splice_remove j rem) add
      else normaliseAdded rest rem (add @ [(index, sk)]))"

definition normaliseUpdate :: "qenv \<Rightarrow> rawUpdate \<Rightarrow> query \<Rightarrow> update" where
  "normaliseUpdate env u q =
     (let sorted = sortLinkedArrays (mapIndexes (logOf env) (storeKeys q) (removed_r u))
                     (removed_r u);
          i = length (takeWhile (\<lambda>p. fst p = -1) sorted);
          (rem, add) = normaliseAdded (added_r u) (drop i sorted) []
      in \<lparr>removedIndexes = map fst rem, removedStoreKeys = map snd rem,
          addedIndexes = map fst add, addedStoreKeys = map snd add,
          truncateAtFirstGap = (i \<noteq> 0),
          total_u = (case total_r u of Some t \<Rightarrow> t
                     | None \<Rightarrow> num (q_length q) - int (length rem) + int (length add)),
          upToId = upToId_r u\<rparr>)"

text \<open>
  \<^verbatim>\<open>_fetchObservedWindows\<close> (lines 830-852); \<open>fetchObservedRange\<close> is one round of
  its loop over the range observers.
\<close>

definition fetchObservedRange :: "qenv \<Rightarrow> int option \<Rightarrow> int \<Rightarrow> query \<Rightarrow> rangeObserver \<Rightarrow> query" where
  "fetchObservedRange env len ws q rng =
     (let observerStart = num (start_o rng);
          observerEnd = (case end_o rng of Some e \<Rightarrow> e | None \<Rightarrow> num len);
          observerStart' = (if observerStart < 0 then observerStart + num len else observerStart);
          observerEnd' = (if observerEnd < 0 then observerEnd + num len else observerEnd);
          firstWindow = observerStart' div ws;
          lastWindow = (observerEnd' - 1) div ws
      in foldl (\<lambda>q' w. fetchWindow env w True None q') q [firstWindow..lastWindow])"

definition fetchObservedWindows :: "qenv \<Rightarrow> query \<Rightarrow> query" where
  "fetchObservedWindows env q =
     foldl (fetchObservedRange env (q_length q) (windowSize q)) q (rev (rangeObservers q))"

text \<open>
  \<^verbatim>\<open>_applyWaitingPackets\<close> (lines 807-828).  The number of rounds and the query
  state are fixed before the loop; each round shifts one packet off the array, and
  \<^verbatim>\<open>packet.queryState\<close> throws when a nested call has emptied the array.
  \<open>fetchIds\<close> is the method \<^verbatim>\<open>sourceDidFetchIds\<close>, defined below.
\<close>

fun waitingLoop ::
  "(packet \<Rightarrow> query \<Rightarrow> query result) \<Rightarrow> string option \<Rightarrow> nat \<Rightarrow> query \<times> bool
   \<Rightarrow> (query \<times> bool) result" where
  "waitingLoop fetchIds qs 0 acc = Ok acc"
| "waitingLoop fetchIds qs (Suc n) acc =
     (case waitingPackets (fst acc) of
        [] \<Rightarrow> Throws
      | packet # rest \<Rightarrow>
          (let q1 = (fst acc)\<lparr>waitingPackets := rest\<rparr> in
           if Some (queryState_p packet) \<noteq> qs then waitingLoop fetchIds qs n (q1, True)
           else (case fetchIds packet q1 of
                   Ok q2 \<Rightarrow> waitingLoop fetchIds qs n (q2, snd acc)
                 | Throws \<Rightarrow> Throws | Diverges \<Rightarrow> Diverges | OutOfFuel \<Rightarrow> OutOfFuel)))"

definition applyWaitingPackets ::
  "(packet \<Rightarrow> query \<Rightarrow> query result) \<Rightarrow> qenv \<Rightarrow> query \<Rightarrow> query result" where
  "applyWaitingPackets fetchIds env q =
     bind_result (waitingLoop fetchIds (queryState q) (length (waitingPackets q)) (q, False))
       (\<lambda>r. Ok (if snd r then fetchObservedWindows env (fst r) else fst r))"

text \<open>
  \<^verbatim>\<open>_applyUpdate\<close> (lines 691-805).  The steps work on the list, the variable
  \<^verbatim>\<open>listLength\<close> (which the removals do not update), \<^verbatim>\<open>firstChange\<close> (which
  starts as the old length and may be \<^verbatim>\<open>null\<close>) and the flag
  \<^verbatim>\<open>recalculateFetchedWindows\<close>.
\<close>

definition lowerTo :: "int \<Rightarrow> int option \<Rightarrow> int option" where
  "lowerTo index firstChange = (if index < num firstChange then Some index else firstChange)"

definition truncateUpTo ::
  "storeKey option \<Rightarrow> storeKey option list \<times> int \<times> int option \<times> bool
   \<Rightarrow> (storeKey option list \<times> int \<times> int option \<times> bool) option" where
  "truncateUpTo up st =
     (case up of None \<Rightarrow> Some st
      | Some sk \<Rightarrow>
          (let list = fst st; listLength = fst (snd st);
               index = last_index_of (Some sk) list + 1
           in if index \<noteq> 0
              then (if index \<noteq> listLength
                    then Some (take (nat index) list, index, lowerTo index (fst (snd (snd st))), True)
                    else Some st)
              else None))"

definition removeAt :: "'a list \<times> int option \<Rightarrow> int \<Rightarrow> 'a list \<times> int option" where
  "removeAt st index = (splice_remove index (fst st), lowerTo index (snd st))"

definition truncateAtGap ::
  "bool \<Rightarrow> storeKey option list \<times> int \<times> int option \<Rightarrow> storeKey option list \<times> int \<times> int option" where
  "truncateAtGap flag st =
     (if flag
      then (let i = firstGap (fst st)
            in (take i (fst st), int i, lowerTo (int i) (snd (snd st))))
      else st)"

definition addAt ::
  "storeKey option list \<times> int \<times> int option \<Rightarrow> int \<times> storeKey
   \<Rightarrow> storeKey option list \<times> int \<times> int option" where
  "addAt st a =
     (let list = fst st; listLength = fst (snd st); index = fst a in
      if index \<ge> listLength
      then (list_set index (snd a) list, index + 1, lowerTo index (snd (snd st)))
      else (splice_insert index (Some (snd a)) list, listLength + 1,
            lowerTo index (snd (snd st))))"

definition applyUpdate ::
  "(packet \<Rightarrow> query \<Rightarrow> query result) \<Rightarrow> qenv \<Rightarrow> update \<Rightarrow> query \<Rightarrow> query result" where
  "applyUpdate fetchIds env args q =
     (let removedLength = length (removedStoreKeys args);
          addedLength = length (addedStoreKeys args);
          oldLength = q_length q;
          newLength = total_u args
      in case truncateUpTo (upToId args)
                (storeKeys q, int (length (storeKeys q)), oldLength,
                 addedLength \<noteq> 0 \<or> removedLength \<noteq> 0) of
           None \<Rightarrow> Ok (reset q)
         | Some st \<Rightarrow>
             (let recalc = snd (snd (snd st));
                  (list1, firstChange1) =
                     foldl removeAt (fst st, fst (snd (snd st)))
                       (rev (take removedLength (removedIndexes args)));
                  st2 = truncateAtGap (truncateAtFirstGap args)
                          (list1, fst (snd st), firstChange1);
                  st3 = foldl addAt st2
                          (take addedLength (zip (addedIndexes args) (addedStoreKeys args)));
                  firstChange = snd (snd st3);
                  q1 = q\<lparr>storeKeys := fst st3\<rparr>
              in bind_result
                   (if recalc then recalculateFetchedWindows firstChange (Some newLength) q1
                    else Ok q1)
                   (\<lambda>q2. applyWaitingPackets fetchIds env
                      (logQ (QueryUpdated (removedStoreKeys args) (removedIndexes args)
                                (addedStoreKeys args) (addedIndexes args))
                         (logQ (RangeDidChange firstChange (max (num oldLength) newLength))
                            (q2\<lparr>q_length := Some newLength\<rparr>))))))"

text \<open>
  The three lines
  \<^verbatim>\<open>allPreemptives = preemptives.reduce(composeUpdates);\<close>
  \<^verbatim>\<open>this._applyUpdate(invertUpdate(allPreemptives));\<close>
  \<^verbatim>\<open>preemptives.length = 0;\<close>
  which occur three times in the class.  \<^verbatim>\<open>reduce\<close> on a one-element array
  returns the element itself, so \<^verbatim>\<open>invertUpdate\<close> then inverts the entry of the
  stack in place, and the stack holds the inverted update while it is applied;
  \<^verbatim>\<open>reduce\<close> on an empty array throws.
\<close>

definition undoPreemptives ::
  "(packet \<Rightarrow> query \<Rightarrow> query result) \<Rightarrow> qenv \<Rightarrow> query \<Rightarrow> query result" where
  "undoPreemptives fetchIds env q =
     (case preemptiveUpdates q of
        [] \<Rightarrow> Throws
      | p # ps \<Rightarrow>
          bind_result
            (if ps = []
             then applyUpdate fetchIds env (invertUpdate p)
                    (q\<lparr>preemptiveUpdates := [invertUpdate p]\<rparr>)
             else applyUpdate fetchIds env (invertUpdate (foldl composeUpdates p ps)) q)
            (\<lambda>q'. Ok (q'\<lparr>preemptiveUpdates := []\<rparr>)))"

subsection \<open>sourceDidFetchIds\<close>

text \<open>
  \<^verbatim>\<open>sourceDidFetchIds\<close> (lines 1141-1264).  \<open>adjustRemoved\<close> and \<open>adjustAdded\<close> are
  the two loops that adjust the store keys, the position and the length of the
  packet for the preemptive updates; \<open>adjustAdded\<close> stops at the first index past
  the packet.
\<close>

definition adjustRemoved :: "'a list \<times> int \<times> int \<Rightarrow> int \<Rightarrow> 'a list \<times> int \<times> int" where
  "adjustRemoved st r =
     (let sks = fst st; pos = fst (snd st); len = snd (snd st); index = r - pos in
      if index < len
      then (if index \<ge> 0 then (splice_remove index sks, pos, len - 1) else (sks, pos - 1, len))
      else st)"

fun adjustAdded :: "(int \<times> 'a) list \<Rightarrow> 'a list \<times> int \<times> int \<Rightarrow> 'a list \<times> int \<times> int" where
  "adjustAdded [] st = st"
| "adjustAdded (a # rest) st =
     (let sks = fst st; pos = fst (snd st); len = snd (snd st); index = fst a - pos in
      if index \<le> 0 then adjustAdded rest (sks, pos + 1, len)
      else if index < len then adjustAdded rest (splice_insert index (snd a) sks, pos, len + 1)
      else st)"

text \<open>
  The loop \<^verbatim>\<open>while ((length -= windowSize) >= 0)\<close> that marks the complete
  windows; the result holds \<^verbatim>\<open>length\<close> as the loop leaves it.  With a window size
  that is not positive the loop of the source does not end, which is \<open>None\<close>.
\<close>

function windowsLoop ::
  "int \<Rightarrow> int \<Rightarrow> int \<Rightarrow> 32 word list \<Rightarrow> (int \<times> int \<times> 32 word list) option" where
  "windowsLoop ws len windowIndex wins =
     (if len - ws < 0 then Some (len - ws, windowIndex, wins)
      else if ws \<le> 0 then None
      else windowsLoop ws (len - ws) (windowIndex + 1)
             (win_set windowIndex (win_get wins windowIndex OR WINDOW_READY) wins))"
  by pat_completeness auto
termination
  by (relation "measure (\<lambda>(ws, len, windowIndex, wins). nat len)") auto

definition adjustForPreemptives ::
  "(packet \<Rightarrow> query \<Rightarrow> query result) \<Rightarrow> qenv \<Rightarrow> packet \<Rightarrow> query
   \<Rightarrow> ((storeKey list \<times> int \<times> int) \<times> int \<times> query) result" where
  "adjustForPreemptives fetchIds env args q =
     (let storeKeys0 = map (toStoreKey env) (ids_p args);
          st0 = (storeKeys0, position_p args, int (length (ids_p args)))
      in case preemptiveUpdates q of
           [] \<Rightarrow> Ok (st0, total_p args, q)
         | p # ps \<Rightarrow>
             if canGetDeltaUpdates q
             then (let allPreemptives = foldl composeUpdates p ps;
                       st1 = foldl adjustRemoved st0 (rev (removedIndexes allPreemptives));
                       st2 = adjustAdded (zip (addedIndexes allPreemptives)
                                            (addedStoreKeys allPreemptives)) st1
                   in Ok (st2, total_u allPreemptives, q))
             else bind_result (undoPreemptives fetchIds env q)
                    (\<lambda>q'. Ok (st0, total_p args, q')))"

definition storeIds ::
  "status \<Rightarrow> int \<Rightarrow> bool \<Rightarrow> (storeKey list \<times> int \<times> int) \<Rightarrow> int \<Rightarrow> query \<Rightarrow> query result" where
  "storeIds status oldLength informAllRangeObservers st newTotal q =
     (let sks = fst st; position = fst (snd st); len = snd (snd st);
          end = position + len;
          list = foldl (\<lambda>l p. list_set (position + int (fst p)) (snd p) l) (storeKeys q)
                   (zip [0..<nat len] sks);
          ws = windowSize q;
          windowIndex = position div ws;
          withinWindowIndex = js_rem position ws;
          beginningOfWindowIsFetched =
             list_all (\<lambda>i. sparse_get list i \<noteq> None)
               [windowIndex * ws..windowIndex * ws + withinWindowIndex - 1];
          (windowIndex1, len1) =
             (if withinWindowIndex \<noteq> 0
              then (if beginningOfWindowIsFetched then (windowIndex, len + withinWindowIndex)
                    else (windowIndex + 1, len - (ws - withinWindowIndex)))
              else (windowIndex, len))
      in case windowsLoop ws len1 windowIndex1 (windows q) of
           None \<Rightarrow> Diverges
         | Some r \<Rightarrow>
             (let len2 = fst r + ws; windowIndex2 = fst (snd r); wins = snd (snd r);
                  wins' = (if len2 \<noteq> 0 \<and> end = newTotal \<and> len2 = js_rem newTotal ws
                           then win_set windowIndex2 (win_get wins windowIndex2 OR WINDOW_READY) wins
                           else wins)
              in Ok (logQ QueryIdsLoaded
                       (logQ (RangeDidChange
                                 (Some (if informAllRangeObservers then 0 else position))
                                 (if informAllRangeObservers then max oldLength end else end))
                          (q\<lparr>storeKeys := list, windows := wins', q_length := Some newTotal,
                             q_status := READY OR (status AND (DIRTY OR LOADING OR OBSOLETE))\<rparr>)))))"

text \<open>
  The body of \<^verbatim>\<open>sourceDidFetchIds\<close>; \<open>fetchIds\<close> stands for the method itself in
  the nested calls it makes through \<^verbatim>\<open>_applyUpdate\<close>.  A query state is set when it
  is a non-empty string.
\<close>

definition sourceDidFetchIdsBody ::
  "(packet \<Rightarrow> query \<Rightarrow> query result) \<Rightarrow> qenv \<Rightarrow> packet \<Rightarrow> query \<Rightarrow> query result" where
  "sourceDidFetchIdsBody fetchIds env args q =
     (let status = q_status q;
          oldLength = num (q_length q);
          stale = (queryState q \<noteq> None \<and> queryState q \<noteq> Some [] \<and>
                   queryState q \<noteq> Some (queryState_p args))
      in if stale \<and> canGetDeltaUpdates q
         then Ok (fetch (setObsolete (q\<lparr>waitingPackets := waitingPackets q @ [args]\<rparr>)))
         else
           (let q1 = (if stale
                      then q\<lparr>storeKeys := [], windows := [], preemptiveUpdates := []\<rparr>
                      else q);
                q2 = q1\<lparr>queryState := Some (queryState_p args)\<rparr>
            in bind_result (adjustForPreemptives fetchIds env args q2)
                 (\<lambda>r. storeIds status oldLength stale (fst r) (fst (snd r)) (snd (snd r)))))"

text \<open>
  \<^verbatim>\<open>sourceDidFetchIds\<close> with fuel: the first argument bounds the depth of the
  calls of the method inside itself.
\<close>

primrec sourceDidFetchIds :: "nat \<Rightarrow> qenv \<Rightarrow> packet \<Rightarrow> query \<Rightarrow> query result" where
  "sourceDidFetchIds 0 env args q = OutOfFuel"
| "sourceDidFetchIds (Suc n) env args q =
     sourceDidFetchIdsBody (sourceDidFetchIds n env) env args q"

subsection \<open>clientDidGenerateUpdate and sourceDidFetchUpdate\<close>

text \<open>\<^verbatim>\<open>clientDidGenerateUpdate\<close> (lines 874-883).\<close>

definition clientDidGenerateUpdate :: "nat \<Rightarrow> qenv \<Rightarrow> rawUpdate \<Rightarrow> query \<Rightarrow> query result" where
  "clientDidGenerateUpdate n env u q =
     (let u1 = (normaliseUpdate env u q)\<lparr>truncateAtFirstGap := False\<rparr>
      in bind_result (applyUpdate (sourceDidFetchIds n env) env u1 q)
           (\<lambda>q1. Ok (setObsolete
                        (q1\<lparr>preemptiveUpdates := preemptiveUpdates q1 @ [u1],
                            q_status := q_status q1 OR DIRTY\<rparr>))))"














subsection \<open>Example queries\<close>

text \<open>
  An environment in which the id \<open>idN\<close> has the store key \<open>K N\<close> and every record is
  READY, and a loaded query on the list \<open>[K 1, K 2, K 3]\<close> in the state \<open>s0\<close>.
\<close>

definition exToStoreKey :: "ident \<Rightarrow> storeKey" where
  "exToStoreKey i =
     (if i = ''id1'' then K 1 else if i = ''id2'' then K 2 else if i = ''id3'' then K 3
      else if i = ''id4'' then K 4 else K 0)"

definition exEnv :: qenv where
  "exEnv = \<lparr>toStoreKey = exToStoreKey, recordStatus = (\<lambda>sk. READY), logOf = (\<lambda>n. 1)\<rparr>"

definition exQuery :: query where
  "exQuery =
     \<lparr>storeKeys = [Some (K 1), Some (K 2), Some (K 3)], windows = [WINDOW_READY],
      q_length = Some 3, q_status = READY, queryState = Some ''s0'',
      preemptiveUpdates = [], waitingPackets = [], isAnExplicitIdFetch = False,
      windowSize = 30, prefetch = 1, canGetDeltaUpdates = True, rangeObservers = [],
      q_effects = []\<rparr>"

text \<open>
  The client update that removes one store key, the normalised removal of the
  store key \<open>sk\<close> at index \<open>i\<close> that leaves \<open>t\<close> records, and the delta of the
  source from the state \<open>s0\<close> to the state \<open>s1\<close> that removes \<open>id2\<close>.
\<close>

definition exRemove :: "storeKey \<Rightarrow> rawUpdate" where
  "exRemove sk = \<lparr>removed_r = [sk], added_r = [], total_r = None, upToId_r = None\<rparr>"

definition exRemoval :: "int \<Rightarrow> storeKey \<Rightarrow> int \<Rightarrow> update" where
  "exRemoval i sk t =
     \<lparr>removedIndexes = [i], removedStoreKeys = [sk], addedIndexes = [], addedStoreKeys = [],
      truncateAtFirstGap = False, total_u = t, upToId = None\<rparr>"


text \<open>
  \<open>exQuery\<close> after the client has removed \<open>K 2\<close> with
  \<^verbatim>\<open>clientDidGenerateUpdate\<close>, and after it has then removed \<open>K 3\<close> as well.
  \<open>exFetching\<close> is the second query once a fetch of its updates has begun:
  \<^verbatim>\<open>sourceWillFetchQuery\<close> (lines 1362-1380) sets LOADING and clears OBSOLETE, and
  clears DIRTY when the store has no changes left for the type.
\<close>

definition exPreempted :: query where
  "exPreempted =
     exQuery\<lparr>storeKeys := [Some (K 1), Some (K 3)], q_length := Some 2,
             q_status := READY OR DIRTY OR OBSOLETE,
             preemptiveUpdates := [exRemoval 1 (K 2) 2],
             q_effects := [RangeDidChange (Some 1) 3, QueryUpdated [K 2] [1] [] []]\<rparr>"

definition exPreemptedTwice :: query where
  "exPreemptedTwice =
     exPreempted\<lparr>storeKeys := [Some (K 1)], q_length := Some 1,
             preemptiveUpdates := [exRemoval 1 (K 2) 2, exRemoval 1 (K 3) 1],
             q_effects := [RangeDidChange (Some 1) 3, QueryUpdated [K 2] [1] [] [],
                           RangeDidChange (Some 1) 2, QueryUpdated [K 3] [1] [] []]\<rparr>"

definition exFetching :: query where
  "exFetching = exPreemptedTwice\<lparr>q_status := READY OR LOADING\<rparr>"



section \<open>Properties\<close>

subsection \<open>Status bits\<close>

lemma bit_pow2_status: "m < 32 \<Longrightarrow> bit ((2::status) ^ m) n \<longleftrightarrow> n = m"
  by (auto simp: bit_exp_iff)

lemma status_bits:
  "bit EMPTY n \<longleftrightarrow> n = 0" "bit READY n \<longleftrightarrow> n = 1" "bit DESTROYED n \<longleftrightarrow> n = 2"
  "bit NON_EXISTENT n \<longleftrightarrow> n = 3" "bit LOADING n \<longleftrightarrow> n = 4" "bit COMMITTING n \<longleftrightarrow> n = 5"
  "bit NEW n \<longleftrightarrow> n = 6" "bit DIRTY n \<longleftrightarrow> n = 7" "bit OBSOLETE n \<longleftrightarrow> n = 8"
  using bit_pow2_status [of 0 n] bit_pow2_status [of 1 n] bit_pow2_status [of 2 n]
    bit_pow2_status [of 3 n] bit_pow2_status [of 4 n] bit_pow2_status [of 5 n]
    bit_pow2_status [of 6 n] bit_pow2_status [of 7 n] bit_pow2_status [of 8 n]
  by (simp_all add: status_defs)

lemmas status_eq_iff = bit_eq_iff [where ?'a = "32 word"]

lemma and_flag_zero_iff:
  fixes x f :: status
  assumes "\<And>n. bit f n \<longleftrightarrow> n = k"
  shows "x AND f = 0 \<longleftrightarrow> \<not> bit x k"
proof
  assume "x AND f = 0"
  then have "\<not> bit (x AND f) k" by simp
  then show "\<not> bit x k" by (simp add: bit_simps assms)
next
  assume "\<not> bit x k"
  then show "x AND f = 0" by (auto simp: status_eq_iff bit_simps assms)
qed

lemma has_flag:
  "x AND EMPTY = 0 \<longleftrightarrow> \<not> bit x 0" "x AND READY = 0 \<longleftrightarrow> \<not> bit x 1"
  "x AND DESTROYED = 0 \<longleftrightarrow> \<not> bit x 2" "x AND NON_EXISTENT = 0 \<longleftrightarrow> \<not> bit x 3"
  "x AND LOADING = 0 \<longleftrightarrow> \<not> bit x 4" "x AND COMMITTING = 0 \<longleftrightarrow> \<not> bit x 5"
  "x AND NEW = 0 \<longleftrightarrow> \<not> bit x 6" "x AND DIRTY = 0 \<longleftrightarrow> \<not> bit x 7"
  "x AND OBSOLETE = 0 \<longleftrightarrow> \<not> bit x 8"
  by (rule and_flag_zero_iff, rule status_bits)+


lemma status_nonzero [simp]:
  "EMPTY \<noteq> 0" "READY \<noteq> 0" "DESTROYED \<noteq> 0" "NON_EXISTENT \<noteq> 0" "LOADING \<noteq> 0"
  "COMMITTING \<noteq> 0" "NEW \<noteq> 0" "DIRTY \<noteq> 0" "OBSOLETE \<noteq> 0"
  by (simp_all add: status_defs)

lemma committing_bit_kept:
  "(x::status) AND COMMITTING \<noteq> 0 \<Longrightarrow> (x AND NOT DIRTY) AND COMMITTING \<noteq> 0"
  by (simp add: has_flag bit_simps status_bits)





lemma getStatus_setStatus_other:
  "k \<noteq> sk \<Longrightarrow> getStatus (setStatus sk st s) k = getStatus s k"
  by (auto simp: getStatus_def setStatus_def recordDidChange_def logEffect_def Let_def
        split: option.splits if_splits)

lemma setStatus_frame [simp]:
  "skToRollback (setStatus sk st s) = skToRollback s"
  "skToCommitted (setStatus sk st s) = skToCommitted s"
  "skToType (setStatus sk st s) = skToType s"
  "skToData (setStatus sk st s) = skToData s"
  "skToChanged (setStatus sk st s) = skToChanged s"
  "created (setStatus sk st s) = created s"
  "destroyed (setStatus sk st s) = destroyed s"
  "accounts (setStatus sk st s) = accounts s"
  "skToAccountId (setStatus sk st s) = skToAccountId s"
  "typeToSKToId (setStatus sk st s) = typeToSKToId s"
  "nextStoreKey (setStatus sk st s) = nextStoreKey s"
  by (simp_all add: setStatus_def recordDidChange_def logEffect_def Let_def)

lemma getEntry_frame:
  assumes "getEntry T a cs = Some (key, ch1, s1)"
  shows "skToRollback s1 = skToRollback (snd cs)" "skToCommitted s1 = skToCommitted (snd cs)"
    "skToType s1 = skToType (snd cs)" "skToData s1 = skToData (snd cs)"
    "skToStatus s1 = skToStatus (snd cs)" "skToChanged s1 = skToChanged (snd cs)"
    "skToAccountId s1 = skToAccountId (snd cs)" "typeToSKToId s1 = typeToSKToId (snd cs)"
    "nextStoreKey s1 = nextStoreKey (snd cs)"
  using assms
  by (auto simp: getEntry_def Let_def split: option.splits jsval.splits)


lemma rawStatus_getStatus:
  "rawStatus s k AND COMMITTING \<noteq> 0 \<longleftrightarrow> getStatus s k AND COMMITTING \<noteq> 0"
  by (auto simp: rawStatus_def getStatus_def has_flag status_bits split: option.splits)

subsection \<open>What one commit step changes\<close>

lemma committingKept_refl [simp]: "committingKept s s"
  by (simp add: committingKept_def)


lemma committingKept_status_eq: "skToStatus s' = skToStatus s \<Longrightarrow> committingKept s s'"
  by (simp add: committingKept_def getStatus_def)










lemma logEffect_frame [simp]:
  "skToStatus (logEffect e s) = skToStatus s" "skToRollback (logEffect e s) = skToRollback s"
  "skToCommitted (logEffect e s) = skToCommitted s" "skToType (logEffect e s) = skToType s"
  "skToData (logEffect e s) = skToData s" "skToChanged (logEffect e s) = skToChanged s"
  "created (logEffect e s) = created s" "destroyed (logEffect e s) = destroyed s"
  "accounts (logEffect e s) = accounts s" "skToAccountId (logEffect e s) = skToAccountId s"
  "typeToSKToId (logEffect e s) = typeToSKToId s" "nextStoreKey (logEffect e s) = nextStoreKey s"
  "skToRecord (logEffect e s) = skToRecord s" "skToLastAccess (logEffect e s) = skToLastAccess s"
  "autoCommit (logEffect e s) = autoCommit s" "rebaseConflicts (logEffect e s) = rebaseConflicts s"
  "nestedStores (logEffect e s) = nestedStores s" "isCommitting (logEffect e s) = isCommitting s"
  by (simp_all add: logEffect_def)

lemmas model_defs = getStoreKey_def addAccount_def newAccount_def createRecord_def
  getAccountIdFromStoreKey_def getIdFromStoreKey_def
  getStatus_def setStatus_def recordDidChange_def mayHaveChanges_def callCommitChanges_def
  logEffect_def guidOfType_def rawStatus_def
  js_get_def js_set_def js_keys_def js_in_def isEqual_def filterObject_def
  updateData_def updateDataOpt_def setData_def
  commitChanges_def commitCreatedStep_def commitChangedStep_def commitDestroyedStep_def
  getEntry_def getChanged_def emptyMoveFrom_def
  initStore_def exStore_def exType_def status_defs Let_def

subsection \<open>Unloading a record\<close>

text \<open>
  Claim C7.  \<^verbatim>\<open>unloadRecord(sk)\<close> returns true only when the status of \<open>sk\<close> has
  none of COMMITTING, NEW and DIRTY and the materialised record instance, if there is
  one, has no observers; it then has removed the record, data, status, rollback and
  lastAccess entries of \<open>sk\<close>.  When that precondition fails, it returns false and
  the store is unchanged (as whenever it returns false).  In every case the
  id-to-storeKey mappings (the per-type \<^verbatim>\<open>skToId\<close> tables and the per-account
  \<^verbatim>\<open>typeToIdToSK\<close> tables) are as before.
\<close>

theorem unloadRecord_eviction_safety:
  "(fst (unloadRecord sk s) \<longrightarrow>
      getStatus s sk AND (COMMITTING OR NEW OR DIRTY) = 0
      \<and> (case skToRecord s sk of None \<Rightarrow> True | Some r \<Rightarrow> \<not> hasObservers r)
      \<and> skToRecord (snd (unloadRecord sk s)) sk = None
      \<and> skToData (snd (unloadRecord sk s)) sk = None
      \<and> skToStatus (snd (unloadRecord sk s)) sk = None
      \<and> skToRollback (snd (unloadRecord sk s)) sk = None
      \<and> skToLastAccess (snd (unloadRecord sk s)) sk = None)
   \<and> (\<not> (getStatus s sk AND (COMMITTING OR NEW OR DIRTY) = 0
           \<and> (case skToRecord s sk of None \<Rightarrow> True | Some r \<Rightarrow> \<not> hasObservers r)) \<longrightarrow>
        unloadRecord sk s = (False, s))
   \<and> (\<not> fst (unloadRecord sk s) \<longrightarrow> snd (unloadRecord sk s) = s)
   \<and> typeToSKToId (snd (unloadRecord sk s)) = typeToSKToId s
   \<and> accounts (snd (unloadRecord sk s)) = accounts s"
  by (auto simp: unloadRecord_def mayUnloadRecord_def willUnloadRecord_def
        logEffect_def Let_def split: option.splits)

theorem unloadRecord_eviction_safety_witness:
  "fst (unloadRecord (K 1) (exStore READY [(''a'', VNum 1)]))
   \<and> skToData (snd (unloadRecord (K 1) (exStore READY [(''a'', VNum 1)]))) (K 1) = None
   \<and> skToStatus (snd (unloadRecord (K 1) (exStore READY [(''a'', VNum 1)]))) (K 1) = None
   \<and> unloadRecord (K 1) (exStore (READY OR DIRTY) [(''a'', VNum 1)])
       = (False, exStore (READY OR DIRTY) [(''a'', VNum 1)])"
  using unloadRecord_eviction_safety [of "K 1" "exStore READY [(''a'', VNum 1)]"]
    unloadRecord_eviction_safety [of "K 1" "exStore (READY OR DIRTY) [(''a'', VNum 1)]"]
  by (simp add: unloadRecord_def mayUnloadRecord_def willUnloadRecord_def getStatus_def
        exStore_def initStore_def status_defs Let_def)

subsection \<open>Programming errors\<close>

text \<open>
  Claim C9.  \<^verbatim>\<open>createRecord\<close> on a store key whose status is neither EMPTY nor
  DESTROYED (the record exists already), and \<^verbatim>\<open>updateData\<close> with
  \<^verbatim>\<open>changeIsDirty\<close> true on a record whose status lacks READY or whose data is not
  loaded, report the error through \<^verbatim>\<open>didError\<close> and change nothing else: the store
  afterwards is the store before with the error appended to the diagnostic log, so
  the data, status, changed, committed and created tables are as before, and
  \<^verbatim>\<open>updateData\<close> returns false.
\<close>

theorem programming_errors_are_noops:
  "(getStatus s sk \<noteq> EMPTY \<and> getStatus s sk \<noteq> DESTROYED \<longrightarrow>
      createRecord sk data copyOf s
        = s\<lparr>effects := effects s @ [DidError CANNOT_CREATE_EXISTING_RECORD_ERROR]\<rparr>)
   \<and> (skToData s sk = None \<or> getStatus s sk AND READY = 0 \<longrightarrow>
      updateData sk patch True s
        = (False, s\<lparr>effects := effects s @ [DidError CANNOT_WRITE_TO_UNREADY_RECORD_ERROR]\<rparr>))"
  by (auto simp: createRecord_def updateData_def logEffect_def Let_def split: option.splits)

theorem programming_errors_are_noops_witness:
  "createRecord (K 1) (Some [(''a'', VNum 5)]) None (exStore READY [(''a'', VNum 1)])
     = (exStore READY [(''a'', VNum 1)])
         \<lparr>effects := [DidError CANNOT_CREATE_EXISTING_RECORD_ERROR]\<rparr>
   \<and> updateData (K 1) [(''a'', VNum 5)] True (exStore (DESTROYED OR DIRTY) [(''a'', VNum 1)])
     = (False, (exStore (DESTROYED OR DIRTY) [(''a'', VNum 1)])
         \<lparr>effects := [DidError CANNOT_WRITE_TO_UNREADY_RECORD_ERROR]\<rparr>)"
  using programming_errors_are_noops
          [of "exStore READY [(''a'', VNum 1)]" "K 1" "Some [(''a'', VNum 5)]" None]
        programming_errors_are_noops
          [of "exStore (DESTROYED OR DIRTY) [(''a'', VNum 1)]" "K 1" _ _ "[(''a'', VNum 5)]"]
  by (simp add: getStatus_def exStore_def initStore_def status_defs)

subsection \<open>Discarding a dirty update\<close>

text \<open>
  Claim C4, at a patch that introduces an attribute key.  The record \<^verbatim>\<open>k1\<close> is
  READY with the data \<^verbatim>\<open>{a: 1}\<close> and no local changes.  After
  \<^verbatim>\<open>updateData(k1, {b: 2}, true)\<close> and \<^verbatim>\<open>discardChanges()\<close> the data is still
  \<^verbatim>\<open>{a: 1, b: 2}\<close>, the status still READY|DIRTY, the changed set still
  \<^verbatim>\<open>{b}\<close> and the committed snapshot still in place: \<^verbatim>\<open>discardChanges\<close> replays
  the committed snapshot \<^verbatim>\<open>{a: 1}\<close> through \<^verbatim>\<open>updateData\<close>, whose loop visits
  only the keys of that snapshot.
\<close>

theorem discardChanges_keeps_introduced_key:
  "discardChanges (snd (updateData (K 1) [(''b'', VNum 2)] True (exStore READY [(''a'', VNum 1)])))
     \<noteq> None
   \<and> skToData (the (discardChanges (snd (updateData (K 1) [(''b'', VNum 2)] True
          (exStore READY [(''a'', VNum 1)]))))) (K 1)
       = Some [(''a'', VNum 1), (''b'', VNum 2)]
   \<and> skToStatus (the (discardChanges (snd (updateData (K 1) [(''b'', VNum 2)] True
          (exStore READY [(''a'', VNum 1)]))))) (K 1)
       = Some (READY OR DIRTY)
   \<and> skToChanged (the (discardChanges (snd (updateData (K 1) [(''b'', VNum 2)] True
          (exStore READY [(''a'', VNum 1)])))))
       = [(K 1, [(''b'', True)])]
   \<and> skToCommitted (the (discardChanges (snd (updateData (K 1) [(''b'', VNum 2)] True
          (exStore READY [(''a'', VNum 1)]))))) (K 1)
       = Some [(''a'', VNum 1)]"
  by (simp add: discardChanges_def updateDataOpt_def updateData_def getStatus_def setStatus_def
        recordDidChange_def mayHaveChanges_def callCommitChanges_def logEffect_def
        js_get_def js_set_def js_keys_def isEqual_def guidOfType_def
        exStore_def initStore_def exType_def status_defs Let_def)

subsection \<open>Committing and the rollback table\<close>




subsection \<open>A partial update for a dirty record\<close>

text \<open>
  Claim C2.  A record is READY|DIRTY with the data \<^verbatim>\<open>{a: 2, b: 1}\<close>, the committed
  snapshot \<^verbatim>\<open>{a: 1, b: 1}\<close> and the changed set \<^verbatim>\<open>{a}\<close>, and
  \<^verbatim>\<open>sourceDidFetchPartialRecords\<close> delivers the patch \<^verbatim>\<open>{a: 9, b: 9}\<close> for its
  id.  With \<^verbatim>\<open>rebaseConflicts\<close> the record ends with the data \<^verbatim>\<open>{a: 2, b: 9}\<close>,
  the committed snapshot \<^verbatim>\<open>{a: 9, b: 9}\<close>, the changed set \<^verbatim>\<open>{a: true}\<close> and
  the status READY|DIRTY.  Without it the record ends with the data
  \<^verbatim>\<open>{a: 9, b: 9}\<close>, the status READY (DIRTY cleared) and no changed or committed
  entry.
\<close>

theorem partial_update_of_dirty_record:
  assumes acc: "accountId \<noteq> []" "accounts s accountId = Some account"
      "typeToIdToSK account (typeId T) rid = Some sk"
    and st: "skToStatus s sk = Some (READY OR DIRTY)"
    and dt: "skToData s sk = Some [(''a'', VNum 2), (''b'', VNum 1)]"
    and cm: "skToCommitted s sk = Some [(''a'', VNum 1), (''b'', VNum 1)]"
    and ch: "map_of (skToChanged s) sk = Some [(''a'', True)]"
    and idk: "idAttrKey T \<noteq> ''a''" "idAttrKey T \<noteq> ''b''"
  shows "\<exists>s'. sourceDidFetchPartialRecords accountId T
                 [(rid, Some [(''a'', VNum 9), (''b'', VNum 9)])] s = Some s'
     \<and> (if rebaseConflicts s
         then skToData s' sk = Some [(''a'', VNum 2), (''b'', VNum 9)]
              \<and> skToCommitted s' sk = Some [(''a'', VNum 9), (''b'', VNum 9)]
              \<and> map_of (skToChanged s') sk = Some [(''a'', True)]
              \<and> skToStatus s' sk = Some (READY OR DIRTY)
         else skToData s' sk = Some [(''a'', VNum 9), (''b'', VNum 9)]
              \<and> skToStatus s' sk = Some READY
              \<and> READY AND DIRTY = 0
              \<and> map_of (skToChanged s') sk = None
              \<and> skToCommitted s' sk = None)"
  using assms
  by (auto simp: sourceDidFetchPartialRecords_def partialRecordStep_def rawStatus_def
        object_assign_def setData_def updateDataOpt_def updateData_def
        getStatus_def setStatus_def recordDidChange_def mayHaveChanges_def logEffect_def
        js_get_def js_set_def js_keys_def isEqual_def
        update_conv delete_conv
        status_defs Let_def)

theorem partial_update_of_dirty_record_witness:
  "skToData (the (sourceDidFetchPartialRecords ''acc'' exType
       [(''r1'', Some [(''a'', VNum 9), (''b'', VNum 9)])] (exClientEdit True))) (K 1)
     = Some [(''a'', VNum 2), (''b'', VNum 9)]
   \<and> skToStatus (the (sourceDidFetchPartialRecords ''acc'' exType
       [(''r1'', Some [(''a'', VNum 9), (''b'', VNum 9)])] (exClientEdit True))) (K 1)
     = Some (READY OR DIRTY)
   \<and> skToData (the (sourceDidFetchPartialRecords ''acc'' exType
       [(''r1'', Some [(''a'', VNum 9), (''b'', VNum 9)])] (exClientEdit False))) (K 1)
     = Some [(''a'', VNum 9), (''b'', VNum 9)]
   \<and> skToStatus (the (sourceDidFetchPartialRecords ''acc'' exType
       [(''r1'', Some [(''a'', VNum 9), (''b'', VNum 9)])] (exClientEdit False))) (K 1)
     = Some READY"
  using partial_update_of_dirty_record
          [of "''acc''" "exClientEdit True" _ exType "''r1''" "K 1"]
        partial_update_of_dirty_record
          [of "''acc''" "exClientEdit False" _ exType "''r1''" "K 1"]
  by (auto simp: exClientEdit_def exLoaded_def model_defs)

subsection \<open>The type and the account of a store key\<close>

lemma small_frames [simp]:
  "skToType (mayHaveChanges s) = skToType s" "nextStoreKey (mayHaveChanges s) = nextStoreKey s"
  "skToAccountId (mayHaveChanges s) = skToAccountId s"
  "skToType (callCommitChanges s) = skToType s" "nextStoreKey (callCommitChanges s) = nextStoreKey s"
  "skToAccountId (callCommitChanges s) = skToAccountId s"
  "skToType (recordDidChange sk s) = skToType s" "nextStoreKey (recordDidChange sk s) = nextStoreKey s"
  "skToAccountId (recordDidChange sk s) = skToAccountId s"
  "skToType (willUnloadRecord sk s) = skToType s" "nextStoreKey (willUnloadRecord sk s) = nextStoreKey s"
  "skToAccountId (willUnloadRecord sk s) = skToAccountId s"
  "skToType (changeRecordStoreKey sk c s) = skToType s"
  "nextStoreKey (changeRecordStoreKey sk c s) = nextStoreKey s"
  "skToAccountId (changeRecordStoreKey sk c s) = skToAccountId s"
  by (simp_all add: mayHaveChanges_def callCommitChanges_def recordDidChange_def
        willUnloadRecord_def changeRecordStoreKey_def Let_def split: option.splits)

lemma unloadRecord_frame [simp]:
  "skToType (snd (unloadRecord sk s)) = skToType s"
  "nextStoreKey (snd (unloadRecord sk s)) = nextStoreKey s"
  "skToAccountId (snd (unloadRecord sk s)) = skToAccountId s"
  by (simp_all add: unloadRecord_def Let_def)

lemma createRecord_frame [simp]:
  "skToType (createRecord sk d c s) = skToType s"
  "nextStoreKey (createRecord sk d c s) = nextStoreKey s"
  "skToAccountId (createRecord sk d c s) = skToAccountId s"
  by (simp_all add: createRecord_def Let_def)

lemma updateData_frame [simp]:
  "skToType (snd (updateData sk d b s)) = skToType s"
  "nextStoreKey (snd (updateData sk d b s)) = nextStoreKey s"
  by (simp_all add: updateData_def Let_def split: option.splits prod.splits)

lemma updateData_accountId:
  "skToAccountId (snd (updateData sk d b s)) k =
     (if k = sk \<and> skToData s sk \<noteq> None \<and> getStatus s sk = (READY OR NEW OR DIRTY)
           \<and> truthy (js_get d ''accountId'')
      then Some (js_get d ''accountId'') else skToAccountId s k)"
  by (auto simp: updateData_def Let_def has_flag bit_simps status_bits
        split: option.splits prod.splits)

lemma sameMinting_refl [simp]: "sameMinting s s"
  by (simp add: sameMinting_def)

lemma sameMinting_trans: "sameMinting s s1 \<Longrightarrow> sameMinting s1 s2 \<Longrightarrow> sameMinting s s2"
  by (simp add: sameMinting_def)

lemma sameMinting_simple [simp]:
  "sameMinting s (setStatus sk st s)" "sameMinting s (logEffect e s)"
  "sameMinting s (mayHaveChanges s)" "sameMinting s (callCommitChanges s)"
  "sameMinting s (recordDidChange sk s)" "sameMinting s (snd (unloadRecord sk s))"
  "sameMinting s (createRecord sk d c s)" "sameMinting s (snd (updateData sk dd b s))"
  "sameMinting s (changeRecordStoreKey sk c' s)"
  by (simp_all add: sameMinting_def)

lemma sameAssignment_refl [simp]: "sameAssignment s s"
  by (simp add: sameAssignment_def)

lemma sameAssignment_trans:
  "sameAssignment s s1 \<Longrightarrow> sameAssignment s1 s2 \<Longrightarrow> sameAssignment s s2"
  by (auto simp: sameAssignment_def intro: sameMinting_trans)

lemma sameAssignment_simple [simp]:
  "sameAssignment s (setStatus sk st s)" "sameAssignment s (logEffect e s)"
  "sameAssignment s (mayHaveChanges s)" "sameAssignment s (callCommitChanges s)"
  "sameAssignment s (recordDidChange sk s)" "sameAssignment s (snd (unloadRecord sk s))"
  "sameAssignment s (createRecord sk d c s)"
  "sameAssignment s (changeRecordStoreKey sk c' s)"
  by (simp_all add: sameAssignment_def sameMinting_def)

lemma updateData_minting: "updateData sk d b s = (r, s') \<Longrightarrow> sameMinting s s'"
  using sameMinting_simple(8) [of s sk d b] by simp

lemma updateDataOpt_minting:
  "updateDataOpt sk d b s = Some (r, s') \<Longrightarrow> sameMinting s s'"
  by (auto simp: updateDataOpt_def split: option.splits if_splits dest: updateData_minting)

lemma setData_minting: "setData sk d s = Some s' \<Longrightarrow> sameMinting s s'"
  by (auto simp: setData_def sameMinting_def dest!: updateDataOpt_minting
        split: option.splits if_splits)

lemma revertData_minting: "revertData sk s = Some s' \<Longrightarrow> sameMinting s s'"
  by (auto simp: revertData_def sameMinting_def Let_def split: option.splits)

lemma destroyRecord_minting: "destroyRecord sk c s = Some s' \<Longrightarrow> sameMinting s s'"
  by (auto simp: destroyRecord_def sameMinting_def Let_def dest!: setData_minting
        split: option.splits if_splits)

lemma undestroyRecord_minting: "undestroyRecord sk T d c s = Some s' \<Longrightarrow> sameMinting s s'"
  by (auto simp: undestroyRecord_def sameMinting_def Let_def split: option.splits if_splits)

lemma discardCreated_minting: "discardCreated l s = Some s' \<Longrightarrow> sameMinting s s'"
  by (induction l arbitrary: s)
     (auto split: option.splits dest!: destroyRecord_minting intro: sameMinting_trans)

lemma discardChanged_minting: "discardChanged l s = Some s' \<Longrightarrow> sameMinting s s'"
  by (induction l arbitrary: s)
     (auto split: option.splits prod.splits dest!: updateDataOpt_minting intro: sameMinting_trans)

lemma discardDestroyed_minting: "discardDestroyed l s = Some s' \<Longrightarrow> sameMinting s s'"
  by (induction l arbitrary: s)
     (auto split: option.splits dest!: undestroyRecord_minting intro: sameMinting_trans)

lemma discardChanges_minting: "discardChanges s = Some s' \<Longrightarrow> sameMinting s s'"
  by (auto simp: discardChanges_def sameMinting_def split: option.splits
        dest!: discardCreated_minting discardChanged_minting discardDestroyed_minting)

lemma getEntry_assignment: "getEntry T a cs = Some (k, ch, s') \<Longrightarrow> sameAssignment (snd cs) s'"
  by (auto simp: sameAssignment_def sameMinting_def dest: getEntry_frame)

lemma commitCreated_assignment: "commitCreated l cs = Some cs' \<Longrightarrow> sameAssignment (snd cs) (snd cs')"
proof (induction l arbitrary: cs)
  case Nil
  then show ?case by simp
next
  case (Cons p l)
  obtain sk c where p: "p = (sk, c)" by (cases p)
  from Cons.prems p obtain cs1 where
    step: "commitCreatedStep sk c cs = Some cs1" and rest: "commitCreated l cs1 = Some cs'"
    by (auto split: option.splits)
  have "sameAssignment (snd cs) (snd cs1)"
    using step
    by (auto simp: commitCreatedStep_def sameAssignment_def sameMinting_def Let_def dest: getEntry_frame
          split: option.splits prod.splits)
  with Cons.IH [OF rest] show ?case by (blast intro: sameAssignment_trans)
qed

lemma commitChanged_assignment: "commitChanged l cs = Some cs' \<Longrightarrow> sameAssignment (snd cs) (snd cs')"
proof (induction l arbitrary: cs)
  case Nil
  then show ?case by simp
next
  case (Cons p l)
  obtain sk c where p: "p = (sk, c)" by (cases p)
  from Cons.prems p obtain cs1 where
    step: "commitChangedStep sk c cs = Some cs1" and rest: "commitChanged l cs1 = Some cs'"
    by (auto split: option.splits)
  have "sameAssignment (snd cs) (snd cs1)"
    using step
    by (auto simp: commitChangedStep_def sameAssignment_def sameMinting_def Let_def dest: getEntry_frame
          split: option.splits prod.splits if_splits)
  with Cons.IH [OF rest] show ?case by (blast intro: sameAssignment_trans)
qed

lemma commitDestroyed_assignment:
  "commitDestroyed tbl l cs = Some cs' \<Longrightarrow> sameAssignment (snd cs) (snd cs')"
proof (induction l arbitrary: cs)
  case Nil
  then show ?case by simp
next
  case (Cons p l)
  obtain sk c where p: "p = (sk, c)" by (cases p)
  from Cons.prems p obtain cs1 where
    step: "commitDestroyedStep tbl sk c cs = Some cs1" and rest: "commitDestroyed tbl l cs1 = Some cs'"
    by (auto split: option.splits)
  have "sameAssignment (snd cs) (snd cs1)"
    using step
    by (auto simp: commitDestroyedStep_def sameAssignment_def sameMinting_def Let_def dest: getEntry_frame
          split: option.splits prod.splits if_splits)
  with Cons.IH [OF rest] show ?case by (blast intro: sameAssignment_trans)
qed

lemma commitChanges_assignment: "commitChanges s = Some s' \<Longrightarrow> sameAssignment s s'"
  by (auto simp: commitChanges_def sameAssignment_def sameMinting_def Let_def
        split: option.splits if_splits
        dest!: commitCreated_assignment commitChanged_assignment commitDestroyed_assignment)

lemma fetchData_assignment: "fetchData sk s = Some s' \<Longrightarrow> sameAssignment s s'"
  by (auto simp: fetchData_def sameAssignment_def sameMinting_def Let_def split: option.splits if_splits)

lemma fetchAll_assignment: "fetchAll a T f s = Some s' \<Longrightarrow> sameAssignment s s'"
  by (auto simp: fetchAll_def sameAssignment_def sameMinting_def Let_def split: option.splits if_splits)

lemma sourceStateDidChange_assignment: "sourceStateDidChange a T n s = Some s' \<Longrightarrow> sameAssignment s s'"
  by (auto simp: sourceStateDidChange_def sameAssignment_def sameMinting_def Let_def split: option.splits if_splits
        dest!: fetchAll_assignment)

lemma updateData_not_new_assignment:
  "getStatus s sk \<noteq> (READY OR NEW OR DIRTY) \<Longrightarrow> updateData sk d b s = (r, s')
   \<Longrightarrow> sameAssignment s s'"
  using updateData_accountId [of sk d b s] updateData_minting [of sk d b s r s']
  by (auto simp: sameAssignment_def)

lemma destroyRecord_assignment: "destroyRecord sk c s = Some s' \<Longrightarrow> sameAssignment s s'"
proof -
  assume a: "destroyRecord sk c s = Some s'"
  show ?thesis
  proof (cases "getStatus s sk = (READY OR NEW OR DIRTY)")
    case True
    with a show ?thesis
      by (auto simp: destroyRecord_def Let_def sameAssignment_def sameMinting_def)
  next
    case False
    have ua: "skToAccountId (snd (updateData sk x False s)) = skToAccountId s" for x
      using False by (auto simp: updateData_accountId)
    have sd: "setData sk d s = Some s1 \<Longrightarrow> sameAssignment s s1" for d s1
      by (auto simp: setData_def updateDataOpt_def sameAssignment_def sameMinting_def ua
            split: option.splits if_splits)
    from a False show ?thesis
      by (auto simp: destroyRecord_def Let_def sameAssignment_def sameMinting_def
            split: option.splits if_splits dest!: sd)
  qed
qed

lemma typesKept_refl [simp]: "typesKept s s"
  by (simp add: typesKept_def)

lemma typesKept_trans: "typesKept s s1 \<Longrightarrow> typesKept s1 s2 \<Longrightarrow> typesKept s s2"
  by (auto simp: typesKept_def)

lemma assignmentKept_refl [simp]: "assignmentKept s s"
  by (simp add: assignmentKept_def)

lemma assignmentKept_trans:
  "assignmentKept s s1 \<Longrightarrow> assignmentKept s1 s2 \<Longrightarrow> assignmentKept s s2"
  by (auto simp: assignmentKept_def)

lemma assignmentKept_typesKept: "assignmentKept s s' \<Longrightarrow> typesKept s s'"
  by (auto simp: assignmentKept_def typesKept_def)

lemma sameMinting_typesKept: "sameMinting s s' \<Longrightarrow> typesKept s s'"
  by (auto simp: sameMinting_def typesKept_def mintedBelowCounter_def)

lemma sameAssignment_assignmentKept: "sameAssignment s s' \<Longrightarrow> assignmentKept s s'"
  by (auto simp: sameAssignment_def sameMinting_def assignmentKept_def mintedBelowCounter_def)

lemma getStoreKey_assignment:
  "getStoreKey a T rid s = Some (sk, s') \<Longrightarrow> assignmentKept s s'"
  by (auto simp: getStoreKey_def assignmentKept_def mintedBelowCounter_def Let_def
        split: option.splits if_splits)

lemma getStoreKey_minted:
  assumes "getStoreKey a T None s = Some (sk, s')"
  shows "sk = K (nextStoreKey s)" "skToAccountId s' sk = Some (VStr a)" "skToType s' sk = T"
    "nextStoreKey s' = Suc (nextStoreKey s)"
  using assms
  by (auto simp: getStoreKey_def Let_def split: option.splits if_splits)

lemma typesKept_from: 
  "skToType s1 = skToType s \<Longrightarrow> nextStoreKey s1 = nextStoreKey s \<Longrightarrow> typesKept s s1"
  by (simp add: typesKept_def mintedBelowCounter_def)

lemma destroyRecordStep_assignment:
  "destroyRecordStep a T rid s = Some s' \<Longrightarrow> assignmentKept s s'"
proof -
  assume h: "destroyRecordStep a T rid s = Some s'"
  then obtain sk s1 where g: "getStoreKey a (Some T) rid s = Some (sk, s1)"
    and r: "s' = (if rid \<noteq> None \<and> getIdFromStoreKey s1 sk = rid
               then snd (unloadRecord sk (setStatus sk DESTROYED s1)) else s1)"
    by (auto simp: destroyRecordStep_def split: option.splits prod.splits)
  have "sameAssignment s1 s'"
    unfolding r by (simp add: sameAssignment_def sameMinting_def)
  with getStoreKey_assignment [OF g] show ?thesis
    by (blast intro: assignmentKept_trans sameAssignment_assignmentKept)
qed

lemma destroyRecordsLoop_assignment:
  "destroyRecordsLoop a T ids s = Some s' \<Longrightarrow> assignmentKept s s'"
proof (induction ids arbitrary: s)
  case Nil
  then show ?case by simp
next
  case (Cons rid ids)
  from Cons.prems obtain s1 where
    g: "destroyRecordStep a T rid s = Some s1" and r: "destroyRecordsLoop a T ids s1 = Some s'"
    by (auto split: option.splits)
  from destroyRecordStep_assignment [OF g] Cons.IH [OF r] show ?case
    by (blast intro: assignmentKept_trans)
qed

lemma partialRecordStep_minting: "partialRecordStep a T rid u s = Some s' \<Longrightarrow> sameMinting s s'"
  by (auto simp: partialRecordStep_def sameMinting_def Let_def
        split: option.splits prod.splits if_splits
        dest!: fetchData_assignment setData_minting
        simp: sameAssignment_def)

lemma partialRecordsLoop_minting: "partialRecordsLoop a T us s = Some s' \<Longrightarrow> sameMinting s s'"
proof (induction us arbitrary: s)
  case Nil
  then show ?case by simp
next
  case (Cons p us)
  obtain rid u where p: "p = (rid, u)" by (cases p)
  from Cons.prems p obtain s1 where
    g: "partialRecordStep a T rid u s = Some s1" and r: "partialRecordsLoop a T us s1 = Some s'"
    by (auto split: option.splits)
  from partialRecordStep_minting [OF g] Cons.IH [OF r] show ?case
    by (blast intro: sameMinting_trans)
qed

lemma sourceDidFetchPartialRecords_minting:
  "sourceDidFetchPartialRecords a T us s = Some s' \<Longrightarrow> sameMinting s s'"
  by (auto simp: sourceDidFetchPartialRecords_def split: if_splits
        dest!: partialRecordsLoop_minting intro: sameMinting_trans)

lemma fetchRecordStep_types:
  assumes "fetchRecordStep a T now data (seen, us, s) = Some (seen', us', s')"
  shows "typesKept s s'"
proof -
  from assms obtain sk s1 where
    g: "getStoreKey a (Some T) (idOfVal (js_get data (idAttrKey T))) s = Some (sk, s1)"
    and m: "skToType s' = skToType s1 \<and> nextStoreKey s' = nextStoreKey s1"
    by (auto simp: fetchRecordStep_def Let_def sameMinting_def
          split: option.splits prod.splits if_splits dest!: setData_minting)
  from m have "typesKept s1 s'" by (simp add: typesKept_from)
  with getStoreKey_assignment [OF g] show ?thesis
    by (blast intro: typesKept_trans assignmentKept_typesKept)
qed

lemma fetchRecordsLoop_types:
  "fetchRecordsLoop a T now rs acc = Some acc' \<Longrightarrow> typesKept (snd (snd acc)) (snd (snd acc'))"
proof (induction rs arbitrary: acc)
  case Nil
  then show ?case by simp
next
  case (Cons data rs)
  from Cons.prems obtain acc1 where
    g: "fetchRecordStep a T now data acc = Some acc1"
    and r: "fetchRecordsLoop a T now rs acc1 = Some acc'"
    by (auto split: option.splits)
  have "typesKept (snd (snd acc)) (snd (snd acc1))"
    using fetchRecordStep_types [of a T now data "fst acc" "fst (snd acc)" "snd (snd acc)"
            "fst acc1" "fst (snd acc1)" "snd (snd acc1)"] g
    by simp
  with Cons.IH [OF r] show ?case by (blast intro: typesKept_trans)
qed

lemma fetchedRecordsState_minting:
  "fetchedRecordsState a T st isAll s = Some s' \<Longrightarrow> sameMinting s s'"
  by (auto simp: fetchedRecordsState_def sameMinting_def Let_def sameAssignment_def
        split: option.splits if_splits dest!: sourceStateDidChange_assignment)

lemma destroyMissingRecords_assignment:
  "destroyMissingRecords a T seen s = Some s' \<Longrightarrow> assignmentKept s s'"
  by (auto simp: destroyMissingRecords_def sourceDidDestroyRecords_def
        split: option.splits if_splits dest!: destroyRecordsLoop_assignment)

lemma typeDidLoad_minting [simp]: "sameMinting s (typeDidLoad T s)"
  by (simp add: typeDidLoad_def sameMinting_def Let_def)

lemma sourceDidFetchRecords_types:
  assumes "sourceDidFetchRecords a T rs st isAll now s = Some s'"
  shows "typesKept s s'"
proof -
  from assms obtain seen us s1 where
    l: "fetchRecordsLoop a T now (rev rs) ([], [], s) = Some (seen, us, s1)"
    by (cases "fetchRecordsLoop a T now (rev rs) ([], [], s)")
       (auto simp: sourceDidFetchRecords_def split: if_splits)
  from assms l obtain s2 where
    d: "(if isAll then destroyMissingRecords a T seen s1 else Some s1) = Some s2"
    by (cases "if isAll then destroyMissingRecords a T seen s1 else Some s1")
       (auto simp: sourceDidFetchRecords_def split: if_splits)
  from assms l d obtain s3 where
    p: "sourceDidFetchPartialRecords a T us s2 = Some s3"
    by (cases "sourceDidFetchPartialRecords a T us s2")
       (auto simp: sourceDidFetchRecords_def split: if_splits)
  from assms l d p obtain s4 where
    f: "fetchedRecordsState a T st isAll s3 = Some s4" and e: "s' = typeDidLoad T s4"
    by (cases "fetchedRecordsState a T st isAll s3")
       (auto simp: sourceDidFetchRecords_def split: if_splits)
  have "typesKept s1 s2"
    using d by (auto split: if_splits dest!: destroyMissingRecords_assignment assignmentKept_typesKept)
  moreover have "typesKept s s1" using fetchRecordsLoop_types [OF l] by simp
  moreover have "typesKept s4 s'" unfolding e by (rule sameMinting_typesKept) simp
  ultimately show ?thesis
    using sameMinting_typesKept [OF sourceDidFetchPartialRecords_minting [OF p]]
      sameMinting_typesKept [OF fetchedRecordsState_minting [OF f]]
    by (blast intro: typesKept_trans)
qed

lemma moveRecord_types:
  assumes "moveRecord sk toAccountId copy s = Some (c, s')"
  shows "typesKept s s'"
proof -
  from assms obtain s2 s3 where
    a: "undestroyRecord c (skToType s sk) (skToData s sk) (Some sk) s = Some s2
        \<or> (\<exists>s1. getStoreKey toAccountId (skToType s sk) None s = Some (c, s1)
                \<and> s2 = createRecord c (skToData s sk) (Some sk) s1)"
    and r: "revertData sk (changeRecordStoreKey sk c s2) = Some s3"
    and d: "destroyRecord sk (Some c) s3 = Some s'"
    by (auto simp: moveRecord_def Let_def split: option.splits prod.splits)
  have "typesKept s s2"
  proof -
    from a consider
      (u) "undestroyRecord c (skToType s sk) (skToData s sk) (Some sk) s = Some s2"
      | (g) s1 where "getStoreKey toAccountId (skToType s sk) None s = Some (c, s1)"
          "s2 = createRecord c (skToData s sk) (Some sk) s1"
      by blast
    then show ?thesis
    proof cases
      case u
      then show ?thesis by (blast dest: undestroyRecord_minting intro: sameMinting_typesKept)
    next
      case g
      have "typesKept s1 s2" unfolding g(2) by (simp add: typesKept_from)
      with getStoreKey_assignment [OF g(1)] show ?thesis
        by (blast intro: typesKept_trans assignmentKept_typesKept)
    qed
  qed
  moreover have "typesKept s2 s3"
    using revertData_minting [OF r] by (simp add: sameMinting_def typesKept_from)
  moreover have "typesKept s3 s'"
    using destroyRecord_minting [OF d] by (rule sameMinting_typesKept)
  ultimately show ?thesis by (blast intro: typesKept_trans)
qed

lemma addAccount_frame [simp]:
  "skToType (addAccount a r c s) = skToType s" "nextStoreKey (addAccount a r c s) = nextStoreKey s"
  by (simp_all add: addAccount_def Let_def split: option.splits)

lemma addAccount_accountId:
  "skToAccountId (addAccount a r c s) k =
     (if \<exists>x. r = Some x \<and> x \<noteq> [] \<and> accounts s x \<noteq> None \<and> skToAccountId s k = Some (VStr x)
      then Some (VStr a) else skToAccountId s k)"
  by (auto simp: addAccount_def Let_def split: option.splits)

lemma eachStep_sameMinting:
  assumes "\<And>x u u'. f x u = Some u' \<Longrightarrow> sameMinting u u'"
  shows "eachStep f xs s = Some s' \<Longrightarrow> sameMinting s s'"
  by (induction xs arbitrary: s)
     (auto split: option.splits dest!: assms intro: sameMinting_trans)

lemma eachStep_sameAssignment:
  assumes "\<And>x u u'. f x u = Some u' \<Longrightarrow> sameAssignment u u'"
  shows "eachStep f xs s = Some s' \<Longrightarrow> sameAssignment s s'"
  by (induction xs arbitrary: s)
     (auto split: option.splits dest!: assms intro: sameAssignment_trans)

lemma eachStep_typesKept:
  assumes "\<And>x u u'. f x u = Some u' \<Longrightarrow> typesKept u u'"
  shows "eachStep f xs s = Some s' \<Longrightarrow> typesKept s s'"
  by (induction xs arbitrary: s)
     (auto split: option.splits dest!: assms intro: typesKept_trans)

lemma eachStep_assignmentKept:
  assumes "\<And>x u u'. f x u = Some u' \<Longrightarrow> assignmentKept u u'"
  shows "eachStep f xs s = Some s' \<Longrightarrow> assignmentKept s s'"
  by (induction xs arbitrary: s)
     (auto split: option.splits dest!: assms intro: assignmentKept_trans)

lemma sameAssignment_fields:
  "skToType s' = skToType s \<Longrightarrow> nextStoreKey s' = nextStoreKey s
   \<Longrightarrow> skToAccountId s' = skToAccountId s \<Longrightarrow> sameAssignment s s'"
  by (simp add: sameAssignment_def sameMinting_def)

lemma sameAssignment_sameMinting: "sameAssignment s s' \<Longrightarrow> sameMinting s s'"
  by (simp add: sameAssignment_def)

lemma materialiseRecord_assignment: "materialiseRecord sk s = Some s' \<Longrightarrow> sameAssignment s s'"
  by (auto simp: materialiseRecord_def intro!: sameAssignment_fields split: option.splits)

lemma getRecordFromStoreKey_assignment:
  "getRecordFromStoreKey sk d n s = Some s' \<Longrightarrow> sameAssignment s s'"
  by (auto simp: getRecordFromStoreKey_def sameAssignment_def sameMinting_def
        split: option.splits if_splits
        dest!: materialiseRecord_assignment fetchData_assignment)

lemma getRecord_assignment: "getRecord a T r d n s = Some s' \<Longrightarrow> assignmentKept s s'"
  by (auto simp: getRecord_def split: option.splits recordRef.splits if_splits
        dest!: getRecordFromStoreKey_assignment getStoreKey_assignment
        intro: assignmentKept_trans sameAssignment_assignmentKept)

lemma getOne_assignment: "getOne T f s = Some s' \<Longrightarrow> sameAssignment s s'"
  by (auto simp: getOne_def split: option.splits dest!: materialiseRecord_assignment)

lemma fireTypeChanges_fields:
  "skToType (foldl (\<lambda>s' tid. logEffect (Fire tid) s') s l) = skToType s"
  "nextStoreKey (foldl (\<lambda>s' tid. logEffect (Fire tid) s') s l) = nextStoreKey s"
  "skToAccountId (foldl (\<lambda>s' tid. logEffect (Fire tid) s') s l) = skToAccountId s"
  by (induction l arbitrary: s) simp_all

lemma bookkeeping_assignment:
  "sameAssignment s (setRecordForStoreKey sk r s)" "sameAssignment s (addNested f s)"
  "sameAssignment s (removeNested i s)" "sameAssignment s (checkForChanges s)"
  "sameAssignment s (fireTypeChanges s)" "sameAssignment s (commitIfAuto s)"
  by (simp_all add: setRecordForStoreKey_def addNested_def removeNested_def checkForChanges_def
        fireTypeChanges_def commitIfAuto_def fireTypeChanges_fields sameAssignment_def sameMinting_def)

lemma checkServerState_assignment: "checkServerState a T s = Some s' \<Longrightarrow> sameAssignment s s'"
  by (auto simp: checkServerState_def sameAssignment_def sameMinting_def
        split: option.splits if_splits dest!: sourceStateDidChange_assignment)

lemma commitDoneStep_assignment: "commitDoneStep e s = Some s' \<Longrightarrow> sameAssignment s s'"
  by (auto simp: commitDoneStep_def sameAssignment_def sameMinting_def
        split: option.splits dest!: checkServerState_assignment)

lemma commitDone_assignment: "commitDone c s = Some s' \<Longrightarrow> sameAssignment s s'"
proof -
  assume h: "commitDone c s = Some s'"
  then obtain s1 where l: "eachStep commitDoneStep (map snd c) s = Some s1"
    and e: "skToType s' = skToType s1" "nextStoreKey s' = nextStoreKey s1"
           "skToAccountId s' = skToAccountId s1"
    by (auto simp: commitDone_def Let_def checkForChanges_def split: option.splits if_splits)
  have "sameAssignment s s1"
    by (rule eachStep_sameAssignment [OF commitDoneStep_assignment l])
  moreover have "sameAssignment s1 s'" using e by (rule sameAssignment_fields)
  ultimately show ?thesis by (rule sameAssignment_trans)
qed

lemma modifyRecordStep_assignment: "modifyRecordStep a T rid s = Some s' \<Longrightarrow> assignmentKept s s'"
proof -
  assume h: "modifyRecordStep a T rid s = Some s'"
  then obtain sk s1 where g: "getStoreKey a (Some T) rid s = Some (sk, s1)"
    and e: "s' = (if getStatus s1 sk AND READY \<noteq> 0
                  then setStatus sk (getStatus s1 sk OR OBSOLETE) s1 else s1)"
    by (auto simp: modifyRecordStep_def Let_def split: option.splits)
  have "assignmentKept s s1" using g by (rule getStoreKey_assignment)
  moreover have "sameAssignment s1 s'" unfolding e by simp
  ultimately show ?thesis by (blast intro: assignmentKept_trans sameAssignment_assignmentKept)
qed

lemma sourceDidModifyRecords_assignment:
  "sourceDidModifyRecords a T l s = Some s' \<Longrightarrow> assignmentKept s s'"
  unfolding sourceDidModifyRecords_def
  by (rule eachStep_assignmentKept [OF modifyRecordStep_assignment])

lemma couldNotFindStep_types: "couldNotFindStep a T rid s = Some s' \<Longrightarrow> typesKept s s'"
proof -
  assume h: "couldNotFindStep a T rid s = Some s'"
  then obtain sk s1 where g: "getStoreKey a (Some T) rid s = Some (sk, s1)"
    by (auto simp: couldNotFindStep_def Let_def split: option.splits)
  have 1: "typesKept s s1" using g by (blast dest: getStoreKey_assignment assignmentKept_typesKept)
  have "sameMinting s1 s'"
    using h g
    by (auto simp: couldNotFindStep_def Let_def sameMinting_def
          split: option.splits if_splits dest!: setData_minting)
  with 1 show ?thesis by (blast intro: typesKept_trans sameMinting_typesKept)
qed

lemma sourceCouldNotFindRecords_types:
  "sourceCouldNotFindRecords a T l s = Some s' \<Longrightarrow> typesKept s s'"
proof -
  assume h: "sourceCouldNotFindRecords a T l s = Some s'"
  then obtain s1 where l: "eachStep (couldNotFindStep a T) (rev l) s = Some s1"
    and e: "s' = mayHaveChanges s1"
    by (auto simp: sourceCouldNotFindRecords_def)
  have "typesKept s s1"
    by (rule eachStep_typesKept [OF couldNotFindStep_types l])
  moreover have "sameMinting s1 s'" unfolding e by simp
  ultimately show ?thesis by (blast intro: typesKept_trans sameMinting_typesKept)
qed

lemma sourceDidFetchUpdates_assignment:
  "sourceDidFetchUpdates a T c d old new s = Some s' \<Longrightarrow> assignmentKept s s'"
proof (cases "a \<noteq> [] \<and> (\<exists>acc. accounts s a = Some acc \<and> Some old = clientState acc (typeId T))")
  case False
  assume "sourceDidFetchUpdates a T c d old new s = Some s'"
  with False have "sourceStateDidChange a T new s = Some s'"
    by (auto simp: sourceDidFetchUpdates_def Let_def split: option.splits if_splits)
  then show ?thesis by (blast dest: sourceStateDidChange_assignment sameAssignment_assignmentKept)
next
  case True
  assume h: "sourceDidFetchUpdates a T c d old new s = Some s'"
  with True obtain s1 where
    1: "(case c of None \<Rightarrow> Some s
         | Some c' \<Rightarrow> if c' \<noteq> [] then sourceDidModifyRecords a T c' s else Some s) = Some s1"
    by (auto simp: sourceDidFetchUpdates_def Let_def split: option.splits if_splits)
  with h True obtain s2 where
    2: "(case d of None \<Rightarrow> Some s1
         | Some d' \<Rightarrow> if d' \<noteq> [] then sourceDidDestroyRecords a T d' s1 else Some s1) = Some s2"
    by (auto simp: sourceDidFetchUpdates_def Let_def split: option.splits if_splits)
  from h True 1 2 have e: "skToType s' = skToType s2" "nextStoreKey s' = nextStoreKey s2"
      "skToAccountId s' = skToAccountId s2"
    by (auto simp: sourceDidFetchUpdates_def Let_def split: option.splits if_splits)
  have k1: "assignmentKept s s1"
    using 1 by (auto split: option.splits if_splits dest: sourceDidModifyRecords_assignment)
  have k2: "assignmentKept s1 s2"
    using 2 by (auto simp: sourceDidDestroyRecords_def split: option.splits if_splits
                  dest: destroyRecordsLoop_assignment)
  have "sameAssignment s2 s'" using e by (rule sameAssignment_fields)
  with k1 k2 show ?thesis by (blast intro: assignmentKept_trans sameAssignment_assignmentKept)
qed

lemma sourceCommitDidChangeState_assignment:
  "sourceCommitDidChangeState a T old new s = Some s' \<Longrightarrow> sameAssignment s s'"
  by (auto simp: sourceCommitDidChangeState_def Let_def sameAssignment_def sameMinting_def
        split: option.splits if_splits dest!: sourceStateDidChange_assignment)

lemma commitCreateStep_minting: "commitCreateStep item s = Some s' \<Longrightarrow> sameMinting s s'"
  by (auto simp: commitCreateStep_def Let_def sameMinting_def
        split: option.splits if_splits jsval.splits)

lemma sourceDidCommitCreate_minting: "sourceDidCommitCreate l s = Some s' \<Longrightarrow> sameMinting s s'"
proof -
  assume "sourceDidCommitCreate l s = Some s'"
  then obtain s1 where l: "eachStep commitCreateStep l s = Some s1" and e: "s' = commitIfAuto s1"
    by (auto simp: sourceDidCommitCreate_def)
  have "sameMinting s s1" by (rule eachStep_sameMinting [OF commitCreateStep_minting l])
  moreover have "sameMinting s1 s'"
    unfolding e using bookkeeping_assignment(6) by (rule sameAssignment_sameMinting)
  ultimately show ?thesis by (rule sameMinting_trans)
qed

lemma revertWanted_frame:
  "revertWanted p e s = Some r \<Longrightarrow> sameAssignment s (snd r)"
  by (auto simp: revertWanted_def split: if_splits option.splits)

lemma after_loop:
  "sameAssignment s (mayHaveChanges (commitIfAuto s))"
  by (simp add: commitIfAuto_def sameAssignment_def sameMinting_def)

lemma notCreateStep_assignment: "notCreateStep p item s = Some s' \<Longrightarrow> sameAssignment s s'"
proof (cases "getStatus s (fst item) AND DESTROYED \<noteq> 0")
  case True
  assume "notCreateStep p item s = Some s'"
  with True show ?thesis
    by (auto simp: notCreateStep_def Let_def intro!: sameAssignment_fields)
next
  case False
  assume h: "notCreateStep p item s = Some s'"
  define s3 where "s3 = (let sk = fst item; status = getStatus s sk;
             s1 = (if status AND DIRTY \<noteq> 0
                   then s\<lparr>skToCommitted := (skToCommitted s)(sk := None),
                          skToChanged := AList.delete sk (skToChanged s)\<rparr>
                   else s);
             s2 = setStatus sk (READY OR NEW OR DIRTY) s1
         in s2\<lparr>created := AList.update sk None (created s2)\<rparr>)"
  have a: "sameAssignment s s3"
    by (auto simp: s3_def Let_def intro!: sameAssignment_fields)
  from h False obtain r where r: "revertWanted p (snd item) s3 = Some r"
    and e: "(if fst r then destroyRecord (fst item) None (snd r) else Some (snd r)) = Some s'"
    by (auto simp: notCreateStep_def Let_def s3_def split: option.splits)
  have b: "sameAssignment s3 (snd r)" using r by (rule revertWanted_frame)
  have c: "sameAssignment (snd r) s'"
    using e by (auto split: if_splits dest: destroyRecord_assignment)
  from a b c show ?thesis by (blast intro: sameAssignment_trans)
qed

lemma sourceDidNotCreate_assignment:
  "sourceDidNotCreate l p e s = Some s' \<Longrightarrow> sameAssignment s s'"
proof -
  assume "sourceDidNotCreate l p e s = Some s'"
  then obtain s1 where l: "eachStep (notCreateStep p) (withErrors l e) s = Some s1"
    and e: "s' = mayHaveChanges (commitIfAuto s1)"
    by (auto simp: sourceDidNotCreate_def)
  have "sameAssignment s s1" by (rule eachStep_sameAssignment [OF notCreateStep_assignment l])
  moreover have "sameAssignment s1 s'" unfolding e by (rule after_loop)
  ultimately show ?thesis by (rule sameAssignment_trans)
qed

lemma commitUpdateStep_assignment: "commitUpdateStep sk s = Some s' \<Longrightarrow> sameAssignment s s'"
  by (auto simp: commitUpdateStep_def Let_def intro!: sameAssignment_fields)

lemma sourceDidCommitUpdate_assignment:
  "sourceDidCommitUpdate l s = Some s' \<Longrightarrow> sameAssignment s s'"
proof -
  assume "sourceDidCommitUpdate l s = Some s'"
  then obtain s1 where l: "eachStep commitUpdateStep (rev l) s = Some s1"
    and e: "s' = commitIfAuto s1"
    by (auto simp: sourceDidCommitUpdate_def)
  have "sameAssignment s s1" by (rule eachStep_sameAssignment [OF commitUpdateStep_assignment l])
  moreover have "sameAssignment s1 s'" unfolding e by (rule bookkeeping_assignment)
  ultimately show ?thesis by (rule sameAssignment_trans)
qed

lemma notUpdateStep_minting: "notUpdateStep p item s = Some s' \<Longrightarrow> sameMinting s s'"
  by (auto simp: notUpdateStep_def Let_def sameMinting_def
        split: option.splits if_splits
        dest!: revertWanted_frame revertData_minting simp: sameAssignment_def)

lemma sourceDidNotUpdate_minting:
  "sourceDidNotUpdate l p e s = Some s' \<Longrightarrow> sameMinting s s'"
proof -
  assume "sourceDidNotUpdate l p e s = Some s'"
  then obtain s1 where l: "eachStep (notUpdateStep p) (withErrors l e) s = Some s1"
    and e: "s' = mayHaveChanges (commitIfAuto s1)"
    by (auto simp: sourceDidNotUpdate_def)
  have "sameMinting s s1" by (rule eachStep_sameMinting [OF notUpdateStep_minting l])
  moreover have "sameMinting s1 s'"
    unfolding e using after_loop by (rule sameAssignment_sameMinting)
  ultimately show ?thesis by (rule sameMinting_trans)
qed

lemma commitDestroyStep_assignment: "commitDestroyStep sk s = Some s' \<Longrightarrow> sameAssignment s s'"
  by (auto simp: commitDestroyStep_def Let_def split: if_splits intro!: sameAssignment_fields)

lemma sourceDidCommitDestroy_assignment:
  "sourceDidCommitDestroy l s = Some s' \<Longrightarrow> sameAssignment s s'"
proof -
  assume "sourceDidCommitDestroy l s = Some s'"
  then obtain s1 where l: "eachStep commitDestroyStep (rev l) s = Some s1"
    and e: "s' = mayHaveChanges (commitIfAuto s1)"
    by (auto simp: sourceDidCommitDestroy_def)
  have "sameAssignment s s1" by (rule eachStep_sameAssignment [OF commitDestroyStep_assignment l])
  moreover have "sameAssignment s1 s'" unfolding e by (rule after_loop)
  ultimately show ?thesis by (rule sameAssignment_trans)
qed

lemma undestroyRecord_nodata_assignment:
  "undestroyRecord sk T None c s = Some s' \<Longrightarrow> sameAssignment s s'"
  by (auto simp: undestroyRecord_def Let_def split: if_splits intro!: sameAssignment_fields)

lemma notDestroyStep_assignment: "notDestroyStep p item s = Some s' \<Longrightarrow> sameAssignment s s'"
proof -
  assume h: "notDestroyStep p item s = Some s'"
  consider (a) "getStatus s (fst item) AND NOT DIRTY = (READY OR NEW OR COMMITTING)"
    | (b) "getStatus s (fst item) AND NOT DIRTY \<noteq> (READY OR NEW OR COMMITTING)"
          "getStatus s (fst item) AND DESTROYED \<noteq> 0"
    | (c) "getStatus s (fst item) AND NOT DIRTY \<noteq> (READY OR NEW OR COMMITTING)"
          "getStatus s (fst item) AND DESTROYED = 0"
    by blast
  then show ?thesis
  proof cases
    case a
    with h show ?thesis by (auto simp: notDestroyStep_def Let_def intro!: sameAssignment_fields)
  next
    case c
    with h show ?thesis by (auto simp: notDestroyStep_def Let_def)
  next
    case b
    define s2 where "s2 = (let sk = fst item; status = getStatus s sk;
             s1 = setStatus sk ((status AND NOT COMMITTING) OR DIRTY) s
         in s1\<lparr>destroyed := AList.update sk None (destroyed s1)\<rparr>)"
    have x: "sameAssignment s s2" by (auto simp: s2_def Let_def intro!: sameAssignment_fields)
    from h b obtain r where r: "revertWanted p (snd item) s2 = Some r"
      and e: "(if fst r then undestroyRecord (fst item) None None None (snd r) else Some (snd r))
                = Some s'"
      by (auto simp: notDestroyStep_def Let_def s2_def split: option.splits)
    have y: "sameAssignment s2 (snd r)" using r by (rule revertWanted_frame)
    have z: "sameAssignment (snd r) s'"
      using e by (auto split: if_splits dest: undestroyRecord_nodata_assignment)
    from x y z show ?thesis by (blast intro: sameAssignment_trans)
  qed
qed

lemma sourceDidNotDestroy_assignment:
  "sourceDidNotDestroy l p e s = Some s' \<Longrightarrow> sameAssignment s s'"
proof -
  assume "sourceDidNotDestroy l p e s = Some s'"
  then obtain s1 where l: "eachStep (notDestroyStep p) (withErrors l e) s = Some s1"
    and e: "s' = mayHaveChanges (commitIfAuto s1)"
    by (auto simp: sourceDidNotDestroy_def)
  have "sameAssignment s s1" by (rule eachStep_sameAssignment [OF notDestroyStep_assignment l])
  moreover have "sameAssignment s1 s'" unfolding e by (rule after_loop)
  ultimately show ?thesis by (rule sameAssignment_trans)
qed

lemma applyChanges_types: "applyChanges c s = Some s' \<Longrightarrow> typesKept s s'"
proof -
  assume h: "applyChanges c s = Some s'"
  then obtain s1 s2 s3 where
    1: "eachStep (\<lambda>c. undestroyRecord (fst c) (fst (snd c)) (snd (snd c)) None) (toCreate c) s = Some s1"
    and 2: "eachStep (\<lambda>m u. map_option snd (moveRecord (fst m) (fst (snd m)) (snd (snd m)) u))
                  (toMove c) s1 = Some s2"
    and 3: "eachStep (\<lambda>c u. map_option snd (updateDataOpt (fst c) (snd c) True u))
                       (toUpdate c) s2 = Some s3"
    and 4: "eachStep (\<lambda>sk. destroyRecord sk None) (toDestroy c) s3 = Some s'"
    by (auto simp: applyChanges_def split: option.splits)
  have "sameMinting s s1"
    using 1 by (rule eachStep_sameMinting [rotated]) (rule undestroyRecord_minting)
  moreover have "typesKept s1 s2"
    using 2 by (rule eachStep_typesKept [rotated]) (auto dest: moveRecord_types)
  moreover have "sameMinting s2 s3"
    using 3 by (rule eachStep_sameMinting [rotated]) (auto dest: updateDataOpt_minting)
  moreover have "sameMinting s3 s'"
    using 4 by (rule eachStep_sameMinting [rotated]) (rule destroyRecord_minting)
  ultimately show ?thesis by (blast intro: typesKept_trans sameMinting_typesKept)
qed

lemma kept_intros:
  "sameAssignment s s' \<Longrightarrow> typesKept s s'" "sameAssignment s s' \<Longrightarrow> assignmentKept s s'"
  "sameMinting s s' \<Longrightarrow> typesKept s s'" "assignmentKept s s' \<Longrightarrow> typesKept s s'"
  by (blast intro: sameMinting_typesKept sameAssignment_assignmentKept assignmentKept_typesKept
        sameAssignment_sameMinting)+

lemma applyOp_typesKept: "applyOp op s = Some s' \<Longrightarrow> typesKept s s'"
proof -
  assume h: "applyOp op s = Some s'"
  show ?thesis
  proof (cases op)
    case (GetStoreKey a T rid)
    with h show ?thesis by (auto dest!: getStoreKey_assignment assignmentKept_typesKept)
  next
    case (MoveRecord sk a c)
    with h show ?thesis by (auto dest!: moveRecord_types)
  next
    case (SourceDidDestroyRecords a T ids)
    with h show ?thesis
      by (auto simp: sourceDidDestroyRecords_def
            dest!: destroyRecordsLoop_assignment assignmentKept_typesKept)
  next
    case (SourceDidFetchRecords a T rs st isAll now)
    with h show ?thesis by (auto dest!: sourceDidFetchRecords_types)
  next
    case (SourceDidModifyRecords a T ids)
    with h show ?thesis by (auto dest!: sourceDidModifyRecords_assignment intro: kept_intros)
  next
    case (SourceCouldNotFindRecords a T ids)
    with h show ?thesis by (auto dest!: sourceCouldNotFindRecords_types)
  next
    case (SourceDidFetchUpdates a T ch ds old new)
    with h show ?thesis by (auto dest!: sourceDidFetchUpdates_assignment intro: kept_intros)
  next
    case (SourceCommitDidChangeState a T old new)
    with h show ?thesis by (auto dest!: sourceCommitDidChangeState_assignment intro: kept_intros)
  next
    case (SourceDidCommitCreate l)
    with h show ?thesis by (auto dest!: sourceDidCommitCreate_minting intro: kept_intros)
  next
    case (SourceDidNotCreate sks p es)
    with h show ?thesis by (auto dest!: sourceDidNotCreate_assignment intro: kept_intros)
  next
    case (SourceDidCommitUpdate sks)
    with h show ?thesis by (auto dest!: sourceDidCommitUpdate_assignment intro: kept_intros)
  next
    case (SourceDidNotUpdate sks p es)
    with h show ?thesis by (auto dest!: sourceDidNotUpdate_minting intro: kept_intros)
  next
    case (SourceDidCommitDestroy sks)
    with h show ?thesis by (auto dest!: sourceDidCommitDestroy_assignment intro: kept_intros)
  next
    case (SourceDidNotDestroy sks p es)
    with h show ?thesis by (auto dest!: sourceDidNotDestroy_assignment intro: kept_intros)
  next
    case (CommitDone changes)
    with h show ?thesis by (auto dest!: commitDone_assignment intro: kept_intros)
  next
    case (ApplyChanges changes)
    with h show ?thesis by (auto dest!: applyChanges_types)
  next
    case (GetRecord a T r d now)
    with h show ?thesis by (auto dest!: getRecord_assignment intro: kept_intros)
  next
    case (GetRecordFromStoreKey sk d now)
    with h show ?thesis by (auto dest!: getRecordFromStoreKey_assignment intro: kept_intros)
  next
    case (MaterialiseRecord sk)
    with h show ?thesis by (auto dest!: materialiseRecord_assignment intro: kept_intros)
  next
    case (SetRecordForStoreKey sk r)
    with h show ?thesis by (auto intro: kept_intros bookkeeping_assignment)
  next
    case (GetOne T f)
    with h show ?thesis by (auto dest!: getOne_assignment intro: kept_intros)
  next
    case (AddNested f)
    with h show ?thesis by (auto intro: kept_intros bookkeeping_assignment)
  next
    case (RemoveNested i)
    with h show ?thesis by (auto intro: kept_intros bookkeeping_assignment)
  next
    case CheckForChanges
    with h show ?thesis by (auto intro: kept_intros bookkeeping_assignment)
  next
    case (CheckServerState a T)
    with h show ?thesis by (auto dest!: checkServerState_assignment intro: kept_intros)
  next
    case FireTypeChanges
    with h show ?thesis by (auto intro: kept_intros bookkeeping_assignment)
  qed (use h in \<open>auto intro!: sameMinting_typesKept typesKept_from
       dest: setData_minting revertData_minting destroyRecord_minting undestroyRecord_minting
         discardChanges_minting commitChanges_assignment fetchData_assignment
         fetchAll_assignment sourceStateDidChange_assignment
         sourceDidFetchPartialRecords_minting
       simp: sameAssignment_def sameMinting_def\<close>)
qed

lemma applyOp_assignmentKept:
  "applyOp op s = Some s' \<Longrightarrow> \<not> mayWriteAccountId op \<Longrightarrow> assignmentKept s s'"
proof -
  assume h: "applyOp op s = Some s'" and w: "\<not> mayWriteAccountId op"
  show ?thesis
  proof (cases op)
    case (GetStoreKey a T rid)
    with h show ?thesis by (auto dest!: getStoreKey_assignment)
  next
    case (SourceDidDestroyRecords a T ids)
    with h show ?thesis
      by (auto simp: sourceDidDestroyRecords_def dest!: destroyRecordsLoop_assignment)
  next
    case (SourceDidModifyRecords a T ids)
    with h show ?thesis by (auto dest!: sourceDidModifyRecords_assignment)
  next
    case (SourceDidFetchUpdates a T ch ds old new)
    with h show ?thesis by (auto dest!: sourceDidFetchUpdates_assignment)
  next
    case (SourceCommitDidChangeState a T old new)
    with h show ?thesis by (auto dest!: sourceCommitDidChangeState_assignment intro: kept_intros)
  next
    case (SourceDidNotCreate sks p es)
    with h show ?thesis by (auto dest!: sourceDidNotCreate_assignment intro: kept_intros)
  next
    case (SourceDidCommitUpdate sks)
    with h show ?thesis by (auto dest!: sourceDidCommitUpdate_assignment intro: kept_intros)
  next
    case (SourceDidCommitDestroy sks)
    with h show ?thesis by (auto dest!: sourceDidCommitDestroy_assignment intro: kept_intros)
  next
    case (SourceDidNotDestroy sks p es)
    with h show ?thesis by (auto dest!: sourceDidNotDestroy_assignment intro: kept_intros)
  next
    case (CommitDone changes)
    with h show ?thesis by (auto dest!: commitDone_assignment intro: kept_intros)
  next
    case (GetRecord a T r d now)
    with h show ?thesis by (auto dest!: getRecord_assignment)
  next
    case (GetRecordFromStoreKey sk d now)
    with h show ?thesis by (auto dest!: getRecordFromStoreKey_assignment intro: kept_intros)
  next
    case (MaterialiseRecord sk)
    with h show ?thesis by (auto dest!: materialiseRecord_assignment intro: kept_intros)
  next
    case (SetRecordForStoreKey sk r)
    with h show ?thesis by (auto intro: kept_intros bookkeeping_assignment)
  next
    case (GetOne T f)
    with h show ?thesis by (auto dest!: getOne_assignment intro: kept_intros)
  next
    case (AddNested f)
    with h show ?thesis by (auto intro: kept_intros bookkeeping_assignment)
  next
    case (RemoveNested i)
    with h show ?thesis by (auto intro: kept_intros bookkeeping_assignment)
  next
    case CheckForChanges
    with h show ?thesis by (auto intro: kept_intros bookkeeping_assignment)
  next
    case (CheckServerState a T)
    with h show ?thesis by (auto dest!: checkServerState_assignment intro: kept_intros)
  next
    case FireTypeChanges
    with h show ?thesis by (auto intro: kept_intros bookkeeping_assignment)
  qed (use h w in \<open>auto intro!: sameAssignment_assignmentKept
       dest: destroyRecord_assignment commitChanges_assignment fetchData_assignment
         fetchAll_assignment sourceStateDidChange_assignment\<close>)
qed

lemma revertData_accountId_other:
  "revertData sk s = Some s' \<Longrightarrow> k \<noteq> sk \<Longrightarrow> skToAccountId s' k = skToAccountId s k"
  by (auto simp: revertData_def Let_def updateData_accountId split: option.splits)

lemma moveRecord_mints:
  assumes m: "moveRecord sk toAccountId None s = Some (c, s')"
    and nocopy: "map_of (created s) sk = None \<or> map_of (created s) sk = Some None"
    and inv: "mintedBelowCounter s" and ty: "skToType s sk = Some T"
  shows "c = K (nextStoreKey s) \<and> c \<noteq> sk \<and> skToType s c = None
         \<and> skToType s' c = Some T \<and> skToAccountId s' c = Some (VStr toAccountId)
         \<and> skToType s' sk = Some T"
proof -
  from m nocopy obtain s1 where
    g: "getStoreKey toAccountId (skToType s sk) None s = Some (c, s1)"
    by (cases "getStoreKey toAccountId (skToType s sk) None s")
       (auto simp: moveRecord_def Let_def split: option.splits)
  from m nocopy g obtain s3 where
    r: "revertData sk (changeRecordStoreKey sk c (createRecord c (skToData s sk) (Some sk) s1))
          = Some s3"
    and d: "destroyRecord sk (Some c) s3 = Some s'"
    by (cases "revertData sk (changeRecordStoreKey sk c
                 (createRecord c (skToData s sk) (Some sk) s1))")
       (auto simp: moveRecord_def Let_def split: option.splits)
  note gm = getStoreKey_minted [OF g]
  have c: "c = K (nextStoreKey s)" by (rule gm(1))
  have fresh: "skToType s c = None" using inv c by (simp add: mintedBelowCounter_def)
  with ty have ne: "c \<noteq> sk" by auto
  have t3: "skToType s3 = skToType s1" and a3: "skToAccountId s3 c = skToAccountId s1 c"
    using revertData_minting [OF r] revertData_accountId_other [OF r ne]
    by (simp_all add: sameMinting_def)
  have "sameAssignment s3 s'" using d by (rule destroyRecord_assignment)
  then have t': "skToType s' = skToType s1" and a': "skToAccountId s' c = skToAccountId s1 c"
    using t3 a3 by (simp_all add: sameAssignment_def sameMinting_def)
  have "skToType s1 sk = Some T"
    using getStoreKey_assignment [OF g] inv ty by (simp add: assignmentKept_def)
  with c ne fresh gm t' a' ty show ?thesis by simp
qed

lemma getStatus_skToStatus: "skToStatus s' = skToStatus s \<Longrightarrow> getStatus s' k = getStatus s k"
  by (simp add: getStatus_def)

lemma getStoreKey_status:
  "getStoreKey a T rid s = Some (sk, s') \<Longrightarrow> skToStatus s' = skToStatus s \<and> skToData s' = skToData s
     \<and> skToCommitted s' = skToCommitted s"
  by (auto simp: getStoreKey_def Let_def split: option.splits if_splits)

lemma createRecord_status_other:
  "c \<noteq> k \<Longrightarrow> skToStatus (createRecord c d x s) k = skToStatus s k"
  by (simp add: createRecord_def Let_def setStatus_def recordDidChange_def logEffect_def
        callCommitChanges_def)

lemma revertData_accountId_clean:
  "revertData sk s = Some s' \<Longrightarrow> getStatus s sk \<noteq> (READY OR NEW OR DIRTY)
   \<Longrightarrow> skToAccountId s' k = skToAccountId s k"
  by (auto simp: revertData_def Let_def updateData_accountId getStatus_def split: option.splits)

lemma moveRecord_keeps_accounts:
  assumes m: "moveRecord sk toAccountId None s = Some (c, s')"
    and nocopy: "map_of (created s) sk = None \<or> map_of (created s) sk = Some None"
    and inv: "mintedBelowCounter s" and ty: "skToType s sk = Some T"
    and k: "skToType s k \<noteq> None"
    and clean: "k \<noteq> sk \<or> getStatus s sk \<noteq> (READY OR NEW OR DIRTY)"
  shows "skToAccountId s' k = skToAccountId s k"
proof -
  from m nocopy obtain s1 where
    g: "getStoreKey toAccountId (skToType s sk) None s = Some (c, s1)"
    by (cases "getStoreKey toAccountId (skToType s sk) None s")
       (auto simp: moveRecord_def Let_def split: option.splits)
  define s2 where "s2 = changeRecordStoreKey sk c (createRecord c (skToData s sk) (Some sk) s1)"
  from m nocopy g obtain s3 where
    r: "revertData sk s2 = Some s3"
    and d: "destroyRecord sk (Some c) s3 = Some s'"
    unfolding s2_def
    by (cases "revertData sk (changeRecordStoreKey sk c
                 (createRecord c (skToData s sk) (Some sk) s1))")
       (auto simp: moveRecord_def Let_def split: option.splits)
  note gm = getStoreKey_minted [OF g]
  have fresh: "skToType s c = None" using inv gm(1) by (simp add: mintedBelowCounter_def)
  with ty have ne: "c \<noteq> sk" by auto
  have a1: "skToAccountId s1 k = skToAccountId s k"
    using getStoreKey_assignment [OF g] inv k by (auto simp: assignmentKept_def)
  have a2: "skToAccountId s2 k = skToAccountId s1 k" by (simp add: s2_def)
  have st2: "getStatus s2 sk = getStatus s sk"
  proof -
    have "skToStatus s2 sk = skToStatus s sk"
      using getStoreKey_status [OF g] ne createRecord_status_other [of c sk]
      by (simp add: s2_def changeRecordStoreKey_def split: option.splits)
    then show ?thesis by (simp add: getStatus_def)
  qed
  have a3: "skToAccountId s3 k = skToAccountId s2 k"
  proof (cases "k = sk")
    case True
    with clean st2 have "getStatus s2 sk \<noteq> (READY OR NEW OR DIRTY)" by simp
    then show ?thesis by (rule revertData_accountId_clean [OF r])
  next
    case False
    then show ?thesis by (rule revertData_accountId_other [OF r])
  qed
  have "sameAssignment s3 s'" using d by (rule destroyRecord_assignment)
  then have "skToAccountId s' k = skToAccountId s3 k" by (simp add: sameAssignment_def)
  with a1 a2 a3 show ?thesis by simp
qed

text \<open>
  Claim C8 as stated fails for the account id: \<^verbatim>\<open>updateData\<close> on a record that is
  READY|NEW|DIRTY re-assigns the account id of its store key when the data carries
  one (lines 1714-1719), and \<^verbatim>\<open>addAccount\<close> with a \<^verbatim>\<open>replaceAccountId\<close>
  re-labels every store key of the replaced account (lines 439-444).
\<close>

theorem accountId_is_reassigned:
  "skToAccountId exCreated (K 1) = Some (VStr ''acc'')
   \<and> skToAccountId (snd (updateData (K 1) [(''accountId'', VStr ''other'')] True exCreated)) (K 1)
       = Some (VStr ''other'')
   \<and> skToAccountId exMinted (K 1) = Some (VStr ''acc'')
   \<and> skToAccountId (addAccount ''real'' (Some ''acc'') None exMinted) (K 1)
       = Some (VStr ''real'')"
  by (simp add: exCreated_def exMinted_def model_defs)

text \<open>
  Claim C8, amended.  In a store whose counter is above every store key that has a
  type (as in every store reached from a new one), every operation of the store
  keeps that property and keeps the Type of every store key that has one.  Every
  operation other than \<^verbatim>\<open>addAccount\<close>, \<^verbatim>\<open>updateData\<close> and the operations that
  can call \<^verbatim>\<open>updateData\<close> keeps the account id of every such store key as well.
  \<^verbatim>\<open>updateData\<close> changes the account id of its own store key only, and only when
  the record is loaded, its status is exactly READY|NEW|DIRTY and the data carries a
  truthy \<^verbatim>\<open>accountId\<close>; \<^verbatim>\<open>addAccount\<close> changes exactly the store keys of an
  existing account named by \<^verbatim>\<open>replaceAccountId\<close>.  \<^verbatim>\<open>moveRecord\<close> of a record
  that has no copy yet mints a new store key, which had no type before, gives it the
  type of the original and the target account, and leaves the type of the original
  store key as it was; it leaves the account id of every other store key that has a
  type as it was, and that of the original store key too unless the status of the
  original is exactly READY|NEW|DIRTY.
\<close>

theorem type_and_account_assignment:
  assumes inv: "mintedBelowCounter s" and step: "applyOp op s = Some s'"
  shows "mintedBelowCounter s'
    \<and> (\<forall>sk T. skToType s sk = Some T \<longrightarrow> skToType s' sk = Some T)
    \<and> (\<not> mayWriteAccountId op \<longrightarrow>
         (\<forall>sk T. skToType s sk = Some T \<longrightarrow> skToAccountId s' sk = skToAccountId s sk))
    \<and> (\<forall>sk d b k. op = UpdateData sk d b \<longrightarrow>
         skToAccountId s' k =
           (if k = sk \<and> skToData s sk \<noteq> None \<and> getStatus s sk = (READY OR NEW OR DIRTY)
                 \<and> truthy (js_get d ''accountId'')
            then Some (js_get d ''accountId'') else skToAccountId s k))
    \<and> (\<forall>a r c k. op = AddAccount a r c \<longrightarrow>
         skToAccountId s' k =
           (if \<exists>x. r = Some x \<and> x \<noteq> [] \<and> accounts s x \<noteq> None
                    \<and> skToAccountId s k = Some (VStr x)
            then Some (VStr a) else skToAccountId s k))
    \<and> (\<forall>sk toAccountId c s1 T.
          moveRecord sk toAccountId None s = Some (c, s1)
          \<and> (map_of (created s) sk = None \<or> map_of (created s) sk = Some None)
          \<and> skToType s sk = Some T \<longrightarrow>
          c = K (nextStoreKey s) \<and> c \<noteq> sk \<and> skToType s c = None
          \<and> skToType s1 c = Some T \<and> skToAccountId s1 c = Some (VStr toAccountId)
          \<and> skToType s1 sk = Some T
          \<and> (\<forall>k. skToType s k \<noteq> None
                   \<and> (k \<noteq> sk \<or> getStatus s sk \<noteq> (READY OR NEW OR DIRTY)) \<longrightarrow>
                 skToAccountId s1 k = skToAccountId s k))"
proof -
  have 1: "mintedBelowCounter s' \<and> (\<forall>sk T. skToType s sk = Some T \<longrightarrow> skToType s' sk = Some T)"
    using applyOp_typesKept [OF step] inv by (simp add: typesKept_def)
  have 2: "\<not> mayWriteAccountId op \<longrightarrow>
         (\<forall>sk T. skToType s sk = Some T \<longrightarrow> skToAccountId s' sk = skToAccountId s sk)"
    using applyOp_assignmentKept [OF step] inv by (auto simp: assignmentKept_def)
  have 3: "\<forall>sk d b k. op = UpdateData sk d b \<longrightarrow>
         skToAccountId s' k =
           (if k = sk \<and> skToData s sk \<noteq> None \<and> getStatus s sk = (READY OR NEW OR DIRTY)
                 \<and> truthy (js_get d ''accountId'')
            then Some (js_get d ''accountId'') else skToAccountId s k)"
    using step by (auto simp: updateData_accountId)
  have 4: "\<forall>a r c k. op = AddAccount a r c \<longrightarrow>
         skToAccountId s' k =
           (if \<exists>x. r = Some x \<and> x \<noteq> [] \<and> accounts s x \<noteq> None
                    \<and> skToAccountId s k = Some (VStr x)
            then Some (VStr a) else skToAccountId s k)"
    using step by (auto simp: addAccount_accountId)
  have 5: "\<forall>sk toAccountId c s1 T.
          moveRecord sk toAccountId None s = Some (c, s1)
          \<and> (map_of (created s) sk = None \<or> map_of (created s) sk = Some None)
          \<and> skToType s sk = Some T \<longrightarrow>
          c = K (nextStoreKey s) \<and> c \<noteq> sk \<and> skToType s c = None
          \<and> skToType s1 c = Some T \<and> skToAccountId s1 c = Some (VStr toAccountId)
          \<and> skToType s1 sk = Some T
          \<and> (\<forall>k. skToType s k \<noteq> None
                   \<and> (k \<noteq> sk \<or> getStatus s sk \<noteq> (READY OR NEW OR DIRTY)) \<longrightarrow>
                 skToAccountId s1 k = skToAccountId s k)"
  proof (intro allI impI)
    fix sk toAccountId c s1 T
    assume a: "moveRecord sk toAccountId None s = Some (c, s1)
          \<and> (map_of (created s) sk = None \<or> map_of (created s) sk = Some None)
          \<and> skToType s sk = Some T"
    then have m: "moveRecord sk toAccountId None s = Some (c, s1)"
      and n: "map_of (created s) sk = None \<or> map_of (created s) sk = Some None"
      and t: "skToType s sk = Some T" by simp_all
    have "\<forall>k. skToType s k \<noteq> None
                   \<and> (k \<noteq> sk \<or> getStatus s sk \<noteq> (READY OR NEW OR DIRTY)) \<longrightarrow>
                 skToAccountId s1 k = skToAccountId s k"
      using moveRecord_keeps_accounts [OF m n inv t] by blast
    with moveRecord_mints [OF m n inv t]
    show "c = K (nextStoreKey s) \<and> c \<noteq> sk \<and> skToType s c = None
          \<and> skToType s1 c = Some T \<and> skToAccountId s1 c = Some (VStr toAccountId)
          \<and> skToType s1 sk = Some T
          \<and> (\<forall>k. skToType s k \<noteq> None
                   \<and> (k \<noteq> sk \<or> getStatus s sk \<noteq> (READY OR NEW OR DIRTY)) \<longrightarrow>
                 skToAccountId s1 k = skToAccountId s k)" by blast
  qed
  from 1 2 3 4 5 show ?thesis by blast
qed

lemma exTwoAccounts_move: "moveRecord (K 1) ''acc2'' None exTwoAccounts \<noteq> None"
  by (simp add: exTwoAccounts_def exLoaded_def model_defs
        moveRecord_def revertData_def destroyRecord_def changeRecordStoreKey_def
        unloadRecord_def mayUnloadRecord_def)

theorem type_and_account_assignment_witness:
  "mintedBelowCounter exCreated
   \<and> skToType (snd (updateData (K 1) [(''accountId'', VStr ''other'')] True exCreated)) (K 1)
       = Some exType
   \<and> mintedBelowCounter exTwoAccounts
   \<and> fst (the (moveRecord (K 1) ''acc2'' None exTwoAccounts)) = K 2
   \<and> skToAccountId (snd (the (moveRecord (K 1) ''acc2'' None exTwoAccounts))) (K 2)
       = Some (VStr ''acc2'')
   \<and> skToType (snd (the (moveRecord (K 1) ''acc2'' None exTwoAccounts))) (K 1) = Some exType
   \<and> skToAccountId (snd (the (moveRecord (K 1) ''acc2'' None exTwoAccounts))) (K 1)
       = Some (VStr ''acc'')"
proof -
  have i1: "mintedBelowCounter exCreated"
    by (simp add: mintedBelowCounter_def exCreated_def exMinted_def model_defs)
  have t1: "skToType exCreated (K 1) = Some exType"
    by (simp add: exCreated_def exMinted_def model_defs)
  have o1: "applyOp (UpdateData (K 1) [(''accountId'', VStr ''other'')] True) exCreated
              = Some (snd (updateData (K 1) [(''accountId'', VStr ''other'')] True exCreated))"
    by simp
  have i2: "mintedBelowCounter exTwoAccounts"
    by (simp add: mintedBelowCounter_def exTwoAccounts_def exLoaded_def model_defs)
  have t2: "skToType exTwoAccounts (K 1) = Some exType"
    by (simp add: exTwoAccounts_def exLoaded_def model_defs)
  have n2: "nextStoreKey exTwoAccounts = 2" "map_of (created exTwoAccounts) (K 1) = None"
    by (simp_all add: exTwoAccounts_def exLoaded_def model_defs)
  have o2: "applyOp (SetStatus (K 1) READY) exTwoAccounts = Some (setStatus (K 1) READY exTwoAccounts)"
    by simp
  have m: "moveRecord (K 1) ''acc2'' None exTwoAccounts
             = Some (fst (the (moveRecord (K 1) ''acc2'' None exTwoAccounts)),
                     snd (the (moveRecord (K 1) ''acc2'' None exTwoAccounts)))"
    using exTwoAccounts_move by auto
  note T1 = type_and_account_assignment [OF i1 o1]
  note T2 = type_and_account_assignment [OF i2 o2]
  have A: "skToType (snd (updateData (K 1) [(''accountId'', VStr ''other'')] True exCreated)) (K 1)
       = Some exType"
    using T1 [THEN conjunct2, THEN conjunct1, rule_format, OF t1] .
  note M = T2 [THEN conjunct2, THEN conjunct2, THEN conjunct2, THEN conjunct2, THEN conjunct2,
               rule_format, of "K 1" "''acc2''" _ _ exType]
  note M1 = M [OF conjI [OF m conjI [OF disjI1 [OF n2(2)] t2]]]
  have B: "fst (the (moveRecord (K 1) ''acc2'' None exTwoAccounts)) = K 2
   \<and> skToAccountId (snd (the (moveRecord (K 1) ''acc2'' None exTwoAccounts))) (K 2)
       = Some (VStr ''acc2'')
   \<and> skToType (snd (the (moveRecord (K 1) ''acc2'' None exTwoAccounts))) (K 1) = Some exType"
    using M1 n2(1) by (elim conjE) simp
  have st: "getStatus exTwoAccounts (K 1) \<noteq> (READY OR NEW OR DIRTY)"
    by (simp add: exTwoAccounts_def exLoaded_def model_defs)
  have ac: "skToAccountId exTwoAccounts (K 1) = Some (VStr ''acc'')"
    by (simp add: exTwoAccounts_def exLoaded_def model_defs)
  have "skToAccountId (snd (the (moveRecord (K 1) ''acc2'' None exTwoAccounts))) (K 1)
          = skToAccountId exTwoAccounts (K 1)"
    using M1 [THEN conjunct2, THEN conjunct2, THEN conjunct2, THEN conjunct2, THEN conjunct2,
              THEN conjunct2, rule_format, of "K 1"] t2 st by simp
  with ac have C: "skToAccountId (snd (the (moveRecord (K 1) ''acc2'' None exTwoAccounts))) (K 1)
       = Some (VStr ''acc'')" by simp
  from i1 A i2 B C show ?thesis by simp
qed

subsection \<open>invertUpdate\<close>

text \<open>
  Claim C10.  A single application of \<^verbatim>\<open>invertUpdate\<close> swaps the removed and the
  added index arrays, swaps the removed and the added store key arrays, and replaces
  the total by the total plus the number of removed store keys minus the number of
  added store keys of the original update; the other fields are kept.  Applying it
  twice gives back the original update.
\<close>

theorem invertUpdate_involution:
  "removedIndexes (invertUpdate u) = addedIndexes u
   \<and> addedIndexes (invertUpdate u) = removedIndexes u
   \<and> removedStoreKeys (invertUpdate u) = addedStoreKeys u
   \<and> addedStoreKeys (invertUpdate u) = removedStoreKeys u
   \<and> total_u (invertUpdate u)
       = total_u u + int (length (removedStoreKeys u)) - int (length (addedStoreKeys u))
   \<and> truncateAtFirstGap (invertUpdate u) = truncateAtFirstGap u
   \<and> upToId (invertUpdate u) = upToId u
   \<and> invertUpdate (invertUpdate u) = u"
  by (simp add: invertUpdate_def Let_def)

section \<open>Properties of the WindowedQuery\<close>

subsection \<open>The confirmed preemptive updates\<close>






lemma exPreempted_reached:
  "clientDidGenerateUpdate 1 exEnv (exRemove (K 2)) exQuery = Ok exPreempted"
  by code_simp

lemma exPreemptedTwice_reached:
  "clientDidGenerateUpdate 1 exEnv (exRemove (K 3)) exPreempted = Ok exPreemptedTwice"
  by code_simp

lemma exFetching_status: "q_status exFetching AND DIRTY = 0"
  by code_simp




subsection \<open>A packet of ids for another query state\<close>




lemma recalculateFetchedWindows_packets:
  "recalculateFetchedWindows a b (q\<lparr>waitingPackets := w\<rparr>)
   = bind_result (recalculateFetchedWindows a b q) (\<lambda>q'. Ok (q'\<lparr>waitingPackets := w\<rparr>))"
  by (cases b) (simp_all add: recalculateFetchedWindows_def bind_result_def Let_def)

lemma recalculateFetchedWindows_frame:
  "recalculateFetchedWindows a b q = Ok q' \<Longrightarrow>
   waitingPackets q' = waitingPackets q \<and> queryState q' = queryState q
   \<and> preemptiveUpdates q' = preemptiveUpdates q"
  by (auto simp add: recalculateFetchedWindows_def Let_def split: if_splits)















end
